(* ===== verification/Prelude.thy ===== *)
theory Prelude
  imports Main
begin

text \<open>
  Shared vocabulary of the development: the fact collections the component theories
  fill, the type of clock readings, and generic lemmas on lists, options and sums that
  more than one component proof uses.
\<close>

named_theorems js_simps "evaluation rules of the JavaScript value model"
named_theorems run_simps "rules that run effect programs (sequential and interleaved)"

text \<open>\<open>Date.now()\<close> returns whole milliseconds since the epoch.\<close>

type_synonym ms = int

subsection \<open>Lists\<close>

text \<open>Prepending a one-element list, as a function: the form \<open>map_option\<close> leaves
  after an encoder writes one code unit.\<close>

lemma append_singleton_fun: "(@) [x] = (#) x"
  by (rule ext) simp

end
