(* ===== verification/JS_Values.thy ===== *)
theory JS_Values
  imports Prelude
begin

text \<open>
  The fragment of JavaScript's value semantics that \<open>src/server.js\<close> relies on: JSON
  values as produced by \<open>response.json()\<close>, \<open>undefined\<close>, numbers with \<open>NaN\<close>,
  truthiness (\<open>&&\<close>, \<open>||\<close>, \<open>if\<close>), \<open>ToNumber\<close> and \<open>ToString\<close> coercions,
  property access (which throws a \<open>TypeError\<close> on \<open>null\<close> and \<open>undefined\<close>),
  \<open>String.prototype.substring\<close> and strict equality with a number.

  Strings are lists of \<open>char\<close>, read as UTF-16 code units below 256 (the Latin-1
  range), so \<open>length\<close> is JavaScript's \<open>length\<close>. Numbers are integers: the
  clock is in whole milliseconds and the token endpoint's \<open>expires_in\<close> is an integral
  number of seconds (RFC 6749, section 5.1); fractional numbers are outside the model.
\<close>

datatype jval =
    JNull
  | JBool bool
  | JNum int
  | JStr string
  | JArr "jval list"
  | JObj "(string \<times> jval) list"

text \<open>A JavaScript value that may be \<open>undefined\<close> (\<open>None\<close>).\<close>

type_synonym jsval = "jval option"

text \<open>Results of arithmetic: \<open>undefined - 300\<close> is \<open>NaN\<close>.\<close>

datatype jsnum = Num int | NaN

text \<open>
  Exceptions that reach the \<open>catch\<close> blocks of the server: the runtime's
  \<open>TypeError\<close> (property of \<open>null\<close>/\<open>undefined\<close>, calling a missing method, an
  invalid URL handed to \<open>fetch\<close>), \<open>SyntaxError\<close> from \<open>response.json()\<close> on a body
  that is not JSON, a rejected \<open>fetch\<close> (network failure), and the two
  \<open>new Error(...)\<close> the server throws itself on a non-2xx status.
\<close>

datatype js_error =
    TypeError
  | SyntaxError
  | NetworkError
  | Token_request_failed nat
  | Api_status nat

subsection \<open>Truthiness\<close>

fun truthy :: "jsval \<Rightarrow> bool" where
  "truthy None = False"
| "truthy (Some JNull) = False"
| "truthy (Some (JBool b)) = b"
| "truthy (Some (JNum n)) = (n \<noteq> 0)"
| "truthy (Some (JStr s)) = (s \<noteq> [])"
| "truthy (Some (JArr xs)) = True"
| "truthy (Some (JObj kvs)) = True"

text \<open>Truthiness of a variable holding \<open>null\<close> (\<open>None\<close>) or a number.\<close>

fun num_truthy :: "jsnum option \<Rightarrow> bool" where
  "num_truthy None = False"
| "num_truthy (Some NaN) = False"
| "num_truthy (Some (Num n)) = (n \<noteq> 0)"

subsection \<open>Numbers\<close>

fun num_add :: "jsnum \<Rightarrow> jsnum \<Rightarrow> jsnum" where
  "num_add (Num a) (Num b) = Num (a + b)"
| "num_add _ _ = NaN"

fun num_sub :: "jsnum \<Rightarrow> jsnum \<Rightarrow> jsnum" where
  "num_sub (Num a) (Num b) = Num (a - b)"
| "num_sub _ _ = NaN"

fun num_mul :: "jsnum \<Rightarrow> jsnum \<Rightarrow> jsnum" where
  "num_mul (Num a) (Num b) = Num (a * b)"
| "num_mul _ _ = NaN"

text \<open>\<open>a < b\<close> on numbers; every comparison with \<open>NaN\<close> is false. A \<open>null\<close>
  operand converts to \<open>0\<close>.\<close>

fun num_less :: "jsnum \<Rightarrow> jsnum \<Rightarrow> bool" where
  "num_less (Num a) (Num b) = (a < b)"
| "num_less _ _ = False"

definition num_of_nullable :: "jsnum option \<Rightarrow> jsnum" where
  "num_of_nullable x = (case x of None \<Rightarrow> Num 0 | Some n \<Rightarrow> n)"

subsection \<open>ToString\<close>

fun nat_decimal :: "nat \<Rightarrow> string" where
  "nat_decimal n =
     (if n < 10 then [char_of (48 + n)]
      else nat_decimal (n div 10) @ [char_of (48 + n mod 10)])"

definition int_decimal :: "int \<Rightarrow> string" where
  "int_decimal i = (if i < 0 then CHR ''-'' # nat_decimal (nat (- i)) else nat_decimal (nat i))"

text \<open>\<open>Array.prototype.join\<close> with the default separator writes \<open>null\<close> elements
  as the empty string.\<close>

fun comma_join :: "string list \<Rightarrow> string" where
  "comma_join [] = []"
| "comma_join [x] = x"
| "comma_join (x # xs) = x @ '','' @ comma_join xs"

fun js_to_string :: "jval \<Rightarrow> string" where
  "js_to_string JNull = ''null''"
| "js_to_string (JBool b) = (if b then ''true'' else ''false'')"
| "js_to_string (JNum n) = int_decimal n"
| "js_to_string (JStr s) = s"
| "js_to_string (JArr xs) =
     comma_join (map (\<lambda>x. if x = JNull then [] else js_to_string x) xs)"
| "js_to_string (JObj kvs) = ''[object Object]''"

text \<open>A value interpolated into a template literal or concatenated to a string.\<close>

definition js_string_of :: "jsval \<Rightarrow> string" where
  "js_string_of v = (case v of None \<Rightarrow> ''undefined'' | Some x \<Rightarrow> js_to_string x)"

subsection \<open>ToNumber\<close>

text \<open>
  \<open>StringToNumber\<close> for the literals an integer model can hold: white space
  (ASCII and NBSP) is trimmed, the empty string is \<open>0\<close>, and an optionally signed run of
  decimal digits is its value. Other numeric literals (fractions, exponents, hexadecimal,
  \<open>Infinity\<close>) are read as \<open>NaN\<close> here; the server only coerces \<open>expires_in\<close>,
  which RFC 6749 makes an integral JSON number.
\<close>

definition js_space :: "char \<Rightarrow> bool" where
  "js_space c \<longleftrightarrow> of_char c \<in> {9::nat, 10, 11, 12, 13, 32, 160}"

definition js_trim :: "string \<Rightarrow> string" where
  "js_trim s = rev (dropWhile js_space (rev (dropWhile js_space s)))"

definition is_digit :: "char \<Rightarrow> bool" where
  "is_digit c \<longleftrightarrow> 48 \<le> (of_char c :: nat) \<and> (of_char c :: nat) \<le> 57"

definition digits_value :: "string \<Rightarrow> nat" where
  "digits_value s = foldl (\<lambda>acc c. 10 * acc + (of_char c - 48)) 0 s"

definition decimal_digits :: "string \<Rightarrow> nat option" where
  "decimal_digits s = (if s \<noteq> [] \<and> list_all is_digit s then Some (digits_value s) else None)"

definition string_to_number :: "string \<Rightarrow> jsnum" where
  "string_to_number s =
     (let t = js_trim s in
      if t = [] then Num 0
      else (case t of
              c # r \<Rightarrow>
                if c = CHR ''-'' then (case decimal_digits r of Some n \<Rightarrow> Num (- int n) | None \<Rightarrow> NaN)
                else if c = CHR ''+'' then (case decimal_digits r of Some n \<Rightarrow> Num (int n) | None \<Rightarrow> NaN)
                else (case decimal_digits t of Some n \<Rightarrow> Num (int n) | None \<Rightarrow> NaN)
            | [] \<Rightarrow> Num 0))"

fun to_number :: "jsval \<Rightarrow> jsnum" where
  "to_number None = NaN"
| "to_number (Some JNull) = Num 0"
| "to_number (Some (JBool b)) = Num (if b then 1 else 0)"
| "to_number (Some (JNum n)) = Num n"
| "to_number (Some (JStr s)) = string_to_number s"
| "to_number (Some (JArr xs)) = string_to_number (js_to_string (JArr xs))"
| "to_number (Some (JObj kvs)) = NaN"

subsection \<open>Property access\<close>

text \<open>
  \<open>v.k\<close> and \<open>v[k]\<close> for the keys the server reads (\<open>access_token\<close>,
  \<open>expires_in\<close>, \<open>length\<close>, \<open>0\<close>, \<open>logo_url\<close>): own members of a JSON object
  (the last duplicate wins, as \<open>JSON.parse\<close> leaves it), \<open>length\<close> and indices of
  arrays and strings, \<open>undefined\<close> on numbers and booleans, and a \<open>TypeError\<close> on
  \<open>null\<close> and \<open>undefined\<close>. Prototype members (\<open>toString\<close>, \<open>constructor\<close>, ...)
  are not modelled: none of these keys names one.
\<close>

definition array_index :: "string \<Rightarrow> nat option" where
  "array_index k = (if k = ''0'' then Some 0
                    else if k \<noteq> [] \<and> hd k \<noteq> CHR ''0'' then decimal_digits k else None)"

fun get_prop :: "jsval \<Rightarrow> string \<Rightarrow> js_error + jsval" where
  "get_prop None k = Inl TypeError"
| "get_prop (Some JNull) k = Inl TypeError"
| "get_prop (Some (JObj kvs)) k = Inr (map_of (rev kvs) k)"
| "get_prop (Some (JArr xs)) k =
     Inr (if k = ''length'' then Some (JNum (int (length xs)))
          else (case array_index k of
                  Some i \<Rightarrow> if i < length xs then Some (xs ! i) else None
                | None \<Rightarrow> None))"
| "get_prop (Some (JStr s)) k =
     Inr (if k = ''length'' then Some (JNum (int (length s)))
          else (case array_index k of
                  Some i \<Rightarrow> if i < length s then Some (JStr [s ! i]) else None
                | None \<Rightarrow> None))"
| "get_prop (Some (JNum n)) k = Inr None"
| "get_prop (Some (JBool b)) k = Inr None"

subsection \<open>Strings and equality\<close>

text \<open>\<open>v.substring(a, b)\<close>: both bounds clamped to \<open>[0, length]\<close> and swapped if
  reversed; any value other than a string has no \<open>substring\<close> method, so the call
  throws a \<open>TypeError\<close>.\<close>

definition js_substring :: "jsval \<Rightarrow> int \<Rightarrow> int \<Rightarrow> js_error + string" where
  "js_substring v a b =
     (case v of
        Some (JStr s) \<Rightarrow>
          let n = int (length s);
              i = min (max a 0) n; j = min (max b 0) n
          in Inr (take (nat (max i j - min i j)) (drop (nat (min i j)) s))
      | _ \<Rightarrow> Inl TypeError)"

text \<open>\<open>v === 0\<close>.\<close>

definition strict_eq_zero :: "jsval \<Rightarrow> bool" where
  "strict_eq_zero v \<longleftrightarrow> v = Some (JNum 0)"

subsection \<open>Evaluation lemmas\<close>

lemma js_substring_prefix [js_simps]:
  "0 \<le> b \<Longrightarrow> js_substring (Some (JStr s)) 0 b = Inr (take (nat b) s)"
proof (cases "b \<le> int (length s)")
  case True
  moreover assume "0 \<le> b"
  ultimately show ?thesis by (simp add: js_substring_def Let_def)
next
  case False
  then show ?thesis by (simp add: js_substring_def Let_def)
qed

lemma js_substring_not_string [js_simps]:
  "(\<And>s. v \<noteq> Some (JStr s)) \<Longrightarrow> js_substring v a b = Inl TypeError"
  by (auto simp: js_substring_def split: option.split jval.split)

end
