(* ===== verification/Effects.thy ===== *)
theory Effects
  imports JS_Values
begin

text \<open>
  The effects an \<open>async\<close> function of \<open>src/server.js\<close> performs, as a datatype of
  programs: reading and writing the module-level state (\<open>Get\<close>, \<open>Put\<close>), reading the
  clock (\<open>Now\<close>, \<open>Date.now()\<close>), writing to the console (\<open>Log\<close>) and suspending
  on an HTTP exchange (\<open>Await\<close>, one \<open>await fetch(...)\<close> together with the
  \<open>await response.json()\<close> that follows it). Everything between two \<open>Await\<close>s runs
  without interruption, as the code between two \<open>await\<close>s does on Node's event loop.
  A program is run in two ways: \<open>exec\<close> below runs one request alone against a
  network oracle; theory \<open>Concurrency\<close> interleaves many at their \<open>Await\<close>s.
\<close>

subsection \<open>HTTP exchanges\<close>

record http_request =
  verb :: string
  url :: string
  headers :: "(string \<times> string) list"
  body :: "jval option"

text \<open>What \<open>response.json()\<close> finds: a JSON value, or text that does not parse.\<close>

datatype payload = Json jval | Invalid_json

text \<open>The outcome of \<open>fetch\<close>: the promise rejects (connection refused, DNS, reset),
  or a response with its status and body arrives.\<close>

datatype http_outcome = Network_failure | Response nat payload

definition response_ok :: "nat \<Rightarrow> bool" where
  "response_ok status \<longleftrightarrow> 200 \<le> status \<and> status \<le> 299"

datatype log_entry = Info string | Error string js_error

subsection \<open>Programs\<close>

datatype ('s, 'a) prog =
    Ret 'a
  | Get "'s \<Rightarrow> ('s, 'a) prog"
  | Put 's "('s, 'a) prog"
  | Now "ms \<Rightarrow> ('s, 'a) prog"
  | Log log_entry "('s, 'a) prog"
  | Await http_request "http_outcome \<Rightarrow> ('s, 'a) prog"

primrec bind :: "('s, 'a) prog \<Rightarrow> ('a \<Rightarrow> ('s, 'b) prog) \<Rightarrow> ('s, 'b) prog" where
  "bind (Ret a) f = f a"
| "bind (Get k) f = Get (\<lambda>s. bind (k s) f)"
| "bind (Put s p) f = Put s (bind p f)"
| "bind (Now k) f = Now (\<lambda>t. bind (k t) f)"
| "bind (Log e p) f = Log e (bind p f)"
| "bind (Await r k) f = Await r (\<lambda>v. bind (k v) f)"

text \<open>\<open>await p\<close> inside a \<open>try\<close>: a rejection skips the rest of the block.\<close>

definition bind_exn :: "('s, js_error + 'a) prog \<Rightarrow> ('a \<Rightarrow> ('s, js_error + 'b) prog)
                        \<Rightarrow> ('s, js_error + 'b) prog" where
  "bind_exn p f = bind p (\<lambda>r. case r of Inl e \<Rightarrow> Ret (Inl e) | Inr a \<Rightarrow> f a)"

text \<open>\<open>try { p } catch (error) { h error }\<close>.\<close>

definition try_catch :: "('s, js_error + 'a) prog \<Rightarrow> (js_error \<Rightarrow> ('s, js_error + 'a) prog)
                         \<Rightarrow> ('s, js_error + 'a) prog" where
  "try_catch p h = bind p (\<lambda>r. case r of Inl e \<Rightarrow> h e | Inr a \<Rightarrow> Ret (Inr a))"

subsection \<open>fetch and response.json()\<close>

text \<open>
  node-fetch parses the URL before any I/O: a relative or non-HTTP URL (for instance
  \<open>undefined/api/users\<close> when \<open>FORTIUM_API_URL\<close> is unset) rejects with a
  \<open>TypeError\<close> and sends nothing. The check below is on the scheme; any other failure is
  an outcome the network may give.
\<close>

definition fetchable :: "string \<Rightarrow> bool" where
  "fetchable u \<longleftrightarrow> take 7 u = ''http://'' \<or> take 8 u = ''https://''"

definition js_fetch :: "http_request \<Rightarrow> ('s, js_error + nat \<times> payload) prog" where
  "js_fetch req =
     (if fetchable (url req)
      then Await req (\<lambda>out. case out of
                               Network_failure \<Rightarrow> Ret (Inl NetworkError)
                             | Response status pl \<Rightarrow> Ret (Inr (status, pl)))
      else Ret (Inl TypeError))"

definition response_json :: "payload \<Rightarrow> js_error + jval" where
  "response_json pl = (case pl of Json v \<Rightarrow> Inr v | Invalid_json \<Rightarrow> Inl SyntaxError)"

subsection \<open>Running one request alone\<close>

text \<open>The network answers a request sent at a time with the time its response body
  has been read and the outcome.\<close>

type_synonym net = "http_request \<Rightarrow> ms \<Rightarrow> ms \<times> http_outcome"

datatype event = Sent http_request | Logged log_entry

record ('s, 'a) run =
  ret :: 'a
  state :: 's
  clock :: ms
  events :: "event list"

primrec exec :: "net \<Rightarrow> ('s, 'a) prog \<Rightarrow> 's \<Rightarrow> ms \<Rightarrow> ('s, 'a) run" where
  "exec n (Ret a) s t = \<lparr>ret = a, state = s, clock = t, events = []\<rparr>"
| "exec n (Get k) s t = exec n (k s) s t"
| "exec n (Put s' p) s t = exec n p s' t"
| "exec n (Now k) s t = exec n (k t) s t"
| "exec n (Log e p) s t = (let r = exec n p s t in r\<lparr>events := Logged e # events r\<rparr>)"
| "exec n (Await q k) s t =
     (case n q t of (t', v) \<Rightarrow>
        let r = exec n (k v) s t' in r\<lparr>events := Sent q # events r\<rparr>)"

fun sent :: "event list \<Rightarrow> http_request list" where
  "sent [] = []"
| "sent (Sent q # evs) = q # sent evs"
| "sent (Logged e # evs) = sent evs"

text \<open>A network that answers every request with the same outcome after a fixed
  latency: the environment of the witnesses.\<close>

definition net_after :: "ms \<Rightarrow> http_outcome \<Rightarrow> net" where
  "net_after d v = (\<lambda>q t. (t + d, v))"

definition net_monotone :: "net \<Rightarrow> bool" where
  "net_monotone n \<longleftrightarrow> (\<forall>q t. t \<le> fst (n q t))"

subsection \<open>Lemmas on running programs\<close>

lemma net_after_apply [simp]: "net_after d v q t = (t + d, v)"
  by (simp add: net_after_def)

lemma sent_append [simp]: "sent (xs @ ys) = sent xs @ sent ys"
  by (induction xs rule: sent.induct) simp_all

lemma exec_bind [run_simps]:
  "exec n (bind p f) s t =
     (let r = exec n p s t; r' = exec n (f (ret r)) (state r) (clock r)
      in r'\<lparr>events := events r @ events r'\<rparr>)"
proof (induction p arbitrary: s t)
  case (Await q k)
  then show ?case by (simp add: Let_def split: prod.split)
qed (simp_all add: Let_def)

lemma exec_bind_exn [run_simps]:
  "exec n (bind_exn p f) s t =
     (let r = exec n p s t
      in case ret r of
           Inl e \<Rightarrow> \<lparr>ret = Inl e, state = state r, clock = clock r, events = events r\<rparr>
         | Inr a \<Rightarrow> let r' = exec n (f a) (state r) (clock r)
                   in r'\<lparr>events := events r @ events r'\<rparr>)"
  by (simp add: bind_exn_def exec_bind Let_def split: sum.split)

lemma exec_try_catch [run_simps]:
  "exec n (try_catch p h) s t =
     (let r = exec n p s t
      in case ret r of
           Inl e \<Rightarrow> let r' = exec n (h e) (state r) (clock r)
                   in r'\<lparr>events := events r @ events r'\<rparr>
         | Inr a \<Rightarrow> r\<lparr>ret := Inr a\<rparr>)"
  by (simp add: try_catch_def exec_bind Let_def split: sum.split)

lemma exec_js_fetch [run_simps]:
  "exec n (js_fetch req) s t =
     (if fetchable (url req)
      then (case n req t of (t', v) \<Rightarrow>
              \<lparr>ret = (case v of Network_failure \<Rightarrow> Inl NetworkError
                             | Response status pl \<Rightarrow> Inr (status, pl)),
               state = s, clock = t', events = [Sent req]\<rparr>)
      else \<lparr>ret = Inl TypeError, state = s, clock = t, events = []\<rparr>)"
  by (simp add: js_fetch_def split: prod.split http_outcome.split)

text \<open>Under a network whose answers never precede their requests, time does not run
  backwards.\<close>

lemma exec_clock_mono:
  assumes "net_monotone n"
  shows "t \<le> clock (exec n p s t)"
proof (induction p arbitrary: s t)
  case (Await q k)
  obtain t' v where nq: "n q t = (t', v)" by (cases "n q t")
  with assms have "t \<le> t'" unfolding net_monotone_def by (metis fst_conv)
  moreover have "t' \<le> clock (exec n (k v) s t')" by (rule Await.IH) simp
  ultimately show ?case by (simp add: nq Let_def)
qed (simp_all add: Let_def)

end
