(* ===== verification/Token_Fetcher.thy ===== *)
theory Token_Fetcher
  imports Effects
begin

text \<open>
  The OAuth2 client-credentials exchange of \<open>getAccessToken\<close> in
  \<open>src/server.js\<close> (lines 26--44): the configuration read from \<open>process.env\<close>, the
  POST request to the token endpoint, the status check and the JSON parse. The result
  is the parsed body \<open>data\<close>, or the exception that ends the \<open>try\<close> block. It does
  not touch the cache: theory \<open>Token_Cache\<close> stores what it returns.
\<close>

subsection \<open>Configuration\<close>

text \<open>The environment variables the server reads; \<open>None\<close> is an unset variable,
  which \<open>process.env\<close> reports as \<open>undefined\<close>. \<open>FORTIUM_API_KEY\<close> and
  \<open>PORT\<close> are read only at start-up (theory \<open>Server_App\<close>), and \<open>NODE_ENV\<close> only by
  \<open>express()\<close>, which takes from it the mode of its error pages (theory \<open>Http_Stack\<close>).\<close>

record config =
  token_endpoint :: "string option"
  client_id :: "string option"
  client_secret :: "string option"
  audience :: "string option"
  api_url :: "string option"
  logodev_token :: "string option"
  logodev_search_token :: "string option"
  api_key :: "string option"
  port :: "string option"
  node_env :: "string option"

definition env_value :: "string option \<Rightarrow> jsval" where
  "env_value v = map_option JStr v"

text \<open>\<open>JSON.stringify\<close> leaves out members whose value is \<open>undefined\<close>.\<close>

fun json_members :: "(string \<times> jsval) list \<Rightarrow> (string \<times> jval) list" where
  "json_members [] = []"
| "json_members ((k, None) # kvs) = json_members kvs"
| "json_members ((k, Some v) # kvs) = (k, v) # json_members kvs"

subsection \<open>The token request\<close>

definition token_request :: "config \<Rightarrow> http_request" where
  "token_request cfg =
     \<lparr>verb = ''POST'',
      url = js_string_of (env_value (token_endpoint cfg)),
      headers = [(''Content-Type'', ''application/json'')],
      body = Some (JObj (json_members
               [(''client_id'', env_value (client_id cfg)),
                (''client_secret'', env_value (client_secret cfg)),
                (''audience'', env_value (audience cfg)),
                (''grant_type'', Some (JStr ''client_credentials''))]))\<rparr>"

text \<open>Lines 27--44: send the request, throw on a non-2xx status, parse the body.\<close>

definition fetch_token :: "config \<Rightarrow> ('s, js_error + jval) prog" where
  "fetch_token cfg =
     bind_exn (js_fetch (token_request cfg))
       (\<lambda>(status, pl).
          if \<not> response_ok status then Ret (Inl (Token_request_failed status))
          else Ret (response_json pl))"

text \<open>What the exchange yields for each outcome of the network: the pure function
  that \<open>fetch_token\<close> computes once the response has arrived.\<close>

definition token_reply :: "http_outcome \<Rightarrow> js_error + jval" where
  "token_reply v =
     (case v of
        Network_failure \<Rightarrow> Inl NetworkError
      | Response status pl \<Rightarrow>
          if \<not> response_ok status then Inl (Token_request_failed status) else response_json pl)"

text \<open>A fully configured deployment, used by the witnesses.\<close>

definition example_config :: config where
  "example_config =
     \<lparr>token_endpoint = Some ''https://auth.example.com/oauth/token'',
      client_id = Some ''logo-wall'', client_secret = Some ''s3cret'',
      audience = Some ''https://api.example.com'', api_url = Some ''https://api.example.com'',
      logodev_token = Some ''pk_live'', logodev_search_token = Some ''sk_live'',
      api_key = None, port = None, node_env = None\<rparr>"

subsection \<open>Behaviour\<close>

text \<open>One run of the exchange: at most one request, to the configured endpoint, no
  change of state, and the reply determined by the outcome alone.\<close>

lemma exec_fetch_token [run_simps]:
  "exec n (fetch_token cfg) s t =
     (if fetchable (url (token_request cfg))
      then (case n (token_request cfg) t of (t', v) \<Rightarrow>
              \<lparr>ret = token_reply v, state = s, clock = t', events = [Sent (token_request cfg)]\<rparr>)
      else \<lparr>ret = Inl TypeError, state = s, clock = t, events = []\<rparr>)"
  by (simp add: fetch_token_def exec_bind_exn exec_js_fetch token_reply_def Let_def
           split: prod.split http_outcome.split)

lemma url_token_request:
  "url (token_request cfg) = js_string_of (env_value (token_endpoint cfg))"
  by (simp add: token_request_def)

lemma example_config_fetchable [simp]: "fetchable (url (token_request example_config))"
  by (simp add: url_token_request example_config_def env_value_def js_string_of_def fetchable_def)

text \<open>C12: the fetcher treats every status outside 200..299 as a failure that carries
  the status, whatever the body, after exactly one request and without retrying.\<close>

theorem fetch_token_non_2xx:
  assumes "fetchable (url (token_request cfg))"
    and "n (token_request cfg) t = (t', Response status pl)"
    and "\<not> response_ok status"
  shows "exec n (fetch_token cfg) s t =
           \<lparr>ret = Inl (Token_request_failed status), state = s, clock = t',
            events = [Sent (token_request cfg)]\<rparr>"
  using assms by (simp add: exec_fetch_token token_reply_def)

theorem fetch_token_non_2xx_witness:
  "exec (net_after 80 (Response 401 Invalid_json)) (fetch_token example_config) () 500 =
     \<lparr>ret = Inl (Token_request_failed 401), state = (), clock = 580,
      events = [Sent (token_request example_config)]\<rparr>"
  using fetch_token_non_2xx [of example_config "net_after 80 (Response 401 Invalid_json)" 500 580 401
                                Invalid_json "()"]
  by (simp add: net_after_def response_ok_def)

end
