(* ===== verification/Token_Cache.thy ===== *)
theory Token_Cache
  imports Token_Fetcher
begin

text \<open>
  The access-token cache of \<open>src/server.js\<close>: the two module-level variables
  \<open>accessToken\<close> and \<open>tokenExpiry\<close> (lines 15--16) and \<open>getAccessToken\<close>
  (lines 19--56), which returns the cached token while \<open>Date.now() < tokenExpiry\<close>
  and otherwise calls the token endpoint and overwrites both variables. Its lemmas give the
  behaviour of each branch, the invariant the cache keeps, the abstract single-slot
  specification it refines, and what happens when the upstream breaks its contract.
\<close>

subsection \<open>State\<close>

text \<open>\<open>accessToken\<close> holds whatever \<open>data.access_token\<close> was (\<open>null\<close> at start,
  \<open>undefined\<close> when the member is missing); \<open>tokenExpiry\<close> holds \<open>null\<close> at start
  and a number (possibly \<open>NaN\<close>) after the first refresh.\<close>

record cache =
  access_token :: jsval
  token_expiry :: "jsnum option"

definition cache_init :: cache where
  "cache_init = \<lparr>access_token = Some JNull, token_expiry = None\<rparr>"

subsection \<open>Operations\<close>

text \<open>Line 21: \<open>accessToken && tokenExpiry && Date.now() < tokenExpiry\<close>.\<close>

definition token_usable :: "ms \<Rightarrow> cache \<Rightarrow> bool" where
  "token_usable now c \<longleftrightarrow>
     truthy (access_token c) \<and> num_truthy (token_expiry c) \<and>
     num_less (Num now) (num_of_nullable (token_expiry c))"

text \<open>\<open>Date.now() + (data.expires_in - 300) * 1000\<close> (line 47).\<close>

definition expiry_of :: "ms \<Rightarrow> jsval \<Rightarrow> jsnum" where
  "expiry_of now ein = num_add (Num now) (num_mul (num_sub (to_number ein) (Num 300)) (Num 1000))"

text \<open>Lines 45--51, run after the last \<open>await\<close> without interruption: each assignment
  is a write of the shared variables, and \<open>accessToken.substring(0, 50)\<close> reads
  \<open>accessToken\<close> back, throwing a \<open>TypeError\<close> after both writes when the token is
  not a string.\<close>

definition store_token :: "jval \<Rightarrow> (cache, js_error + jsval) prog" where
  "store_token data =
     (case get_prop (Some data) ''access_token'' of
        Inl e \<Rightarrow> Ret (Inl e)
      | Inr tok \<Rightarrow>
          Get (\<lambda>c. Put (c\<lparr>access_token := tok\<rparr>)
           (case get_prop (Some data) ''expires_in'' of
              Inl e \<Rightarrow> Ret (Inl e)
            | Inr ein \<Rightarrow>
                Now (\<lambda>now. Get (\<lambda>c. Put (c\<lparr>token_expiry := Some (expiry_of now ein)\<rparr>)
                 (Log (Info ''Access token refreshed successfully'')
                  (Get (\<lambda>c.
                    case js_substring (access_token c) 0 50 of
                      Inl e \<Rightarrow> Ret (Inl e)
                    | Inr preview \<Rightarrow>
                        Log (Info (''Token starts with: '' @ preview @ ''...''))
                          (Get (\<lambda>c. Ret (Inr (access_token c))))))))))))"

definition get_access_token :: "config \<Rightarrow> (cache, js_error + jsval) prog" where
  "get_access_token cfg =
     Get (\<lambda>c. Now (\<lambda>now.
       if token_usable now c then Ret (Inr (access_token c))
       else try_catch (bind_exn (fetch_token cfg) store_token)
              (\<lambda>e. Log (Error ''Error getting access token:'' e) (Ret (Inl e)))))"

subsection \<open>Requests one after another\<close>

text \<open>Calls of \<open>getAccessToken\<close> that do not overlap, the \<open>i\<close>-th arriving at the
  \<open>i\<close>-th time of the list; overlapping calls are the subject of theory
  \<open>Concurrency\<close>.\<close>

fun calls :: "net \<Rightarrow> config \<Rightarrow> cache \<Rightarrow> ms list \<Rightarrow> (js_error + jsval) list \<times> cache \<times> event list" where
  "calls n cfg c [] = ([], c, [])"
| "calls n cfg c (t # ts) =
     (let r = exec n (get_access_token cfg) c t;
          (rs, c', evs) = calls n cfg (state r) ts
      in (ret r # rs, c', events r @ evs))"

subsection \<open>Invariant and upstream contract\<close>

text \<open>The cache holds \<open>null\<close>, \<open>undefined\<close> or a string as its token: what the
  specification's \<open>TokenState\<close> allows.\<close>

definition cache_wf :: "cache \<Rightarrow> bool" where
  "cache_wf c \<longleftrightarrow>
     (case access_token c of
        None \<Rightarrow> True | Some JNull \<Rightarrow> True | Some (JStr s) \<Rightarrow> True | Some _ \<Rightarrow> False)"

text \<open>The token endpoint keeps its side of OAuth2 when every 2xx JSON body carries a
  string (or no, or a null) \<open>access_token\<close>.\<close>

fun token_contract :: "http_outcome \<Rightarrow> bool" where
  "token_contract (Response status (Json data)) =
     (response_ok status \<longrightarrow>
        (case get_prop (Some data) ''access_token'' of
           Inr (Some (JNum _)) \<Rightarrow> False | Inr (Some (JBool _)) \<Rightarrow> False
         | Inr (Some (JArr _)) \<Rightarrow> False | Inr (Some (JObj _)) \<Rightarrow> False | _ \<Rightarrow> True))"
| "token_contract _ = True"

text \<open>The full contract of section 4.2 of the specification: a 2xx JSON body has a
  non-empty string \<open>access_token\<close> and a numeric \<open>expires_in\<close>.\<close>

definition token_fields :: "jval \<Rightarrow> (string \<times> int) option" where
  "token_fields data =
     (case (get_prop (Some data) ''access_token'', get_prop (Some data) ''expires_in'') of
        (Inr (Some (JStr s)), Inr (Some (JNum e))) \<Rightarrow> if s = [] then None else Some (s, e)
      | _ \<Rightarrow> None)"

fun upstream_contract :: "http_outcome \<Rightarrow> bool" where
  "upstream_contract (Response status (Json data)) =
     (response_ok status \<longrightarrow> token_fields data \<noteq> None)"
| "upstream_contract _ = True"

subsection \<open>Abstract specification: a single-slot memo cell\<close>

text \<open>
  Section 4.1 of the specification: the cell holds a token and its expiry instant; a read
  at \<open>now\<close> returns the token while \<open>now < expiresAt\<close>, and otherwise asks the fetcher,
  which fails (\<open>Inl ()\<close>, the \<open>UpstreamAuthError\<close>) or yields a token and its
  lifetime; a success overwrites the cell with expiry \<open>done + (expires_in - 300) s\<close>, a
  failure leaves it as it was.
\<close>

type_synonym slot = "(string \<times> ms) option"

definition spec_get :: "ms \<Rightarrow> ms \<Rightarrow> unit + string \<times> int \<Rightarrow> slot \<Rightarrow> (unit + string) \<times> slot" where
  "spec_get now done reply sl =
     (case sl of
        Some (tok, x) \<Rightarrow> if now < x then (Inr tok, sl) else
          (case reply of Inl u \<Rightarrow> (Inl (), sl)
           | Inr (tok', e) \<Rightarrow> (Inr tok', Some (tok', done + (e - 300) * 1000)))
      | None \<Rightarrow>
          (case reply of Inl u \<Rightarrow> (Inl (), sl)
           | Inr (tok', e) \<Rightarrow> (Inr tok', Some (tok', done + (e - 300) * 1000))))"

definition abs_cache :: "cache \<Rightarrow> slot" where
  "abs_cache c =
     (case (access_token c, token_expiry c) of
        (Some (JStr s), Some (Num x)) \<Rightarrow> if s = [] then None else Some (s, x)
      | _ \<Rightarrow> None)"

definition abs_result :: "js_error + jsval \<Rightarrow> unit + string" where
  "abs_result r = (case r of Inr (Some (JStr s)) \<Rightarrow> Inr s | _ \<Rightarrow> Inl ())"

definition abs_reply :: "js_error + jval \<Rightarrow> unit + string \<times> int" where
  "abs_reply r = (case r of Inl e \<Rightarrow> Inl () | Inr data \<Rightarrow>
                    (case token_fields data of Some f \<Rightarrow> Inr f | None \<Rightarrow> Inl ()))"

subsection \<open>The run of each branch\<close>

definition refresh_log :: "string \<Rightarrow> log_entry list" where
  "refresh_log preview =
     [Info ''Access token refreshed successfully'', Info (''Token starts with: '' @ preview @ ''...'')]"

text \<open>A well-formed token response, used by the witnesses.\<close>

definition example_token_body :: "int \<Rightarrow> jval" where
  "example_token_body e = JObj [(''access_token'', JStr ''eyJhbGciOiJSUzI1NiJ9''), (''expires_in'', JNum e)]"

subsection \<open>Lemmas\<close>

lemma exec_store_token [run_simps]:
  "exec n (store_token data) c t =
     (case get_prop (Some data) ''access_token'' of
        Inl e \<Rightarrow> \<lparr>ret = Inl e, state = c, clock = t, events = []\<rparr>
      | Inr tok \<Rightarrow>
          (case get_prop (Some data) ''expires_in'' of
             Inl e \<Rightarrow> \<lparr>ret = Inl e, state = c\<lparr>access_token := tok\<rparr>, clock = t, events = []\<rparr>
           | Inr ein \<Rightarrow>
               let c' = c\<lparr>access_token := tok, token_expiry := Some (expiry_of t ein)\<rparr> in
               (case js_substring tok 0 50 of
                  Inl e \<Rightarrow> \<lparr>ret = Inl e, state = c', clock = t,
                            events = [Logged (Info ''Access token refreshed successfully'')]\<rparr>
                | Inr preview \<Rightarrow> \<lparr>ret = Inr tok, state = c', clock = t,
                                  events = map Logged (refresh_log preview)\<rparr>)))"
  by (simp add: store_token_def refresh_log_def Let_def split: sum.split)

lemma exec_get_access_token_usable:
  "token_usable t c \<Longrightarrow>
   exec n (get_access_token cfg) c t = \<lparr>ret = Inr (access_token c), state = c, clock = t, events = []\<rparr>"
  by (simp add: get_access_token_def)

lemma exec_get_access_token_fetched:
  assumes "\<not> token_usable t c" and "fetchable (url (token_request cfg))"
    and "n (token_request cfg) t = (t', v)"
  shows "exec n (get_access_token cfg) c t =
     (case token_reply v of
        Inl e \<Rightarrow> \<lparr>ret = Inl e, state = c, clock = t',
                  events = [Sent (token_request cfg), Logged (Error ''Error getting access token:'' e)]\<rparr>
      | Inr data \<Rightarrow>
          let r = exec n (store_token data) c t' in
          (case ret r of
             Inl e \<Rightarrow> \<lparr>ret = Inl e, state = state r, clock = t',
                       events = Sent (token_request cfg) # events r @ [Logged (Error ''Error getting access token:'' e)]\<rparr>
           | Inr a \<Rightarrow> \<lparr>ret = Inr a, state = state r, clock = t', events = Sent (token_request cfg) # events r\<rparr>))"
  using assms
  by (auto simp add: get_access_token_def exec_try_catch exec_bind_exn exec_fetch_token
                     exec_store_token Let_def split: sum.split jval.split option.split)

lemma exec_get_access_token_net_after:
  assumes "\<not> token_usable t c" and "fetchable (url (token_request cfg))"
  shows "exec (net_after d v) (get_access_token cfg) c t =
     (case token_reply v of
        Inl e \<Rightarrow> \<lparr>ret = Inl e, state = c, clock = t + d,
                  events = [Sent (token_request cfg), Logged (Error ''Error getting access token:'' e)]\<rparr>
      | Inr data \<Rightarrow>
          let r = exec (net_after d v) (store_token data) c (t + d) in
          (case ret r of
             Inl e \<Rightarrow> \<lparr>ret = Inl e, state = state r, clock = t + d,
                       events = Sent (token_request cfg) # events r @ [Logged (Error ''Error getting access token:'' e)]\<rparr>
           | Inr a \<Rightarrow> \<lparr>ret = Inr a, state = state r, clock = t + d, events = Sent (token_request cfg) # events r\<rparr>))"
  using assms by (rule exec_get_access_token_fetched) simp

lemma token_usable_iff:
  "token_usable u c \<longleftrightarrow>
     truthy (access_token c) \<and> (\<exists>x. token_expiry c = Some (Num x) \<and> x \<noteq> 0 \<and> u < x)"
  by (cases "token_expiry c" rule: option.exhaust; cases "the (token_expiry c)")
     (auto simp: token_usable_def num_of_nullable_def)

lemma calls_usable:
  "(\<forall>u \<in> set ts. token_usable u c) \<Longrightarrow>
   calls n cfg c ts = (map (\<lambda>_. Inr (access_token c)) ts, c, [])"
  by (induction ts) (simp_all add: exec_get_access_token_usable)


lemma token_fields_SomeD:
  "token_fields data = Some (s, e) \<Longrightarrow>
   get_prop (Some data) ''access_token'' = Inr (Some (JStr s)) \<and> s \<noteq> [] \<and>
   get_prop (Some data) ''expires_in'' = Inr (Some (JNum e))"
  by (auto simp: token_fields_def split: sum.splits option.splits jval.splits if_splits)

lemma token_reply_InrD:
  "token_reply v = Inr data \<Longrightarrow> \<exists>status. v = Response status (Json data) \<and> response_ok status"
  by (auto simp: token_reply_def response_json_def split: http_outcome.splits payload.splits if_splits)

lemma store_token_access_token:
  "access_token (state (exec n (store_token data) c t)) =
     (case get_prop (Some data) ''access_token'' of Inl e \<Rightarrow> access_token c | Inr tok \<Rightarrow> tok)"
  by (simp add: exec_store_token Let_def split: sum.split)

lemma cache_overwrite [simp]:
  "c\<lparr>access_token := a, token_expiry := x\<rparr> = \<lparr>access_token = a, token_expiry = x\<rparr>"
  by (cases c) simp

lemma cache_init_not_usable [simp]: "\<not> token_usable t cache_init"
  by (simp add: cache_init_def token_usable_def)

lemma cache_init_wf [simp]: "cache_wf cache_init \<and> abs_cache cache_init = None"
  by (simp add: cache_init_def cache_wf_def abs_cache_def)

lemma not_usable_abs:
  assumes "cache_wf c" "0 \<le> t" "\<not> token_usable t c" "abs_cache c = Some (s, x)"
  shows "\<not> t < x"
  using assms
  by (auto simp: cache_wf_def abs_cache_def token_usable_iff split: option.splits jval.splits jsnum.splits if_splits)

lemma usable_abs:
  assumes "cache_wf c" "token_usable t c"
  shows "\<exists>s x. access_token c = Some (JStr s) \<and> abs_cache c = Some (s, x) \<and> t < x"
  using assms
  by (auto simp: cache_wf_def abs_cache_def token_usable_iff split: option.splits jval.splits)

lemma abs_cache_written [simp]:
  "abs_cache \<lparr>access_token = Some (JStr s), token_expiry = Some (Num x)\<rparr> =
     (if s = [] then None else Some (s, x))"
  by (simp add: abs_cache_def)

lemma spec_get_stale:
  "(\<And>s x. sl = Some (s, x) \<Longrightarrow> \<not> now < x) \<Longrightarrow>
   spec_get now done reply sl =
     (case reply of Inl u \<Rightarrow> (Inl (), sl)
      | Inr (tok, e) \<Rightarrow> (Inr tok, Some (tok, done + (e - 300) * 1000)))"
  by (auto simp: spec_get_def split: option.split)

text \<open>C1: when the cached token is not usable and the token endpoint answers 2xx with a string \<open>access_token\<close> and a numeric \<open>expires_in\<close>, \<open>getAccessToken\<close> sends exactly one request, returns the new token, overwrites both variables with the token and the expiry \<open>done + (expires_in - 300) * 1000\<close> measured at the arrival of the response, and logs the refresh with a preview of at most 50 characters of the token (for \<open>expires_in = 3600\<close> fetched at \<open>T\<close> the expiry is \<open>T + 3300 s\<close>).\<close>

theorem get_access_token_refresh_ok:
  assumes "\<not> token_usable t c"
    and "fetchable (url (token_request cfg))"
    and "n (token_request cfg) t = (t', Response status (Json data))"
    and "response_ok status"
    and "get_prop (Some data) ''access_token'' = Inr (Some (JStr s))"
    and "get_prop (Some data) ''expires_in'' = Inr (Some (JNum e))"
  shows "exec n (get_access_token cfg) c t =
           \<lparr>ret = Inr (Some (JStr s)),
            state = \<lparr>access_token = Some (JStr s), token_expiry = Some (Num (t' + (e - 300) * 1000))\<rparr>,
            clock = t',
            events = Sent (token_request cfg) # map Logged (refresh_log (take 50 s))\<rparr>"
  using assms
  by (simp add: exec_get_access_token_fetched token_reply_def response_json_def exec_store_token
                expiry_of_def js_simps Let_def)

theorem get_access_token_refresh_ok_witness:
  "exec (net_after 120 (Response 200 (Json (example_token_body 3600)))) (get_access_token example_config) cache_init 1000 =
     \<lparr>ret = Inr (Some (JStr ''eyJhbGciOiJSUzI1NiJ9'')),
      state = \<lparr>access_token = Some (JStr ''eyJhbGciOiJSUzI1NiJ9''), token_expiry = Some (Num 3301120)\<rparr>,
      clock = 1120,
      events = Sent (token_request example_config) # map Logged (refresh_log ''eyJhbGciOiJSUzI1NiJ9'')\<rparr>"
  using get_access_token_refresh_ok [where t = 1000 and c = cache_init and cfg = example_config
      and n = "net_after 120 (Response 200 (Json (example_token_body 3600)))" and t' = 1120 and status = 200
      and data = "example_token_body 3600" and s = "''eyJhbGciOiJSUzI1NiJ9''" and e = 3600]
  by (simp add: net_after_apply response_ok_def example_token_body_def token_fields_def)

text \<open>C2: a sequence of calls that starts from the initial cache and never reaches the computed expiry performs exactly one fetch and returns the same token every time, leaving the cache as the first call wrote it (section 8, first property).\<close>

theorem cache_hits_idempotent:
  assumes "fetchable (url (token_request cfg))"
    and "n (token_request cfg) t_req = (t_resp, Response status (Json data))"
    and "response_ok status"
    and "token_fields data = Some (s, e)"
    and "\<forall>u \<in> set ts. 0 \<le> u \<and> u < t_resp + (e - 300) * 1000"
  shows "calls n cfg cache_init (t_req # ts) =
           (replicate (Suc (length ts)) (Inr (Some (JStr s))),
            \<lparr>access_token = Some (JStr s), token_expiry = Some (Num (t_resp + (e - 300) * 1000))\<rparr>,
            Sent (token_request cfg) # map Logged (refresh_log (take 50 s)))"
proof -
  let ?c = "\<lparr>access_token = Some (JStr s), token_expiry = Some (Num (t_resp + (e - 300) * 1000))\<rparr>"
  from assms(4) have f: "get_prop (Some data) ''access_token'' = Inr (Some (JStr s))" "s \<noteq> []"
    "get_prop (Some data) ''expires_in'' = Inr (Some (JNum e))"
    by (simp_all add: token_fields_SomeD)
  have first: "exec n (get_access_token cfg) cache_init t_req =
      \<lparr>ret = Inr (Some (JStr s)), state = ?c, clock = t_resp,
       events = Sent (token_request cfg) # map Logged (refresh_log (take 50 s))\<rparr>"
    using assms(1-3) f
    by (simp add: exec_get_access_token_fetched token_reply_def response_json_def exec_store_token
                  expiry_of_def js_simps Let_def)
  from assms(5) f(2) have "\<forall>u \<in> set ts. token_usable u ?c"
    by (auto simp: token_usable_iff)
  then have "calls n cfg ?c ts = (map (\<lambda>_. Inr (Some (JStr s))) ts, ?c, [])"
    by (simp add: calls_usable)
  with first show ?thesis by (simp add: map_replicate_const)
qed

theorem cache_hits_idempotent_witness:
  "calls (net_after 120 (Response 200 (Json (example_token_body 3600)))) example_config cache_init [1000, 2000, 3000000] =
     (replicate 3 (Inr (Some (JStr ''eyJhbGciOiJSUzI1NiJ9''))),
      \<lparr>access_token = Some (JStr ''eyJhbGciOiJSUzI1NiJ9''), token_expiry = Some (Num 3301120)\<rparr>,
      Sent (token_request example_config) # map Logged (refresh_log ''eyJhbGciOiJSUzI1NiJ9''))"
  using cache_hits_idempotent [where cfg = example_config and n = "net_after 120 (Response 200 (Json (example_token_body 3600)))" and t_req = 1000
      and t_resp = 1120 and status = 200 and data = "example_token_body 3600" and s = "''eyJhbGciOiJSUzI1NiJ9''"
      and e = 3600 and ts = "[2000, 3000000]"]
  by (simp add: response_ok_def example_token_body_def token_fields_def numeral_3_eq_3 del: calls.simps)

text \<open>C3: under the upstream contract (a 2xx JSON body carries a non-empty string token and a numeric lifetime), a run of \<open>getAccessToken\<close> from a well-formed cache at a non-negative time refines the single-slot memo cell of section 4.1: the abstraction of its result and of the cache it leaves is what the abstract read returns, with the reply of the fetcher abstracted to success or \<open>UpstreamAuthError\<close>.\<close>

theorem get_access_token_refines_spec:
  assumes "cache_wf c" and "0 \<le> t"
    and "n (token_request cfg) t = (t', v)" and "upstream_contract v"
  shows "(abs_result (ret (exec n (get_access_token cfg) c t)),
          abs_cache (state (exec n (get_access_token cfg) c t))) =
         spec_get t t' (if fetchable (url (token_request cfg)) then abs_reply (token_reply v) else Inl ())
           (abs_cache c)"
proof (cases "token_usable t c")
  case True
  with assms(1) obtain s x where "access_token c = Some (JStr s)" "abs_cache c = Some (s, x)" "t < x"
    by (blast dest: usable_abs)
  with True show ?thesis
    by (simp add: exec_get_access_token_usable spec_get_def abs_result_def)
next
  case False
  with assms(1,2) have stale: "spec_get t t' reply (abs_cache c) =
     (case reply of Inl u \<Rightarrow> (Inl (), abs_cache c)
      | Inr (tok, e) \<Rightarrow> (Inr tok, Some (tok, t' + (e - 300) * 1000)))" for reply
    by (intro spec_get_stale) (blast dest: not_usable_abs)
  show ?thesis
  proof (cases "fetchable (url (token_request cfg))")
    case unfetchable: False
    with False show ?thesis
      by (simp add: stale get_access_token_def exec_try_catch exec_bind_exn exec_fetch_token
                    abs_result_def Let_def)
  next
    case fetchable: True
    show ?thesis
    proof (cases "token_reply v")
      case (Inl e)
      with False fetchable assms(3) show ?thesis
        by (simp add: stale exec_get_access_token_fetched abs_result_def abs_reply_def)
    next
      case (Inr data)
      with assms(3,4) obtain s e where "token_fields data = Some (s, e)"
        by (auto dest!: token_reply_InrD)
      then have f: "get_prop (Some data) ''access_token'' = Inr (Some (JStr s))" "s \<noteq> []"
        "get_prop (Some data) ''expires_in'' = Inr (Some (JNum e))" "token_fields data = Some (s, e)"
        by (simp_all add: token_fields_SomeD)
      with Inr False fetchable assms(3) show ?thesis
        by (simp add: stale exec_get_access_token_fetched exec_store_token expiry_of_def js_simps
                      abs_result_def abs_reply_def Let_def)
    qed
  qed
qed

theorem get_access_token_refines_spec_witness:
  "(abs_result (ret (exec (net_after 120 (Response 200 (Json (example_token_body 3600)))) (get_access_token example_config) cache_init 1000)),
    abs_cache (state (exec (net_after 120 (Response 200 (Json (example_token_body 3600)))) (get_access_token example_config) cache_init 1000))) =
   (Inr ''eyJhbGciOiJSUzI1NiJ9'', Some (''eyJhbGciOiJSUzI1NiJ9'', 3301120))"
  using get_access_token_refines_spec [where c = cache_init and t = 1000 and cfg = example_config
      and n = "net_after 120 (Response 200 (Json (example_token_body 3600)))" and t' = 1120 and v = "Response 200 (Json (example_token_body 3600))"]
  by (simp add: net_after_apply response_ok_def example_token_body_def token_fields_def spec_get_def
                abs_reply_def token_reply_def response_json_def)

text \<open>C4: every refresh that fails before the assignments (an endpoint URL that \<open>fetch\<close> refuses, a network failure, a non-2xx status, a body that is not JSON, a JSON \<open>null\<close> body) leaves the cache unchanged, throws, and sends at most one request (section 4.1, failure).\<close>

theorem get_access_token_failure_keeps_cache:
  assumes "\<not> token_usable t c"
    and "n (token_request cfg) t = (t', v)"
    and "\<not> fetchable (url (token_request cfg)) \<or> isl (token_reply v) \<or> token_reply v = Inr JNull"
  shows "state (exec n (get_access_token cfg) c t) = c \<and> isl (ret (exec n (get_access_token cfg) c t))
         \<and> length (sent (events (exec n (get_access_token cfg) c t))) \<le> 1"
proof (cases "fetchable (url (token_request cfg))")
  case False
  with assms(1) show ?thesis
    by (simp add: get_access_token_def exec_try_catch exec_bind_exn exec_fetch_token Let_def)
next
  case True
  with assms(3) have "isl (token_reply v) \<or> token_reply v = Inr JNull" by simp
  with True assms(1,2) show ?thesis
    by (auto simp: exec_get_access_token_fetched exec_store_token isl_def Let_def)
qed

theorem get_access_token_failure_keeps_cache_witness:
  "state (exec (net_after 50 Network_failure) (get_access_token example_config) cache_init 1000) = cache_init \<and>
   isl (ret (exec (net_after 50 Network_failure) (get_access_token example_config) cache_init 1000)) \<and>
   length (sent (events (exec (net_after 50 Network_failure) (get_access_token example_config) cache_init 1000))) \<le> 1"
  using get_access_token_failure_keeps_cache [where t = 1000 and c = cache_init and cfg = example_config
      and n = "net_after 50 Network_failure" and t' = 1050 and v = Network_failure]
  by (simp add: net_after_apply token_reply_def)

text \<open>C5: the cache invariant (the token variable holds \<open>null\<close>, \<open>undefined\<close> or a string) is kept by every run of \<open>getAccessToken\<close> when the token endpoint's 2xx bodies carry no non-string \<open>access_token\<close>.\<close>

theorem get_access_token_preserves_wf:
  assumes "cache_wf c"
    and "n (token_request cfg) t = (t', v)" and "token_contract v"
  shows "cache_wf (state (exec n (get_access_token cfg) c t))"
proof (cases "token_usable t c \<or> \<not> fetchable (url (token_request cfg))")
  case True
  with assms(1) show ?thesis
    by (auto simp: exec_get_access_token_usable get_access_token_def exec_try_catch exec_bind_exn
                   exec_fetch_token Let_def)
next
  case False
  then have nu: "\<not> token_usable t c" and fe: "fetchable (url (token_request cfg))" by simp_all
  show ?thesis
  proof (cases "token_reply v")
    case (Inl e)
    with nu fe assms(1,2) show ?thesis by (simp add: exec_get_access_token_fetched)
  next
    case (Inr data)
    with assms(3) obtain status where "v = Response status (Json data)" "response_ok status"
      by (auto dest: token_reply_InrD)
    with assms(3) have tok: "cache_wf (c\<lparr>access_token := (case get_prop (Some data) ''access_token'' of
                                Inl e \<Rightarrow> access_token c | Inr tok \<Rightarrow> tok)\<rparr>)"
      using assms(1)
      by (auto simp: cache_wf_def split: sum.splits option.splits jval.splits)
    have "access_token (state (exec n (get_access_token cfg) c t)) =
          access_token (state (exec n (store_token data) c t'))"
      using nu fe assms(2) Inr by (simp add: exec_get_access_token_fetched Let_def split: sum.split)
    with tok show ?thesis
      by (simp add: cache_wf_def store_token_access_token)
  qed
qed

theorem get_access_token_preserves_wf_witness:
  "cache_wf (state (exec (net_after 120 (Response 200 (Json (example_token_body 3600)))) (get_access_token example_config) cache_init 1000))"
  using get_access_token_preserves_wf [where c = cache_init and cfg = example_config
      and n = "net_after 120 (Response 200 (Json (example_token_body 3600)))" and t = 1000 and t' = 1120
      and v = "Response 200 (Json (example_token_body 3600))"]
  by (simp add: net_after_apply response_ok_def example_token_body_def token_fields_def)

text \<open>C6: without that contract the cache is poisoned: a 2xx body whose \<open>access_token\<close> is a truthy non-string (a number, say) makes the first call throw a \<open>TypeError\<close> at \<open>substring\<close> only after both variables were written, and the next call before the computed expiry returns that non-string value as the token without any request.\<close>

theorem poisoned_token_served:
  assumes "\<not> token_usable t_req c"
    and "fetchable (url (token_request cfg))"
    and "n (token_request cfg) t_req = (t_resp, Response status (Json data))"
    and "response_ok status"
    and "get_prop (Some data) ''access_token'' = Inr tok"
    and "truthy tok" and "\<And>s. tok \<noteq> Some (JStr s)"
    and "get_prop (Some data) ''expires_in'' = Inr (Some (JNum e))"
    and "0 \<le> u" and "u < t_resp + (e - 300) * 1000"
  shows "calls n cfg c [t_req, u] =
           ([Inl TypeError, Inr tok],
            \<lparr>access_token = tok, token_expiry = Some (Num (t_resp + (e - 300) * 1000))\<rparr>,
            [Sent (token_request cfg), Logged (Info ''Access token refreshed successfully''),
             Logged (Error ''Error getting access token:'' TypeError)])"
proof -
  let ?c = "\<lparr>access_token = tok, token_expiry = Some (Num (t_resp + (e - 300) * 1000))\<rparr>"
  have first: "exec n (get_access_token cfg) c t_req =
     \<lparr>ret = Inl TypeError, state = ?c, clock = t_resp,
      events = [Sent (token_request cfg), Logged (Info ''Access token refreshed successfully''),
                Logged (Error ''Error getting access token:'' TypeError)]\<rparr>"
    using assms(1-5,7,8)
    by (simp add: exec_get_access_token_fetched token_reply_def response_json_def exec_store_token
                  expiry_of_def js_simps Let_def)
  from assms(6,9,10) have "token_usable u ?c" by (auto simp: token_usable_iff)
  with first show ?thesis by (simp add: exec_get_access_token_usable)
qed

theorem poisoned_token_served_witness:
  "calls (net_after 120 (Response 200 (Json (JObj [(''access_token'', JNum 12345), (''expires_in'', JNum 3600)]))))
         example_config cache_init [1000, 60000] =
     ([Inl TypeError, Inr (Some (JNum 12345))],
      \<lparr>access_token = Some (JNum 12345), token_expiry = Some (Num 3301120)\<rparr>,
      [Sent (token_request example_config), Logged (Info ''Access token refreshed successfully''),
       Logged (Error ''Error getting access token:'' TypeError)])"
  using poisoned_token_served [where t_req = 1000 and c = cache_init and cfg = example_config
      and n = "net_after 120 (Response 200 (Json (JObj [(''access_token'', JNum 12345), (''expires_in'', JNum 3600)])))"
      and t_resp = 1120 and status = 200
      and data = "JObj [(''access_token'', JNum 12345), (''expires_in'', JNum 3600)]"
      and tok = "Some (JNum 12345)" and e = 3600 and u = 60000]
  by (simp add: net_after_apply response_ok_def)

text \<open>C7: the five-minute margin covers the network: if the response arrives at most 300 s after the request, every instant at which the refreshed cache serves the token lies before the request time plus the token's lifetime, so before the upstream expiry of a token issued at or after the request.\<close>

theorem refresh_margin_covers_latency:
  assumes "\<not> token_usable t c"
    and "fetchable (url (token_request cfg))"
    and "n (token_request cfg) t = (t', Response status (Json data))"
    and "response_ok status"
    and "token_fields data = Some (s, e)"
    and "t' - t \<le> 300000"
    and "token_usable u (state (exec n (get_access_token cfg) c t))"
  shows "u < t + e * 1000"
proof -
  from assms(5) have f: "get_prop (Some data) ''access_token'' = Inr (Some (JStr s))"
    "get_prop (Some data) ''expires_in'' = Inr (Some (JNum e))"
    by (simp_all add: token_fields_SomeD)
  with assms(1-4) have "token_expiry (state (exec n (get_access_token cfg) c t)) =
      Some (Num (t' + (e - 300) * 1000))"
    by (simp add: exec_get_access_token_fetched token_reply_def response_json_def exec_store_token
                  expiry_of_def js_simps Let_def)
  with assms(7) have "u < t' + (e - 300) * 1000" by (auto simp: token_usable_iff)
  with assms(6) show ?thesis by (simp add: algebra_simps)
qed

theorem refresh_margin_covers_latency_witness:
  "token_usable 2000 (state (exec (net_after 120 (Response 200 (Json (example_token_body 3600)))) (get_access_token example_config) cache_init 1000)) \<and>
   (2000::int) < 1000 + 3600 * 1000"
proof -
  have st: "state (exec (net_after 120 (Response 200 (Json (example_token_body 3600)))) (get_access_token example_config) cache_init 1000) =
      \<lparr>access_token = Some (JStr ''eyJhbGciOiJSUzI1NiJ9''), token_expiry = Some (Num 3301120)\<rparr>"
    by (simp add: exec_get_access_token_net_after token_reply_def response_ok_def response_json_def
                  exec_store_token example_token_body_def expiry_of_def js_simps Let_def)
  then have "token_usable 2000 (state (exec (net_after 120 (Response 200 (Json (example_token_body 3600)))) (get_access_token example_config) cache_init 1000))"
    by (simp add: token_usable_def num_of_nullable_def)
  with refresh_margin_covers_latency [where t = 1000 and c = cache_init and cfg = example_config
      and n = "net_after 120 (Response 200 (Json (example_token_body 3600)))" and t' = 1120 and status = 200
      and data = "example_token_body 3600" and s = "''eyJhbGciOiJSUzI1NiJ9''" and e = 3600 and u = 2000]
  show ?thesis by (simp add: response_ok_def example_token_body_def token_fields_def)
qed

text \<open>C8: the margin is measured from the arrival of the response, not from the
  request: whenever the response takes more than 300 s, the refreshed cache still serves the
  token at the instant the request time plus the token's lifetime is reached, after the
  upstream expiry of a token issued when the request arrived. With C7 this fixes the
  latency up to which the margin suffices at exactly 300 s.\<close>

theorem latency_beyond_margin:
  assumes "\<not> token_usable t c"
    and "fetchable (url (token_request cfg))"
    and "n (token_request cfg) t = (t', Response status (Json data))"
    and "response_ok status"
    and "token_fields data = Some (s, e)"
    and "300000 < t' - t" and "0 \<le> t" and "0 \<le> e"
  shows "token_usable (t + e * 1000) (state (exec n (get_access_token cfg) c t))"
proof -
  from assms(5) have f: "get_prop (Some data) ''access_token'' = Inr (Some (JStr s))" "s \<noteq> []"
    "get_prop (Some data) ''expires_in'' = Inr (Some (JNum e))"
    by (simp_all add: token_fields_SomeD)
  with assms(1-4) have st: "state (exec n (get_access_token cfg) c t) =
      \<lparr>access_token = Some (JStr s), token_expiry = Some (Num (t' + (e - 300) * 1000))\<rparr>"
    by (simp add: exec_get_access_token_fetched token_reply_def response_json_def exec_store_token
                  expiry_of_def js_simps Let_def)
  have "t + e * 1000 < t' + (e - 300) * 1000" and "t' + (e - 300) * 1000 \<noteq> 0"
    using assms(6-8) by (simp_all add: algebra_simps)
  with st f(2) show ?thesis by (simp add: token_usable_iff)
qed

theorem latency_beyond_margin_witness:
  "token_usable (0 + 3600 * 1000)
     (state (exec (net_after 400000 (Response 200 (Json (example_token_body 3600))))
                  (get_access_token example_config) cache_init 0))"
  using latency_beyond_margin [where t = 0 and c = cache_init and cfg = example_config
      and n = "net_after 400000 (Response 200 (Json (example_token_body 3600)))" and t' = 400000
      and status = 200 and data = "example_token_body 3600" and s = "''eyJhbGciOiJSUzI1NiJ9''"
      and e = 3600]
  by (simp add: response_ok_def example_token_body_def token_fields_def token_usable_def cache_init_def)

text \<open>C9: a token whose lifetime is at most 300 s is stored with an expiry at or
  before the arrival of the response, so it is never served from the cache afterwards and the
  next call refreshes again (section 8, fourth property).\<close>

theorem short_lifetime_never_usable:
  assumes "\<not> token_usable t c"
    and "fetchable (url (token_request cfg))"
    and "n (token_request cfg) t = (t', Response status (Json data))"
    and "response_ok status"
    and "token_fields data = Some (s, e)"
    and "e \<le> 300" and "t' \<le> u"
  shows "\<not> token_usable u (state (exec n (get_access_token cfg) c t))"
proof -
  from assms(5) have f: "get_prop (Some data) ''access_token'' = Inr (Some (JStr s))"
    "get_prop (Some data) ''expires_in'' = Inr (Some (JNum e))"
    by (simp_all add: token_fields_SomeD)
  with assms(1-4) have "token_expiry (state (exec n (get_access_token cfg) c t)) =
      Some (Num (t' + (e - 300) * 1000))"
    by (simp add: exec_get_access_token_fetched token_reply_def response_json_def exec_store_token
                  expiry_of_def js_simps Let_def)
  moreover from assms(6,7) have "\<not> u < t' + (e - 300) * 1000" by simp
  ultimately show ?thesis by (auto simp: token_usable_iff)
qed

theorem short_lifetime_never_usable_witness:
  "\<not> token_usable 1120 (state (exec (net_after 120 (Response 200 (Json (example_token_body 200))))
                               (get_access_token example_config) cache_init 1000))"
  using short_lifetime_never_usable [where t = 1000 and c = cache_init and cfg = example_config
      and n = "net_after 120 (Response 200 (Json (example_token_body 200)))" and t' = 1120
      and status = 200 and data = "example_token_body 200" and s = "''eyJhbGciOiJSUzI1NiJ9''" and e = 200 and u = 1120]
  by (simp add: response_ok_def example_token_body_def token_fields_def)

text \<open>C10: a 2xx body whose \<open>access_token\<close> is the empty string is a success
  for the caller, but the empty string is falsy at line 21, so the token is never served from
  the cache: every later call fetches again.\<close>

theorem empty_token_never_cached:
  assumes "\<not> token_usable t c"
    and "fetchable (url (token_request cfg))"
    and "n (token_request cfg) t = (t', Response status (Json data))"
    and "response_ok status"
    and "get_prop (Some data) ''access_token'' = Inr (Some (JStr []))"
    and "get_prop (Some data) ''expires_in'' = Inr ein"
  shows "ret (exec n (get_access_token cfg) c t) = Inr (Some (JStr [])) \<and>
         (\<forall>u. \<not> token_usable u (state (exec n (get_access_token cfg) c t)))"
  using assms
  by (simp add: exec_get_access_token_fetched token_reply_def response_json_def exec_store_token
                js_simps token_usable_def Let_def)

theorem empty_token_never_cached_witness:
  "ret (exec (net_after 120 (Response 200 (Json (JObj [(''access_token'', JStr []), (''expires_in'', JNum 3600)]))))
             (get_access_token example_config) cache_init 1000) = Inr (Some (JStr []))"
  using empty_token_never_cached [where t = 1000 and c = cache_init and cfg = example_config
      and n = "net_after 120 (Response 200 (Json (JObj [(''access_token'', JStr []), (''expires_in'', JNum 3600)])))"
      and t' = 1120 and status = 200
      and data = "JObj [(''access_token'', JStr []), (''expires_in'', JNum 3600)]"
      and ein = "Some (JNum 3600)"]
  by (simp add: response_ok_def)

text \<open>C11: a 2xx body without \<open>expires_in\<close> is not treated as a failure: the
  token is returned, the expiry becomes \<open>NaN\<close>, and the token is never served from the
  cache, so every later call fetches again.\<close>

theorem missing_expiry_accepted:
  assumes "\<not> token_usable t c"
    and "fetchable (url (token_request cfg))"
    and "n (token_request cfg) t = (t', Response status (Json data))"
    and "response_ok status"
    and "get_prop (Some data) ''access_token'' = Inr (Some (JStr s))"
    and "get_prop (Some data) ''expires_in'' = Inr None"
  shows "ret (exec n (get_access_token cfg) c t) = Inr (Some (JStr s)) \<and>
         token_expiry (state (exec n (get_access_token cfg) c t)) = Some NaN \<and>
         (\<forall>u. \<not> token_usable u (state (exec n (get_access_token cfg) c t)))"
  using assms
  by (simp add: exec_get_access_token_fetched token_reply_def response_json_def exec_store_token
                js_simps token_usable_def expiry_of_def Let_def)

theorem missing_expiry_accepted_witness:
  "ret (exec (net_after 120 (Response 200 (Json (JObj [(''access_token'', JStr ''abc'')]))))
             (get_access_token example_config) cache_init 1000) = Inr (Some (JStr ''abc''))"
  using missing_expiry_accepted [where t = 1000 and c = cache_init and cfg = example_config
      and n = "net_after 120 (Response 200 (Json (JObj [(''access_token'', JStr ''abc'')])))"
      and t' = 1120 and status = 200 and data = "JObj [(''access_token'', JStr ''abc'')]"
      and s = "''abc''"]
  by (simp add: response_ok_def)

end
