(* ===== verification/Proxy_Handlers.thy ===== *)
theory Proxy_Handlers
  imports Token_Cache
begin

text \<open>
  The route handlers of \<open>src/server.js\<close> that answer JSON: the partner-API proxies
  \<open>/api/users\<close> (lines 69--91) and \<open>/api/companies\<close> (lines 93--115), which obtain a
  token from \<open>get_access_token\<close> and relay the upstream body; \<open>/api/config\<close>
  (lines 121--125); and \<open>/api/logo/:domain\<close> (lines 128--154), which queries the logo
  API with \<open>encodeURIComponent(domain)\<close>. Each handler catches every exception and ends
  the request with a response, so its program returns an \<open>http_response\<close> rather than
  a sum. The page routes (lines 59--66) and the layers around the handlers are in theories
  \<open>Server_App\<close> and \<open>Http_Stack\<close>.
\<close>

subsection \<open>Responses\<close>

text \<open>\<open>res.status(s).json(v)\<close>; \<open>res.json(v)\<close> is status 200.\<close>

record http_response =
  status :: nat
  resp_body :: jval

definition error_response :: "nat \<Rightarrow> string \<Rightarrow> http_response" where
  "error_response s msg = \<lparr>status = s, resp_body = JObj [(''error'', JStr msg)]\<rparr>"

text \<open>The outer \<open>try { ... } catch (error) { ... }\<close> of a route handler.\<close>

definition handle :: "('s, js_error + http_response) prog \<Rightarrow> (js_error \<Rightarrow> ('s, http_response) prog)
                      \<Rightarrow> ('s, http_response) prog" where
  "handle p h = bind p (\<lambda>r. case r of Inl e \<Rightarrow> h e | Inr resp \<Rightarrow> Ret resp)"

subsection \<open>Partner-API proxies\<close>

definition partner_request :: "config \<Rightarrow> string \<Rightarrow> jsval \<Rightarrow> http_request" where
  "partner_request cfg path token =
     \<lparr>verb = ''GET'',
      url = js_string_of (env_value (api_url cfg)) @ path,
      headers = [(''Authorization'', ''Bearer '' @ js_string_of token),
                 (''Content-Type'', ''application/json'')],
      body = None\<rparr>"

text \<open>The body the two partner handlers share, for the upstream path, the console
  message and the error text of the route.\<close>

definition partner_proxy :: "config \<Rightarrow> string \<Rightarrow> string \<Rightarrow> string \<Rightarrow> (cache, http_response) prog" where
  "partner_proxy cfg path log_msg err_msg =
     handle
       (bind_exn (get_access_token cfg) (\<lambda>token.
          bind_exn (js_fetch (partner_request cfg path token)) (\<lambda>(st, pl).
            if \<not> response_ok st then Ret (Inl (Api_status st))
            else (case response_json pl of
                    Inl e \<Rightarrow> Ret (Inl e)
                  | Inr data \<Rightarrow> Ret (Inr \<lparr>status = 200, resp_body = data\<rparr>)))))
       (\<lambda>e. Log (Error log_msg e) (Ret (error_response 500 err_msg)))"

definition api_users :: "config \<Rightarrow> (cache, http_response) prog" where
  "api_users cfg = partner_proxy cfg ''/api/users'' ''Error fetching users:'' ''Failed to fetch users''"

definition api_companies :: "config \<Rightarrow> (cache, http_response) prog" where
  "api_companies cfg =
     partner_proxy cfg ''/api/companies'' ''Error fetching companies:'' ''Failed to fetch companies''"

subsection \<open>Configuration\<close>

text \<open>\<open>process.env.LOGODEV_TOKEN || 'pk_demo_token'\<close>: an unset or empty variable
  gives the placeholder.\<close>

definition api_config :: "config \<Rightarrow> ('s, http_response) prog" where
  "api_config cfg =
     Ret \<lparr>status = 200,
          resp_body = JObj [(''logodevToken'',
            if truthy (env_value (logodev_token cfg)) then the (env_value (logodev_token cfg))
            else JStr ''pk_demo_token'')]\<rparr>"

subsection \<open>encodeURIComponent\<close>

text \<open>Every code unit outside \<open>A-Z a-z 0-9 - _ . ! ~ * ' ( )\<close> is written as the
  percent-encoded bytes of its UTF-8 form, with upper-case hexadecimal digits; a code
  unit below 256 takes one byte below 128 and two bytes otherwise.\<close>

definition uri_unreserved :: "char \<Rightarrow> bool" where
  "uri_unreserved c \<longleftrightarrow>
     (let k = (of_char c :: nat) in
        (65 \<le> k \<and> k \<le> 90) \<or> (97 \<le> k \<and> k \<le> 122) \<or> (48 \<le> k \<and> k \<le> 57) \<or>
        c \<in> set ''-_.!~*()'' \<or> k = 39)"

definition hex_digit :: "nat \<Rightarrow> char" where
  "hex_digit d = (if d < 10 then char_of (48 + d) else char_of (55 + d))"

definition percent_byte :: "nat \<Rightarrow> string" where
  "percent_byte b = [CHR ''%'', hex_digit (b div 16), hex_digit (b mod 16)]"

definition utf8_bytes :: "nat \<Rightarrow> nat list" where
  "utf8_bytes k = (if k < 128 then [k] else [192 + k div 64, 128 + k mod 64])"

definition encode_uri_char :: "char \<Rightarrow> string" where
  "encode_uri_char c =
     (if uri_unreserved c then [c] else concat (map percent_byte (utf8_bytes (of_char c))))"

definition encode_uri_component :: "string \<Rightarrow> string" where
  "encode_uri_component s = concat (map encode_uri_char s)"

subsection \<open>Logo lookup\<close>

text \<open>The search request; note the \<open>Bearer:\<close> with a colon of line 135.\<close>

definition logo_request :: "config \<Rightarrow> string \<Rightarrow> http_request" where
  "logo_request cfg domain =
     \<lparr>verb = ''GET'',
      url = ''https://api.logo.dev/search?q='' @ encode_uri_component domain,
      headers = [(''Authorization'', ''Bearer: '' @ js_string_of (env_value (logodev_search_token cfg)))],
      body = None\<rparr>"

text \<open>\<open>res.json({ logoUrl: v })\<close>: \<open>JSON.stringify\<close> drops the member when \<open>v\<close> is
  \<open>undefined\<close>.\<close>

definition logo_found :: "jsval \<Rightarrow> http_response" where
  "logo_found v = \<lparr>status = 200, resp_body = JObj (json_members [(''logoUrl'', v)])\<rparr>"

definition api_logo :: "config \<Rightarrow> string \<Rightarrow> ('s, http_response) prog" where
  "api_logo cfg domain =
     handle
       (bind_exn (js_fetch (logo_request cfg domain)) (\<lambda>(st, pl).
          if \<not> response_ok st then Ret (Inr (error_response 404 ''Logo not found''))
          else (case response_json pl of
                  Inl e \<Rightarrow> Ret (Inl e)
                | Inr results \<Rightarrow>
                    (case get_prop (Some results) ''length'' of
                       Inl e \<Rightarrow> Ret (Inl e)
                     | Inr len \<Rightarrow>
                         if strict_eq_zero len then Ret (Inr (error_response 404 ''Logo not found''))
                         else (case get_prop (Some results) ''0'' of
                                 Inl e \<Rightarrow> Ret (Inl e)
                               | Inr first \<Rightarrow>
                                   (case get_prop first ''logo_url'' of
                                      Inl e \<Rightarrow> Ret (Inl e)
                                    | Inr u \<Rightarrow> Ret (Inr (logo_found u))))))))
       (\<lambda>e. Log (Error ''Error fetching logo:'' e) (Ret (error_response 500 ''Failed to fetch logo'')))"

subsection \<open>Routes\<close>

text \<open>The JSON routes Express dispatches to; the path parameter of the logo route is
  the decoded segment \<open>req.params.domain\<close>.\<close>

datatype route = Users | Companies | Config | Logo string

fun handler :: "config \<Rightarrow> route \<Rightarrow> (cache, http_response) prog" where
  "handler cfg Users = api_users cfg"
| "handler cfg Companies = api_companies cfg"
| "handler cfg Config = api_config cfg"
| "handler cfg (Logo domain) = api_logo cfg domain"

subsection \<open>Replies once the upstream has answered\<close>

text \<open>What each handler answers for each outcome of its upstream request: the part of
  the handler after the \<open>await\<close>, as a pure function.\<close>

definition partner_reply :: "http_outcome \<Rightarrow> js_error + http_response" where
  "partner_reply v =
     (case v of
        Network_failure \<Rightarrow> Inl NetworkError
      | Response st pl \<Rightarrow>
          if \<not> response_ok st then Inl (Api_status st)
          else (case response_json pl of Inl e \<Rightarrow> Inl e | Inr data \<Rightarrow> Inr \<lparr>status = 200, resp_body = data\<rparr>))"

definition logo_reply :: "http_outcome \<Rightarrow> js_error + http_response" where
  "logo_reply v =
     (case v of
        Network_failure \<Rightarrow> Inl NetworkError
      | Response st pl \<Rightarrow>
          if \<not> response_ok st then Inr (error_response 404 ''Logo not found'')
          else (case response_json pl of
                  Inl e \<Rightarrow> Inl e
                | Inr results \<Rightarrow>
                    (case get_prop (Some results) ''length'' of
                       Inl e \<Rightarrow> Inl e
                     | Inr len \<Rightarrow>
                         if strict_eq_zero len then Inr (error_response 404 ''Logo not found'')
                         else (case get_prop (Some results) ''0'' of
                                 Inl e \<Rightarrow> Inl e
                               | Inr first \<Rightarrow>
                                   (case get_prop first ''logo_url'' of
                                      Inl e \<Rightarrow> Inl e
                                    | Inr u \<Rightarrow> Inr (logo_found u))))))"

subsection \<open>Percent-decoding\<close>

text \<open>The inverse the logo API applies to the query: percent escapes to bytes, then
  UTF-8 to code units (below 256, as in the whole model). It is not code of the
  repository; it states what \<open>encode_uri_component\<close> must be invertible by.\<close>

definition hex_value :: "char \<Rightarrow> nat option" where
  "hex_value c =
     (let k = (of_char c :: nat) in
      if 48 \<le> k \<and> k \<le> 57 then Some (k - 48)
      else if 65 \<le> k \<and> k \<le> 70 then Some (k - 55) else None)"

fun unpercent :: "string \<Rightarrow> nat list option" where
  "unpercent [] = Some []"
| "unpercent (c # cs) =
     (if c \<noteq> CHR ''%'' then map_option (Cons (of_char c)) (unpercent cs)
      else (case cs of
              h # l # rest \<Rightarrow>
                (case (hex_value h, hex_value l) of
                   (Some a, Some b) \<Rightarrow> map_option (Cons (16 * a + b)) (unpercent rest)
                 | _ \<Rightarrow> None)
            | _ \<Rightarrow> None))"

fun utf8_decode :: "nat list \<Rightarrow> string option" where
  "utf8_decode [] = Some []"
| "utf8_decode (b # bs) =
     (if b < 128 then map_option (Cons (char_of b)) (utf8_decode bs)
      else if 194 \<le> b \<and> b \<le> 195 then
        (case bs of
           b2 # bs' \<Rightarrow> if 128 \<le> b2 \<and> b2 < 192
                      then map_option (Cons (char_of ((b - 192) * 64 + (b2 - 128)))) (utf8_decode bs')
                      else None
         | [] \<Rightarrow> None)
      else None)"

definition decode_uri_component :: "string \<Rightarrow> string option" where
  "decode_uri_component s = Option.bind (unpercent s) utf8_decode"

text \<open>The bytes one code unit is encoded as, and the characters an encoding consists
  of: unreserved characters, \<open>%\<close> and upper-case hexadecimal digits.\<close>

definition uri_bytes :: "char \<Rightarrow> nat list" where
  "uri_bytes c = (if uri_unreserved c then [of_char c] else utf8_bytes (of_char c))"

definition uri_safe_char :: "char \<Rightarrow> bool" where
  "uri_safe_char c \<longleftrightarrow>
     uri_unreserved c \<or> c = CHR ''%'' \<or>
     (let k = (of_char c :: nat) in (48 \<le> k \<and> k \<le> 57) \<or> (65 \<le> k \<and> k \<le> 70))"

text \<open>A cache holding a token valid until 5000 s, used by the witnesses.\<close>

definition example_cache :: cache where
  "example_cache = \<lparr>access_token = Some (JStr ''eyJhbGciOiJSUzI1NiJ9''), token_expiry = Some (Num 5000000)\<rparr>"

subsection \<open>Lemmas\<close>

lemma exec_handle:
  "exec n (handle p h) s t =
     (let r = exec n p s t in
      case ret r of
        Inl e \<Rightarrow> let r' = exec n (h e) (state r) (clock r) in r'\<lparr>events := events r @ events r'\<rparr>
      | Inr resp \<Rightarrow> \<lparr>ret = resp, state = state r, clock = clock r, events = events r\<rparr>)"
  by (simp add: handle_def exec_bind Let_def split: sum.split)

lemma api_logo_pure:
  "api_logo cfg domain =
     handle (bind_exn (js_fetch (logo_request cfg domain)) (\<lambda>(st, pl). Ret (logo_reply (Response st pl))))
       (\<lambda>e. Log (Error ''Error fetching logo:'' e) (Ret (error_response 500 ''Failed to fetch logo'')))"
  unfolding api_logo_def logo_reply_def
  by (rule arg_cong2 [where f = handle], rule arg_cong [where f = "bind_exn (js_fetch (logo_request cfg domain))"])
     (auto simp: fun_eq_iff split: sum.split option.split payload.split)

lemma exec_api_logo:
  "exec n (api_logo cfg domain) s t =
     (case n (logo_request cfg domain) t of (t', v) \<Rightarrow>
        (case logo_reply v of
           Inr resp \<Rightarrow> \<lparr>ret = resp, state = s, clock = t', events = [Sent (logo_request cfg domain)]\<rparr>
         | Inl e \<Rightarrow> \<lparr>ret = error_response 500 ''Failed to fetch logo'', state = s, clock = t',
                     events = [Sent (logo_request cfg domain), Logged (Error ''Error fetching logo:'' e)]\<rparr>))"
proof -
  have "fetchable (url (logo_request cfg domain))"
    by (simp add: logo_request_def fetchable_def)
  then show ?thesis
    by (simp add: api_logo_pure exec_handle exec_bind_exn exec_js_fetch Let_def
             split: prod.split http_outcome.split sum.split)
       (simp add: logo_reply_def)
qed

lemma partner_proxy_pure:
  "partner_proxy cfg path lm em =
     handle (bind_exn (get_access_token cfg) (\<lambda>token.
               bind_exn (js_fetch (partner_request cfg path token))
                 (\<lambda>(st, pl). Ret (partner_reply (Response st pl)))))
       (\<lambda>e. Log (Error lm e) (Ret (error_response 500 em)))"
proof -
  have k: "(\<lambda>(st, pl). if \<not> response_ok st then Ret (Inl (Api_status st))
              else (case response_json pl of
                      Inl e \<Rightarrow> Ret (Inl e)
                    | Inr data \<Rightarrow> Ret (Inr \<lparr>status = 200, resp_body = data\<rparr>))) =
           (\<lambda>(st, pl). Ret (partner_reply (Response st pl)))"
    by (auto simp: fun_eq_iff partner_reply_def split: sum.split)
  show ?thesis unfolding partner_proxy_def k ..
qed

lemma exec_partner_proxy:
  "exec n (partner_proxy cfg path lm em) c t =
     (let r = exec n (get_access_token cfg) c t in
      case ret r of
        Inl e \<Rightarrow> \<lparr>ret = error_response 500 em, state = state r, clock = clock r,
                  events = events r @ [Logged (Error lm e)]\<rparr>
      | Inr tok \<Rightarrow>
          if \<not> fetchable (url (partner_request cfg path tok))
          then \<lparr>ret = error_response 500 em, state = state r, clock = clock r,
                events = events r @ [Logged (Error lm TypeError)]\<rparr>
          else (case n (partner_request cfg path tok) (clock r) of (t', v) \<Rightarrow>
                  (case partner_reply v of
                     Inr resp \<Rightarrow> \<lparr>ret = resp, state = state r, clock = t',
                                  events = events r @ [Sent (partner_request cfg path tok)]\<rparr>
                   | Inl e \<Rightarrow> \<lparr>ret = error_response 500 em, state = state r, clock = t',
                               events = events r @ [Sent (partner_request cfg path tok), Logged (Error lm e)]\<rparr>)))"
  by (simp add: partner_proxy_pure exec_handle exec_bind_exn exec_js_fetch Let_def
           split: prod.split http_outcome.split sum.split)
     (simp add: partner_reply_def)

lemma hex_value_hex_digit: "d < 16 \<Longrightarrow> hex_value (hex_digit d) = Some d"
  by (auto simp: hex_value_def hex_digit_def Let_def)

lemma unpercent_percent_byte:
  "b < 256 \<Longrightarrow> unpercent (percent_byte b @ rest) = map_option (Cons b) (unpercent rest)"
proof -
  assume "b < 256"
  then have "b div 16 < 16" "b mod 16 < 16" by simp_all
  moreover have "CHR ''%'' = CHR ''%''" ..
  ultimately show ?thesis by (simp add: percent_byte_def hex_value_hex_digit)
qed

lemma uri_unreserved_ascii: "uri_unreserved c \<Longrightarrow> (of_char c :: nat) < 128 \<and> c \<noteq> CHR ''%''"
  by (auto simp: uri_unreserved_def Let_def)

lemma latin1_div64:
  "(k::nat) < 256 \<Longrightarrow> k div 64 < 4" "128 \<le> (k::nat) \<Longrightarrow> 2 \<le> k div 64"
proof -
  show "k < 256 \<Longrightarrow> k div 64 < 4" by (rule less_mult_imp_div_less) simp
  show "128 \<le> k \<Longrightarrow> 2 \<le> k div 64" using div_le_mono [of 128 k 64] by simp
qed

lemma unpercent_encode_char:
  "unpercent (encode_uri_char c @ rest) = map_option (\<lambda>ys. uri_bytes c @ ys) (unpercent rest)"
proof -
  have k: "(of_char c :: nat) < 256" by (rule nat_of_char_less_256)
  consider (unres) "uri_unreserved c" | (one) "\<not> uri_unreserved c" "(of_char c :: nat) < 128"
    | (two) "\<not> uri_unreserved c" "\<not> (of_char c :: nat) < 128"
    by blast
  then show ?thesis
  proof cases
    case unres
    then have "c \<noteq> CHR ''%''" using uri_unreserved_ascii by blast
    with unres show ?thesis
      by (simp add: encode_uri_char_def uri_bytes_def append_singleton_fun)
  next
    case one
    with k show ?thesis
      by (simp add: encode_uri_char_def uri_bytes_def utf8_bytes_def append_singleton_fun
                    unpercent_percent_byte)
  next
    case two
    from k have "192 + (of_char c :: nat) div 64 < 256" using latin1_div64(1) [of "of_char c"] by simp
    moreover have "128 + (of_char c :: nat) mod 64 < 256" by simp
    ultimately
    show ?thesis using two
      by (simp add: encode_uri_char_def uri_bytes_def utf8_bytes_def unpercent_percent_byte
                    option.map_comp o_def)
  qed
qed

lemma unpercent_encode:
  "unpercent (encode_uri_component s) = Some (concat (map uri_bytes s))"
  by (induction s) (simp_all add: encode_uri_component_def unpercent_encode_char)

lemma utf8_decode_uri_bytes:
  "utf8_decode (uri_bytes c @ rest) = map_option (Cons c) (utf8_decode rest)"
proof -
  define k where "k = (of_char c :: nat)"
  have k: "k < 256" by (simp add: k_def)
  show ?thesis
  proof (cases "uri_unreserved c \<or> k < 128")
    case True
    then have "k < 128" using uri_unreserved_ascii k_def by blast
    then have "uri_bytes c = [k]" by (auto simp: uri_bytes_def utf8_bytes_def k_def)
    with \<open>k < 128\<close> show ?thesis by (simp add: k_def)
  next
    case False
    then have nr: "\<not> uri_unreserved c" and lo: "\<not> k < 128" by simp_all
    then have bytes: "uri_bytes c = [192 + k div 64, 128 + k mod 64]"
      by (simp add: uri_bytes_def utf8_bytes_def k_def)
    from k lo have b1: "194 \<le> 192 + k div 64" "192 + k div 64 \<le> 195"
      using latin1_div64 [of k] by simp_all
    have b2: "128 \<le> 128 + k mod 64" "128 + k mod 64 < 192" by simp_all
    have cp: "(192 + k div 64 - 192) * 64 + (128 + k mod 64 - 128) = k" by simp
    have "char_of k = c" by (simp add: k_def)
    with b1 b2 cp show ?thesis by (simp only: bytes append_Cons append_Nil utf8_decode.simps) simp
  qed
qed

lemma utf8_decode_concat: "utf8_decode (concat (map uri_bytes s)) = Some s"
  by (induction s) (simp_all add: utf8_decode_uri_bytes)

lemma partner_reply_status: "partner_reply v = Inr r \<Longrightarrow> status r = 200"
  by (auto simp: partner_reply_def split: http_outcome.splits if_splits sum.splits)

lemma logo_reply_status: "logo_reply v = Inr r \<Longrightarrow> status r = 200 \<or> status r = 404"
  by (auto simp: logo_reply_def error_response_def logo_found_def
           split: http_outcome.splits if_splits sum.splits option.splits)

lemma error_response_status [simp]: "status (error_response s m) = s"
  by (simp add: error_response_def)

lemma hex_digit_safe: "d < 16 \<Longrightarrow> uri_safe_char (hex_digit d)"
  by (auto simp: uri_safe_char_def hex_digit_def Let_def)

lemma percent_byte_safe: "b < 256 \<Longrightarrow> x \<in> set (percent_byte b) \<Longrightarrow> uri_safe_char x"
proof -
  assume b: "b < 256" and x: "x \<in> set (percent_byte b)"
  from b have "b div 16 < 16" by (intro less_mult_imp_div_less) simp
  then have "uri_safe_char (hex_digit (b div 16))" "uri_safe_char (hex_digit (b mod 16))"
    by (simp_all add: hex_digit_safe)
  moreover have "uri_safe_char (CHR ''%'')" by (simp add: uri_safe_char_def)
  ultimately show ?thesis using x by (auto simp: percent_byte_def)
qed

lemma utf8_bytes_bound: "k < 256 \<Longrightarrow> b \<in> set (utf8_bytes k) \<Longrightarrow> b < 256"
  using latin1_div64(1) [of k] by (auto simp: utf8_bytes_def split: if_splits)

lemma encode_uri_char_safe: "x \<in> set (encode_uri_char c) \<Longrightarrow> uri_safe_char x"
  using utf8_bytes_bound [of "of_char c"] percent_byte_safe
  by (auto simp: encode_uri_char_def uri_safe_char_def split: if_splits)

text \<open>C13: with a usable cached token, when the partner API answers \<open>/api/users\<close> with a non-2xx status, the handler responds with exactly status 500 and \<open>{"error": "Failed to fetch users"}\<close>, nothing of the upstream body leaks into the response, and the cache is unchanged (section 8, last property).\<close>

theorem api_users_upstream_error:
  assumes "token_usable t c"
    and "fetchable (url (partner_request cfg ''/api/users'' (access_token c)))"
    and "n (partner_request cfg ''/api/users'' (access_token c)) t = (t', Response st pl)"
    and "\<not> response_ok st"
  shows "exec n (api_users cfg) c t =
           \<lparr>ret = error_response 500 ''Failed to fetch users'', state = c, clock = t',
            events = [Sent (partner_request cfg ''/api/users'' (access_token c)),
                      Logged (Error ''Error fetching users:'' (Api_status st))]\<rparr>"
  using assms
  by (simp add: api_users_def exec_partner_proxy exec_get_access_token_usable partner_reply_def)
theorem api_users_upstream_error_witness:
  "exec (net_after 30 (Response 503 Invalid_json)) (api_users example_config) example_cache 1000 =
     \<lparr>ret = error_response 500 ''Failed to fetch users'', state = example_cache, clock = 1030,
      events = [Sent (partner_request example_config ''/api/users'' (access_token example_cache)),
                Logged (Error ''Error fetching users:'' (Api_status 503))]\<rparr>"
  using api_users_upstream_error [where t = 1000 and c = example_cache and cfg = example_config
      and n = "net_after 30 (Response 503 Invalid_json)" and t' = 1030 and st = 503 and pl = Invalid_json]
  by (simp add: token_usable_def example_cache_def num_of_nullable_def partner_request_def
                example_config_def env_value_def js_string_of_def fetchable_def response_ok_def)

text \<open>C14: with a usable cached token, on a 2xx JSON answer the \<open>/api/companies\<close> handler relays the upstream body verbatim with status 200, after one upstream request that carries \<open>Authorization: Bearer <token>\<close> with the cached token.\<close>

theorem api_companies_relays_body:
  assumes "token_usable t c"
    and "fetchable (url (partner_request cfg ''/api/companies'' (access_token c)))"
    and "n (partner_request cfg ''/api/companies'' (access_token c)) t = (t', Response st (Json data))"
    and "response_ok st"
  shows "exec n (api_companies cfg) c t =
           \<lparr>ret = \<lparr>status = 200, resp_body = data\<rparr>, state = c, clock = t',
            events = [Sent (partner_request cfg ''/api/companies'' (access_token c))]\<rparr> \<and>
         (''Authorization'', ''Bearer '' @ js_string_of (access_token c))
           \<in> set (headers (partner_request cfg ''/api/companies'' (access_token c)))"
  using assms
  by (simp add: api_companies_def exec_partner_proxy exec_get_access_token_usable partner_reply_def
                response_json_def partner_request_def)
theorem api_companies_relays_body_witness:
  "ret (exec (net_after 40 (Response 200 (Json (JArr [JObj [(''name'', JStr ''Acme'')]]))))
             (api_companies example_config) example_cache 1000) =
     \<lparr>status = 200, resp_body = JArr [JObj [(''name'', JStr ''Acme'')]]\<rparr>"
  using api_companies_relays_body [where t = 1000 and c = example_cache and cfg = example_config
      and n = "net_after 40 (Response 200 (Json (JArr [JObj [(''name'', JStr ''Acme'')]])))"
      and t' = 1040 and st = 200 and data = "JArr [JObj [(''name'', JStr ''Acme'')]]"]
  by (simp add: token_usable_def example_cache_def num_of_nullable_def partner_request_def
                example_config_def env_value_def js_string_of_def fetchable_def response_ok_def)

text \<open>C15: when obtaining the token fails, a partner handler responds with status 500 and its fixed error text, sends no request to the partner API (the only requests are those of the token refresh), and leaves the cache as \<open>getAccessToken\<close> left it.\<close>

theorem partner_token_failure_no_upstream:
  assumes "ret (exec n (get_access_token cfg) c t) = Inl e"
  shows "ret (exec n (partner_proxy cfg path lm em) c t) = error_response 500 em \<and>
         state (exec n (partner_proxy cfg path lm em) c t) = state (exec n (get_access_token cfg) c t) \<and>
         sent (events (exec n (partner_proxy cfg path lm em) c t)) =
           sent (events (exec n (get_access_token cfg) c t))"
  using assms by (simp add: exec_partner_proxy Let_def)
theorem partner_token_failure_no_upstream_witness:
  "ret (exec (net_after 50 Network_failure)
             (partner_proxy example_config ''/api/users'' ''Error fetching users:'' ''Failed to fetch users'')
             cache_init 1000) = error_response 500 ''Failed to fetch users''"
  using partner_token_failure_no_upstream [where n = "net_after 50 Network_failure" and cfg = example_config
      and c = cache_init and t = 1000 and e = NetworkError and path = "''/api/users''"
      and lm = "''Error fetching users:''" and em = "''Failed to fetch users''"]
  by (simp add: exec_get_access_token_net_after token_reply_def)

text \<open>C16: when the logo API answers 2xx with a result set whose \<open>length\<close> is 0 (an empty list), the handler responds with exactly status 404 and \<open>{"error": "Logo not found"}\<close> (section 8).\<close>

theorem api_logo_empty_results:
  assumes "n (logo_request cfg domain) t = (t', Response st (Json results))"
    and "response_ok st"
    and "get_prop (Some results) ''length'' = Inr (Some (JNum 0))"
  shows "exec n (api_logo cfg domain) s t =
           \<lparr>ret = error_response 404 ''Logo not found'', state = s, clock = t',
            events = [Sent (logo_request cfg domain)]\<rparr>"
  using assms by (simp add: exec_api_logo logo_reply_def response_json_def strict_eq_zero_def)
theorem api_logo_empty_results_witness:
  "exec (net_after 25 (Response 200 (Json (JArr [])))) (api_logo example_config ''unknown-domain'') () 1000 =
     \<lparr>ret = error_response 404 ''Logo not found'', state = (), clock = 1025,
      events = [Sent (logo_request example_config ''unknown-domain'')]\<rparr>"
  using api_logo_empty_results [where n = "net_after 25 (Response 200 (Json (JArr [])))"
      and cfg = example_config and domain = "''unknown-domain''" and t = 1000 and t' = 1025
      and st = 200 and results = "JArr []" and s = "()"]
  by (simp add: response_ok_def)

text \<open>C17: a non-2xx answer of the logo API gives exactly status 404 and \<open>{"error": "Logo not found"}\<close>, whatever the body.\<close>

theorem api_logo_upstream_error:
  assumes "n (logo_request cfg domain) t = (t', Response st pl)" and "\<not> response_ok st"
  shows "exec n (api_logo cfg domain) s t =
           \<lparr>ret = error_response 404 ''Logo not found'', state = s, clock = t',
            events = [Sent (logo_request cfg domain)]\<rparr>"
  using assms by (simp add: exec_api_logo logo_reply_def)
theorem api_logo_upstream_error_witness:
  "ret (exec (net_after 25 (Response 401 Invalid_json)) (api_logo example_config ''acme.com'') () 1000) =
     error_response 404 ''Logo not found''"
  using api_logo_upstream_error [where n = "net_after 25 (Response 401 Invalid_json)"
      and cfg = example_config and domain = "''acme.com''" and t = 1000 and t' = 1025
      and st = 401 and pl = Invalid_json and s = "()"]
  by (simp add: response_ok_def)

text \<open>C18: when the first result of a 2xx logo answer has a \<open>logo_url\<close> that reads without error, the handler responds 200 with \<open>{"logoUrl": <that value>}\<close>, and with the empty object \<open>{}\<close> when the value is \<open>undefined\<close>, since \<open>JSON.stringify\<close> drops an \<open>undefined\<close> member: a case the specification does not cover.\<close>

theorem api_logo_first_result:
  assumes "n (logo_request cfg domain) t = (t', Response st (Json (JArr (first # rest))))"
    and "response_ok st"
    and "get_prop (Some first) ''logo_url'' = Inr u"
  shows "ret (exec n (api_logo cfg domain) s t) =
           \<lparr>status = 200, resp_body = JObj (case u of Some v \<Rightarrow> [(''logoUrl'', v)] | None \<Rightarrow> [])\<rparr>"
  using assms
  by (cases u) (simp_all add: exec_api_logo logo_reply_def response_json_def strict_eq_zero_def
                              array_index_def logo_found_def)
theorem api_logo_first_result_witness:
  "ret (exec (net_after 25 (Response 200 (Json (JArr [JObj [(''name'', JStr ''Acme''), (''logo_url'', JStr ''https://img.logo.dev/acme.com'')]])))) (api_logo example_config ''acme.com'') () 1000) =
     \<lparr>status = 200, resp_body = JObj [(''logoUrl'', JStr ''https://img.logo.dev/acme.com'')]\<rparr> \<and>
   ret (exec (net_after 25 (Response 200 (Json (JArr [JObj [(''name'', JStr ''Acme'')]]))))
             (api_logo example_config ''acme.com'') () 1000) = \<lparr>status = 200, resp_body = JObj []\<rparr>"
  using api_logo_first_result [where n = "net_after 25 (Response 200 (Json (JArr [JObj [(''name'', JStr ''Acme''), (''logo_url'', JStr ''https://img.logo.dev/acme.com'')]])))"
      and cfg = example_config and domain = "''acme.com''" and t = 1000 and t' = 1025 and st = 200
      and first = "JObj [(''name'', JStr ''Acme''), (''logo_url'', JStr ''https://img.logo.dev/acme.com'')]"
      and rest = "[]" and u = "Some (JStr ''https://img.logo.dev/acme.com'')" and s = "()"]
    api_logo_first_result [where n = "net_after 25 (Response 200 (Json (JArr [JObj [(''name'', JStr ''Acme'')]])))"
      and cfg = example_config and domain = "''acme.com''" and t = 1000 and t' = 1025 and st = 200
      and first = "JObj [(''name'', JStr ''Acme'')]" and rest = "[]" and u = None and s = "()"]
  by (simp add: response_ok_def)

text \<open>C20: a 2xx answer that is not a result list (an object without \<open>length\<close> and \<open>0\<close> members, such as an error object) ends in a \<open>TypeError\<close> at \<open>results[0].logo_url\<close>, so the handler responds 500 \<open>Failed to fetch logo\<close>, which the specification reserves for transport exceptions.\<close>

theorem api_logo_malformed_results:
  assumes "n (logo_request cfg domain) t = (t', Response st (Json results))"
    and "response_ok st"
    and "\<not> strict_eq_zero (projr (get_prop (Some results) ''length''))"
    and "get_prop (Some results) ''0'' = Inr None"
  shows "ret (exec n (api_logo cfg domain) s t) = error_response 500 ''Failed to fetch logo''"
  using assms
  by (cases results) (auto simp: exec_api_logo logo_reply_def response_json_def split: if_splits)
theorem api_logo_malformed_results_witness:
  "ret (exec (net_after 25 (Response 200 (Json (JObj [(''error'', JStr ''quota exceeded'')]))))
             (api_logo example_config ''acme.com'') () 1000) = error_response 500 ''Failed to fetch logo''"
  using api_logo_malformed_results [where n = "net_after 25 (Response 200 (Json (JObj [(''error'', JStr ''quota exceeded'')])))"
      and cfg = example_config and domain = "''acme.com''" and t = 1000 and t' = 1025 and st = 200
      and results = "JObj [(''error'', JStr ''quota exceeded'')]" and s = "()"]
  by (simp add: response_ok_def strict_eq_zero_def)

text \<open>Every JSON route answers every request with a response of status 200, 404 or 500,
  whatever the network does: no error escapes a handler.\<close>

lemma handlers_always_respond:
  "status (ret (exec n (handler cfg r) c t)) \<in> {200, 404, 500}"
proof (cases r)
  case (Logo domain)
  then show ?thesis
    by (auto simp: exec_api_logo split: prod.split sum.split dest: logo_reply_status)
qed (auto simp: api_users_def api_companies_def exec_partner_proxy api_config_def Let_def
         split: prod.split sum.split dest: partner_reply_status)

text \<open>Only the partner routes change the shared state, and exactly as their call of
  \<open>getAccessToken\<close> does.\<close>

lemma handlers_cache_frame:
  "state (exec n (handler cfg r) c t) =
     (if r = Users \<or> r = Companies then state (exec n (get_access_token cfg) c t) else c)"
  by (cases r)
     (auto simp: api_users_def api_companies_def exec_partner_proxy api_config_def exec_api_logo Let_def
           split: prod.split sum.split)

text \<open>\<open>/api/config\<close> returns \<open>LOGODEV_TOKEN\<close>, or the placeholder \<open>pk_demo_token\<close>
  when the variable is unset or empty.\<close>

lemma api_config_token:
  "ret (exec n (api_config cfg) s t) =
     \<lparr>status = 200,
      resp_body = JObj [(''logodevToken'',
                         JStr (case logodev_token cfg of Some v \<Rightarrow> if v = [] then ''pk_demo_token'' else v
                               | None \<Rightarrow> ''pk_demo_token''))]\<rparr>"
  by (simp add: api_config_def env_value_def split: option.split)

text \<open>C24: \<open>encodeURIComponent\<close> is inverted by percent-decoding followed by UTF-8 decoding, so distinct domains yield distinct logo queries.\<close>

theorem encode_uri_component_roundtrip:
  "decode_uri_component (encode_uri_component s) = Some s"
  by (simp add: decode_uri_component_def unpercent_encode utf8_decode_concat)

text \<open>C25: the encoded domain contains none of the URL delimiters \<open>& # = ? / +\<close> or a space, so a domain cannot add parameters or a fragment to the logo query.\<close>

theorem encode_uri_component_no_delimiters:
  "set (encode_uri_component s) \<inter> set ''&#=?/+ '' = {}"
proof -
  have "\<forall>x \<in> set (encode_uri_component s). uri_safe_char x"
    by (auto simp: encode_uri_component_def dest: encode_uri_char_safe)
  moreover have "\<forall>x \<in> set ''&#=?/+ ''. \<not> uri_safe_char x"
    by (simp add: uri_safe_char_def uri_unreserved_def)
  ultimately show ?thesis by blast
qed

end
