(* ===== verification/Concurrency.thy ===== *)
theory Concurrency
  imports Proxy_Handlers
begin

text \<open>
  Requests of \<open>src/server.js\<close> that overlap. Node runs every handler on one event loop:
  a handler runs without interruption up to its next \<open>await\<close> of a network call, and the
  loop then runs another handler that is ready, or resumes a suspended one whose response
  has arrived. The world below holds the shared cache, the clock, the handlers in flight
  and the trace; \<open>loop_step\<close> is the step relation of the loop.
\<close>

subsection \<open>The event loop\<close>

text \<open>Running a handler up to its next \<open>await\<close>: the code between two suspension
  points reads one clock value, since nothing else runs meanwhile.\<close>

primrec run_sync :: "ms \<Rightarrow> ('s, 'a) prog \<Rightarrow> 's \<Rightarrow> ('s, 'a) prog \<times> 's \<times> event list" where
  "run_sync t (Ret a) s = (Ret a, s, [])"
| "run_sync t (Get k) s = run_sync t (k s) s"
| "run_sync t (Put s' p) s = run_sync t p s'"
| "run_sync t (Now k) s = run_sync t (k t) s"
| "run_sync t (Log e p) s = (case run_sync t p s of (p', s', evs) \<Rightarrow> (p', s', Logged e # evs))"
| "run_sync t (Await q k) s = (Await q k, s, [Sent q])"

record ('s, 'a) world =
  shared :: 's
  loop_clock :: ms
  tasks :: "('s, 'a) prog list"
  trace :: "event list"

definition world_init :: "'s \<Rightarrow> ms \<Rightarrow> ('s, 'a) world" where
  "world_init s t = \<lparr>shared = s, loop_clock = t, tasks = [], trace = []\<rparr>"

text \<open>A request arrives and its handler runs to its first \<open>await\<close> or to its end.\<close>

definition arrive :: "('s, 'a) prog \<Rightarrow> ('s, 'a) world \<Rightarrow> ('s, 'a) world" where
  "arrive p w =
     (case run_sync (loop_clock w) p (shared w) of (p', s', evs) \<Rightarrow>
        w\<lparr>shared := s', tasks := tasks w @ [p'], trace := trace w @ evs\<rparr>)"

definition waiting_on :: "('s, 'a) world \<Rightarrow> nat \<Rightarrow> http_request option" where
  "waiting_on w i =
     (if i < length (tasks w) then (case tasks w ! i of Await q k \<Rightarrow> Some q | _ \<Rightarrow> None)
      else None)"

text \<open>The response of the \<open>i\<close>-th handler's pending request arrives and the handler
  continues with it.\<close>

definition resume :: "nat \<Rightarrow> http_outcome \<Rightarrow> ('s, 'a) world \<Rightarrow> ('s, 'a) world" where
  "resume i v w =
     (if i < length (tasks w) then
        (case tasks w ! i of
           Await q k \<Rightarrow>
             (case run_sync (loop_clock w) (k v) (shared w) of (p', s', evs) \<Rightarrow>
                w\<lparr>shared := s', tasks := (tasks w)[i := p'], trace := trace w @ evs\<rparr>)
         | _ \<Rightarrow> w)
      else w)"

text \<open>The loop for handlers drawn from \<open>P\<close> under a network that keeps the contract
  \<open>C\<close> on the outcome of each request.\<close>

inductive loop_step :: "('s, 'a) prog set \<Rightarrow> (http_request \<Rightarrow> http_outcome \<Rightarrow> bool) \<Rightarrow>
                        ('s, 'a) world \<Rightarrow> ('s, 'a) world \<Rightarrow> bool"
  for P C where
  step_arrive: "p \<in> P \<Longrightarrow> loop_step P C w (arrive p w)"
| step_resume: "waiting_on w i = Some q \<Longrightarrow> C q v \<Longrightarrow> loop_step P C w (resume i v w)"
| step_tick: "0 \<le> d \<Longrightarrow> loop_step P C w (w\<lparr>loop_clock := loop_clock w + d\<rparr>)"

subsection \<open>Safety of a handler under interleaving\<close>

text \<open>\<open>safe_at Q A C R s p\<close>: the handler \<open>p\<close>, started in state \<open>s\<close>, writes only
  states satisfying \<open>Q\<close>, sends only requests satisfying \<open>A\<close>, and returns a value
  satisfying \<open>R\<close>, whatever other handlers do at its \<open>await\<close>s as long as they keep
  \<open>Q\<close> and the network keeps \<open>C\<close>.\<close>

inductive safe_at :: "('s \<Rightarrow> bool) \<Rightarrow> (http_request \<Rightarrow> bool) \<Rightarrow> (http_request \<Rightarrow> http_outcome \<Rightarrow> bool) \<Rightarrow>
                      ('a \<Rightarrow> bool) \<Rightarrow> 's \<Rightarrow> ('s, 'a) prog \<Rightarrow> bool"
  for Q A C R where
  safe_Ret: "R a \<Longrightarrow> safe_at Q A C R s (Ret a)"
| safe_Get: "safe_at Q A C R s (k s) \<Longrightarrow> safe_at Q A C R s (Get k)"
| safe_Put: "Q s' \<Longrightarrow> safe_at Q A C R s' p \<Longrightarrow> safe_at Q A C R s (Put s' p)"
| safe_Now: "(\<And>t. safe_at Q A C R s (k t)) \<Longrightarrow> safe_at Q A C R s (Now k)"
| safe_Log: "safe_at Q A C R s p \<Longrightarrow> safe_at Q A C R s (Log e p)"
| safe_Await: "A q \<Longrightarrow> (\<And>v s'. C q v \<Longrightarrow> Q s' \<Longrightarrow> safe_at Q A C R s' (k v)) \<Longrightarrow>
                safe_at Q A C R s (Await q k)"

inductive_simps safe_at_simps [simp]:
  "safe_at Q A C R s (Ret a)" "safe_at Q A C R s (Get k)" "safe_at Q A C R s (Put s' p)"
  "safe_at Q A C R s (Now k)" "safe_at Q A C R s (Log e p)" "safe_at Q A C R s (Await q k)"

text \<open>A token that the partner API can accept: a non-empty string.\<close>

fun nonempty_token :: "jsval \<Rightarrow> bool" where
  "nonempty_token (Some (JStr s)) = (s \<noteq> [])"
| "nonempty_token _ = False"

text \<open>A call of \<open>getAccessToken\<close> suspended at \<open>await fetch(TOKEN_ENDPOINT, ...)\<close>
  (line 27): what remains of lines 27--55 once the response has arrived.\<close>

definition refresh_wait :: "config \<Rightarrow> (cache, js_error + jsval) prog" where
  "refresh_wait cfg =
     Await (token_request cfg) (\<lambda>v.
       try_catch (bind_exn (Ret (token_reply v)) store_token)
         (\<lambda>e. Log (Error ''Error getting access token:'' e) (Ret (Inl e))))"

text \<open>The world after a request to \<open>/api/users\<close> has arrived at an empty cache and
  the token endpoint has answered it: the environment of the witnesses.\<close>

definition example_refreshed_world :: "(cache, http_response) world" where
  "example_refreshed_world =
     resume 0 (Response 200 (Json (example_token_body 3600)))
       (arrive (handler example_config Users) (world_init cache_init 0))"

text \<open>Two calls of \<open>getAccessToken\<close> that arrive at an empty cache one after the
  other, before the token endpoint has answered the first.\<close>

definition example_race_world :: "(cache, js_error + jsval) world" where
  "example_race_world =
     arrive (get_access_token example_config)
       (arrive (get_access_token example_config) (world_init cache_init 1000))"

definition world_ok :: "('s \<Rightarrow> bool) \<Rightarrow> (http_request \<Rightarrow> bool) \<Rightarrow> (http_request \<Rightarrow> http_outcome \<Rightarrow> bool) \<Rightarrow>
                        ('a \<Rightarrow> bool) \<Rightarrow> ('s, 'a) world \<Rightarrow> bool" where
  "world_ok Q A C R w \<longleftrightarrow>
     Q (shared w) \<and> (\<forall>q \<in> set (sent (trace w)). A q) \<and>
     (\<forall>p \<in> set (tasks w). \<forall>s. safe_at Q A C R s p)"

subsection \<open>Lemmas on the loop\<close>

lemma run_sync_safe:
  assumes "safe_at Q A C R s p" and "Q s" and "run_sync t p s = (p', s', evs)"
  shows "Q s' \<and> (\<forall>q \<in> set (sent evs). A q) \<and> (\<forall>s''. safe_at Q A C R s'' p')"
  using assms
proof (induction arbitrary: p' s' evs rule: safe_at.induct)
  case (safe_Log s p e)
  then show ?case by (auto split: prod.splits)
qed auto

lemma safe_at_bind:
  assumes "safe_at Q A C Rp s p" and "\<And>a s'. Rp a \<Longrightarrow> safe_at Q A C Rk s' (f a)"
  shows "safe_at Q A C Rk s (bind p f)"
  using assms by (induction rule: safe_at.induct) auto

lemma safe_at_mono:
  assumes "safe_at Q A C R s p" and "\<And>a. R a \<Longrightarrow> R' a"
  shows "safe_at Q A C R' s p"
  using assms by (induction rule: safe_at.induct) auto

lemma safe_at_bind_exn:
  assumes "safe_at Q A C Rp s p" and "\<And>e. Rp (Inl e) \<Longrightarrow> Rk (Inl e)"
    and "\<And>a s'. Rp (Inr a) \<Longrightarrow> safe_at Q A C Rk s' (f a)"
  shows "safe_at Q A C Rk s (bind_exn p f)"
  unfolding bind_exn_def using assms(1)
  by (rule safe_at_bind) (auto intro: assms(2,3) split: sum.split)

lemma safe_at_try_catch:
  assumes "safe_at Q A C Rp s p" and "\<And>e s'. Rp (Inl e) \<Longrightarrow> safe_at Q A C Rk s' (h e)"
    and "\<And>a. Rp (Inr a) \<Longrightarrow> Rk (Inr a)"
  shows "safe_at Q A C Rk s (try_catch p h)"
  unfolding try_catch_def using assms(1)
  by (rule safe_at_bind) (auto intro: assms(2,3) split: sum.split)

lemma safe_at_handle:
  assumes "safe_at Q A C Rp s p" and "\<And>e s'. Rp (Inl e) \<Longrightarrow> safe_at Q A C Rk s' (h e)"
    and "\<And>r. Rp (Inr r) \<Longrightarrow> Rk r"
  shows "safe_at Q A C Rk s (handle p h)"
  unfolding handle_def using assms(1)
  by (rule safe_at_bind) (auto intro: assms(2,3) split: sum.split)

lemma safe_at_js_fetch:
  "(fetchable (url q) \<Longrightarrow> A q) \<Longrightarrow> R (Inl TypeError) \<Longrightarrow> R (Inl NetworkError) \<Longrightarrow>
   (\<And>st pl. C q (Response st pl) \<Longrightarrow> R (Inr (st, pl))) \<Longrightarrow> safe_at Q A C R s (js_fetch q)"
  by (auto simp: js_fetch_def split: http_outcome.split)

lemma world_ok_init [simp]: "world_ok Q A C R (world_init s t) \<longleftrightarrow> Q s"
  by (simp add: world_ok_def world_init_def)

lemma loop_step_world_ok:
  assumes "loop_step P C w w'" and "world_ok Q A C R w"
    and "\<And>p s. p \<in> P \<Longrightarrow> Q s \<Longrightarrow> safe_at Q A C R s p"
  shows "world_ok Q A C R w'"
  using assms(1)
proof cases
  case (step_arrive p)
  obtain p' s' evs where r: "run_sync (loop_clock w) p (shared w) = (p', s', evs)"
    by (cases "run_sync (loop_clock w) p (shared w)") auto
  have q: "Q (shared w)" using assms(2) by (simp add: world_ok_def)
  have "Q s' \<and> (\<forall>q \<in> set (sent evs). A q) \<and> (\<forall>s''. safe_at Q A C R s'' p')"
    using run_sync_safe[OF assms(3)[OF step_arrive(2) q] q r] .
  with assms(2) show ?thesis by (auto simp: step_arrive(1) arrive_def r world_ok_def)
next
  case (step_resume i q v)
  then obtain k where i: "i < length (tasks w)" and ti: "tasks w ! i = Await q k"
    by (auto simp: waiting_on_def split: if_splits prog.splits)
  obtain p' s' evs where r: "run_sync (loop_clock w) (k v) (shared w) = (p', s', evs)"
    by (cases "run_sync (loop_clock w) (k v) (shared w)") auto
  have ok: "world_ok Q A C R w" by (fact assms(2))
  then have "\<forall>s. safe_at Q A C R s (Await q k)" unfolding world_ok_def
    using i ti nth_mem by metis
  with step_resume(3) ok have "safe_at Q A C R (shared w) (k v)" and "Q (shared w)"
    by (auto simp: world_ok_def)
  from run_sync_safe[OF this r]
  have "Q s' \<and> (\<forall>q \<in> set (sent evs). A q) \<and> (\<forall>s''. safe_at Q A C R s'' p')" .
  with ok set_update_subset_insert[of "tasks w" i p'] show ?thesis
    by (auto simp: step_resume(1) resume_def i ti r world_ok_def)
next
  case (step_tick d)
  with assms(2) show ?thesis by (simp add: world_ok_def)
qed

lemma reachable_world_ok:
  assumes "(loop_step P C)\<^sup>*\<^sup>* w0 w" and "world_ok Q A C R w0"
    and "\<And>p s. p \<in> P \<Longrightarrow> Q s \<Longrightarrow> safe_at Q A C R s p"
  shows "world_ok Q A C R w"
  using assms(1,2) by induction (auto intro: loop_step_world_ok assms(3))

subsection \<open>Safety of the handlers of the server\<close>

lemma cache_wf_expiry [simp]: "cache_wf (c\<lparr>token_expiry := x\<rparr>) = cache_wf c"
  by (simp add: cache_wf_def)

lemma cache_wf_nonempty:
  "cache_wf c \<Longrightarrow> truthy (access_token c) \<Longrightarrow> nonempty_token (access_token c)"
  by (auto simp: cache_wf_def split: option.splits jval.splits)

lemma safe_at_fetch_token:
  assumes "A (token_request cfg)"
  shows "safe_at Q A C (\<lambda>r. \<forall>data. r = Inr data \<longrightarrow>
                              (\<exists>st. response_ok st \<and> C (token_request cfg) (Response st (Json data))))
                 s (fetch_token cfg)"
  unfolding fetch_token_def
  by (rule safe_at_bind_exn[OF safe_at_js_fetch
             [where R = "\<lambda>r. \<forall>st pl. r = Inr (st, pl) \<longrightarrow> C (token_request cfg) (Response st pl)"]])
     (auto simp: assms response_json_def split: payload.split)

lemma safe_at_store_token_wf:
  assumes "token_contract (Response st (Json data))" and "response_ok st"
  shows "safe_at cache_wf A C (\<lambda>_. True) s (store_token data)"
  using assms
  by (auto simp: store_token_def cache_wf_def split: sum.split option.split jval.split)

lemma safe_at_store_token_fields:
  assumes "token_fields data = Some (tok, e)"
  shows "safe_at cache_wf A C (\<lambda>r. \<forall>v. r = Inr v \<longrightarrow> nonempty_token v) s (store_token data)"
  using token_fields_SomeD[OF assms]
  by (simp add: store_token_def cache_wf_def js_substring_prefix)

lemma safe_at_get_access_token_wf:
  assumes "\<And>v. C (token_request cfg) v \<Longrightarrow> token_contract v" and "A (token_request cfg)"
  shows "safe_at cache_wf A C (\<lambda>_. True) s (get_access_token cfg)"
proof -
  have "safe_at cache_wf A C (\<lambda>_. True) s'
          (try_catch (bind_exn (fetch_token cfg) store_token)
             (\<lambda>e. Log (Error ''Error getting access token:'' e) (Ret (Inl e))))" for s'
    by (rule safe_at_try_catch[OF safe_at_bind_exn[OF safe_at_fetch_token[where A = A and cfg = cfg, OF assms(2)]]])
       (auto intro: safe_at_store_token_wf assms(1))
  then show ?thesis by (simp add: get_access_token_def)
qed

lemma safe_at_get_access_token_nonempty:
  assumes "\<And>v. C (token_request cfg) v \<Longrightarrow> upstream_contract v" and "A (token_request cfg)"
    and "cache_wf s"
  shows "safe_at cache_wf A C (\<lambda>r. \<forall>tok. r = Inr tok \<longrightarrow> nonempty_token tok) s (get_access_token cfg)"
proof -
  have store: "safe_at cache_wf A C (\<lambda>r. \<forall>v. r = Inr v \<longrightarrow> nonempty_token v) s' (store_token data)"
    if "response_ok st" and "C (token_request cfg) (Response st (Json data))" for s' st data
    using assms(1)[OF that(2)] that(1) by (auto intro: safe_at_store_token_fields)
  have "safe_at cache_wf A C (\<lambda>r. \<forall>tok. r = Inr tok \<longrightarrow> nonempty_token tok) s'
          (try_catch (bind_exn (fetch_token cfg) store_token)
             (\<lambda>e. Log (Error ''Error getting access token:'' e) (Ret (Inl e))))" for s'
    by (rule safe_at_try_catch[where Rp = "\<lambda>r. \<forall>v. r = Inr v \<longrightarrow> nonempty_token v",
               OF safe_at_bind_exn[OF safe_at_fetch_token[where A = A and cfg = cfg, OF assms(2)]]])
       (auto intro: store)
  with assms(3) show ?thesis
    by (simp add: get_access_token_def token_usable_def cache_wf_nonempty)
qed

lemma safe_at_partner_proxy:
  assumes "safe_at cache_wf A C (\<lambda>r. \<forall>tok. r = Inr tok \<longrightarrow> G tok) s (get_access_token cfg)"
    and "\<And>tok. G tok \<Longrightarrow> A (partner_request cfg path tok)"
  shows "safe_at cache_wf A C (\<lambda>_. True) s (partner_proxy cfg path lm em)"
  unfolding partner_proxy_pure
  by (rule safe_at_handle[OF safe_at_bind_exn[OF assms(1)]])
     (auto intro!: safe_at_bind_exn[OF safe_at_js_fetch[where R = "\<lambda>_. True"]] assms(2))

lemma safe_at_api_logo:
  "A (logo_request cfg d) \<Longrightarrow> safe_at Q A C (\<lambda>_. True) s (api_logo cfg d)"
  unfolding api_logo_pure
  by (rule safe_at_handle[OF safe_at_bind_exn[OF safe_at_js_fetch[where R = "\<lambda>_. True"]]]) auto

lemma safe_at_handler:
  assumes "\<And>s. cache_wf s \<Longrightarrow>
             safe_at cache_wf A C (\<lambda>r. \<forall>tok. r = Inr tok \<longrightarrow> G tok) s (get_access_token cfg)"
    and "\<And>path tok. G tok \<Longrightarrow> path \<in> {''/api/users'', ''/api/companies''} \<Longrightarrow>
           A (partner_request cfg path tok)"
    and "\<And>d. A (logo_request cfg d)" and "cache_wf s"
  shows "safe_at cache_wf A C (\<lambda>_. True) s (handler cfg r)"
proof -
  have "safe_at cache_wf A C (\<lambda>_. True) s (partner_proxy cfg path lm em)"
    if "path \<in> {''/api/users'', ''/api/companies''}" for path lm em
    using assms(2)[OF _ that] by (rule safe_at_partner_proxy[OF assms(1)[OF assms(4)]])
  then show ?thesis
    by (cases r) (simp_all add: api_users_def api_companies_def api_config_def
                                safe_at_api_logo assms(3))
qed

subsection \<open>Runs of getAccessToken between its suspension points\<close>

lemma run_sync_bind:
  "run_sync t (bind p f) s =
     (case run_sync t p s of
        (Ret a, s', evs) \<Rightarrow> (case run_sync t (f a) s' of (p'', s'', evs') \<Rightarrow> (p'', s'', evs @ evs'))
      | (p', s', evs) \<Rightarrow> (bind p' f, s', evs))"
  by (induction p arbitrary: s) (auto split: prod.split prog.split)

lemma run_sync_get_access_token_usable:
  "token_usable t c \<Longrightarrow> run_sync t (get_access_token cfg) c = (Ret (Inr (access_token c)), c, [])"
  by (simp add: get_access_token_def)

lemma run_sync_get_access_token_stale:
  assumes "\<not> token_usable t c" and "fetchable (url (token_request cfg))"
  shows "run_sync t (get_access_token cfg) c = (refresh_wait cfg, c, [Sent (token_request cfg)])"
  using assms
  by (auto simp: get_access_token_def refresh_wait_def try_catch_def bind_exn_def fetch_token_def
                 js_fetch_def token_reply_def fun_eq_iff split: http_outcome.split sum.split)

lemma run_sync_store_token_fields:
  assumes "token_fields data = Some (tok, e)"
  shows "run_sync t (store_token data) c =
           (Ret (Inr (Some (JStr tok))),
            \<lparr>access_token = Some (JStr tok), token_expiry = Some (Num (t + (e - 300) * 1000))\<rparr>,
            map Logged (refresh_log (take 50 tok)))"
  using token_fields_SomeD[OF assms]
  by (simp add: store_token_def js_substring_prefix refresh_log_def expiry_of_def)

lemma run_sync_refresh_reply:
  assumes "token_fields data = Some (tok, e)" and "response_ok st"
  shows "run_sync t (try_catch (bind_exn (Ret (token_reply (Response st (Json data)))) store_token) h) c =
           (Ret (Inr (Some (JStr tok))),
            \<lparr>access_token = Some (JStr tok), token_expiry = Some (Num (t + (e - 300) * 1000))\<rparr>,
            map Logged (refresh_log (take 50 tok)))"
  using assms
  by (simp add: try_catch_def bind_exn_def token_reply_def response_json_def run_sync_bind
                run_sync_store_token_fields)

lemma resume_waiting [simp]:
  "i < length (tasks w) \<Longrightarrow> tasks w ! i = Await q k \<Longrightarrow>
   resume i v w = (case run_sync (loop_clock w) (k v) (shared w) of (p', s', evs) \<Rightarrow>
                     w\<lparr>shared := s', tasks := (tasks w)[i := p'], trace := trace w @ evs\<rparr>)"
  by (simp add: resume_def)

lemma sent_map_Logged [simp]: "sent (map Logged es) = []"
  by (induction es) simp_all

lemma waiting_on_arrive:
  "i < length (tasks w) \<Longrightarrow> waiting_on (arrive p w) i = waiting_on w i"
  by (simp add: arrive_def waiting_on_def nth_append split: prod.split)

lemma token_fields_example:
  "token_fields (example_token_body e) = Some (''eyJhbGciOiJSUzI1NiJ9'', e)"
  by (simp add: token_fields_def example_token_body_def)

lemma partner_request_fetchable: "fetchable (url (partner_request example_config path tok))"
  by (simp add: partner_request_def example_config_def env_value_def js_string_of_def fetchable_def)

lemma example_partner_arrive:
  assumes "r \<in> {Users, Companies}"
  shows "shared (arrive (handler example_config r) (world_init cache_init 0)) = cache_init \<and>
         trace (arrive (handler example_config r) (world_init cache_init 0)) =
           [Sent (token_request example_config)] \<and>
         length (tasks (arrive (handler example_config r) (world_init cache_init 0))) = 1 \<and>
         waiting_on (arrive (handler example_config r) (world_init cache_init 0)) 0 =
           Some (token_request example_config)"
  using assms
  by (auto simp: arrive_def world_init_def api_users_def api_companies_def partner_proxy_def
                 handle_def bind_exn_def run_sync_bind run_sync_get_access_token_stale
                 refresh_wait_def waiting_on_def)

lemma example_refreshed_reachable:
  assumes "C (token_request example_config) (Response 200 (Json (example_token_body 3600)))"
  shows "(loop_step (range (handler example_config)) C)\<^sup>*\<^sup>* (world_init cache_init 0) example_refreshed_world"
proof -
  let ?w1 = "arrive (handler example_config Users) (world_init cache_init 0)"
  have "loop_step (range (handler example_config)) C (world_init cache_init 0) ?w1"
    by (rule step_arrive, rule rangeI)
  moreover have "loop_step (range (handler example_config)) C ?w1 example_refreshed_world"
    unfolding example_refreshed_world_def
    using example_partner_arrive[of Users] assms by (auto intro: step_resume)
  ultimately show ?thesis by (meson rtranclp.rtrancl_refl rtranclp.rtrancl_into_rtrancl)
qed

lemma example_refreshed_sent:
  "sent (trace example_refreshed_world) =
     [token_request example_config,
      partner_request example_config ''/api/users'' (Some (JStr ''eyJhbGciOiJSUzI1NiJ9''))]"
  by (simp add: example_refreshed_world_def arrive_def world_init_def api_users_def
                partner_proxy_def handle_def bind_exn_def run_sync_bind run_sync_get_access_token_stale)
     (simp add: refresh_wait_def run_sync_bind run_sync_refresh_reply[OF token_fields_example]
                response_ok_def js_fetch_def partner_request_fetchable)

lemma bind_Ret: "bind p Ret = p"
  by (induction p) simp_all

lemma example_race_world_eq:
  "example_race_world =
     \<lparr>shared = cache_init, loop_clock = 1000,
      tasks = [refresh_wait example_config, refresh_wait example_config],
      trace = [Sent (token_request example_config), Sent (token_request example_config)]\<rparr>"
  by (simp add: example_race_world_def arrive_def world_init_def run_sync_get_access_token_stale)

lemma waiting_on_resume_other:
  assumes "j \<noteq> i"
  shows "waiting_on (resume j v w) i = waiting_on w i"
proof (cases "j < length (tasks w)")
  case True
  then show ?thesis
    using assms
    by (cases "tasks w ! j") (simp_all add: resume_def waiting_on_def split: prod.split)
qed (simp add: resume_def)

lemma run_sync_refresh_failure:
  "run_sync t (try_catch (bind_exn (Ret (Inl e)) store_token)
                 (\<lambda>e. Log (Error ''Error getting access token:'' e) (Ret (Inl e)))) c =
     (Ret (Inl e), c, [Logged (Error ''Error getting access token:'' e)])"
  by (simp add: try_catch_def bind_exn_def)

lemma loop_clock_arrive [simp]: "loop_clock (arrive p w) = loop_clock w"
  by (simp add: arrive_def split: prod.split)

lemma waiting_on_tick [simp]: "waiting_on (w\<lparr>loop_clock := t\<rparr>) i = waiting_on w i"
  by (simp add: waiting_on_def)

subsection \<open>Properties of the server under interleaving\<close>

text \<open>For the handlers alone: in every state the event loop reaches from the initial cache, by any
  interleaving of requests to the four JSON routes, any clock, and any answers of the
  upstreams in which the token endpoint keeps its contract on \<open>access_token\<close>, the cache
  holds \<open>null\<close>, \<open>undefined\<close> or a string as its token.\<close>

lemma reachable_cache_wf:
  assumes "(loop_step (range (handler cfg)) (\<lambda>q v. q = token_request cfg \<longrightarrow> token_contract v))\<^sup>*\<^sup>*
             (world_init cache_init t) w"
  shows "cache_wf (shared w)"
proof -
  let ?C = "\<lambda>q v. q = token_request cfg \<longrightarrow> token_contract v"
  have tok: "safe_at cache_wf (\<lambda>_. True) ?C (\<lambda>r. \<forall>tok. r = Inr tok \<longrightarrow> True) s (get_access_token cfg)"
    for s by (rule safe_at_mono[OF safe_at_get_access_token_wf]) simp_all
  have "world_ok cache_wf (\<lambda>_. True) ?C (\<lambda>_. True) w"
    using assms by (rule reachable_world_ok) (auto intro: safe_at_handler[OF tok])
  then show ?thesis by (simp add: world_ok_def)
qed

theorem reachable_cache_wf_witness:
  "(loop_step (range (handler example_config))
      (\<lambda>q v. q = token_request example_config \<longrightarrow> token_contract v))\<^sup>*\<^sup>*
      (world_init cache_init 0) example_refreshed_world \<and>
   cache_wf (shared example_refreshed_world)"
proof -
  have r: "(loop_step (range (handler example_config))
             (\<lambda>q v. q = token_request example_config \<longrightarrow> token_contract v))\<^sup>*\<^sup>*
             (world_init cache_init 0) example_refreshed_world"
    by (rule example_refreshed_reachable) (simp add: example_token_body_def)
  with reachable_cache_wf[OF r] show ?thesis by simp
qed

text \<open>C27: under the full contract of the token endpoint (a non-empty string token and
  a numeric lifetime in every 2xx body), every request the server sends in any
  interleaving is the token request, a logo search, or a partner-API request for
  \<open>/api/users\<close> or \<open>/api/companies\<close> whose bearer token is a non-empty string: a
  partner request never carries \<open>Bearer undefined\<close>, \<open>Bearer null\<close> or
  \<open>Bearer \<close>.\<close>

theorem reachable_requests_authorized:
  assumes "(loop_step (range (handler cfg)) (\<lambda>q v. q = token_request cfg \<longrightarrow> upstream_contract v))\<^sup>*\<^sup>*
             (world_init cache_init t) w"
    and "q \<in> set (sent (trace w))"
  shows "q = token_request cfg \<or> (\<exists>d. q = logo_request cfg d) \<or>
         (\<exists>path tok. path \<in> {''/api/users'', ''/api/companies''} \<and> nonempty_token tok \<and>
                    q = partner_request cfg path tok)"
proof -
  let ?C = "\<lambda>q v. q = token_request cfg \<longrightarrow> upstream_contract v"
  let ?A = "\<lambda>q. q = token_request cfg \<or> (\<exists>d. q = logo_request cfg d) \<or>
         (\<exists>path tok. path \<in> {''/api/users'', ''/api/companies''} \<and> nonempty_token tok \<and>
                    q = partner_request cfg path tok)"
  have tok: "cache_wf s \<Longrightarrow> safe_at cache_wf ?A ?C (\<lambda>r. \<forall>tok. r = Inr tok \<longrightarrow> nonempty_token tok) s
               (get_access_token cfg)" for s
    by (rule safe_at_get_access_token_nonempty) simp_all
  have "world_ok cache_wf ?A ?C (\<lambda>_. True) w"
    using assms(1)
  proof (rule reachable_world_ok)
    fix p s assume p: "p \<in> range (handler cfg)" and s: "cache_wf s"
    then obtain r where "p = handler cfg r" by blast
    moreover have "safe_at cache_wf ?A ?C (\<lambda>_. True) s (handler cfg r)"
      by (rule safe_at_handler[OF tok _ _ s]) auto
    ultimately show "safe_at cache_wf ?A ?C (\<lambda>_. True) s p" by simp
  qed simp
  with assms(2) show ?thesis by (simp add: world_ok_def)
qed

theorem reachable_requests_authorized_witness:
  "(loop_step (range (handler example_config))
      (\<lambda>q v. q = token_request example_config \<longrightarrow> upstream_contract v))\<^sup>*\<^sup>*
      (world_init cache_init 0) example_refreshed_world \<and>
   partner_request example_config ''/api/users'' (Some (JStr ''eyJhbGciOiJSUzI1NiJ9''))
     \<in> set (sent (trace example_refreshed_world)) \<and>
   (partner_request example_config ''/api/users'' (Some (JStr ''eyJhbGciOiJSUzI1NiJ9'')) =
      token_request example_config \<or>
    (\<exists>d. partner_request example_config ''/api/users'' (Some (JStr ''eyJhbGciOiJSUzI1NiJ9'')) =
           logo_request example_config d) \<or>
    (\<exists>path tok. path \<in> {''/api/users'', ''/api/companies''} \<and> nonempty_token tok \<and>
      partner_request example_config ''/api/users'' (Some (JStr ''eyJhbGciOiJSUzI1NiJ9'')) =
        partner_request example_config path tok))"
proof -
  have r: "(loop_step (range (handler example_config))
             (\<lambda>q v. q = token_request example_config \<longrightarrow> upstream_contract v))\<^sup>*\<^sup>*
             (world_init cache_init 0) example_refreshed_world"
    by (rule example_refreshed_reachable) (simp add: token_fields_example response_ok_def)
  have q: "partner_request example_config ''/api/users'' (Some (JStr ''eyJhbGciOiJSUzI1NiJ9''))
             \<in> set (sent (trace example_refreshed_world))"
    by (simp add: example_refreshed_sent)
  from r q reachable_requests_authorized[OF r q] show ?thesis by (intro conjI)
qed

text \<open>C28: the cache has no in-flight guard: a request to \<open>/api/users\<close> or
  \<open>/api/companies\<close> that arrives while the cached token is not usable sends its own
  token request and suspends on it, whatever other handlers are already waiting on the
  token endpoint, and leaves the cache as it was.\<close>

theorem arrive_stale_refreshes:
  assumes "\<not> token_usable (loop_clock w) (shared w)" and "fetchable (url (token_request cfg))"
    and "r \<in> {Users, Companies}"
  shows "shared (arrive (handler cfg r) w) = shared w \<and>
         trace (arrive (handler cfg r) w) = trace w @ [Sent (token_request cfg)] \<and>
         waiting_on (arrive (handler cfg r) w) (length (tasks w)) = Some (token_request cfg)"
  using assms
  by (auto simp: arrive_def api_users_def api_companies_def partner_proxy_def handle_def bind_exn_def
                 run_sync_bind run_sync_get_access_token_stale refresh_wait_def waiting_on_def)

theorem arrive_stale_refreshes_witness:
  "\<not> token_usable (loop_clock (arrive (handler example_config Users) (world_init cache_init 0)))
      (shared (arrive (handler example_config Users) (world_init cache_init 0))) \<and>
   fetchable (url (token_request example_config)) \<and> Companies \<in> {Users, Companies} \<and>
   trace (arrive (handler example_config Companies)
            (arrive (handler example_config Users) (world_init cache_init 0))) =
     [Sent (token_request example_config), Sent (token_request example_config)] \<and>
   waiting_on (arrive (handler example_config Companies)
                 (arrive (handler example_config Users) (world_init cache_init 0))) 0 =
     Some (token_request example_config) \<and>
   waiting_on (arrive (handler example_config Companies)
                 (arrive (handler example_config Users) (world_init cache_init 0))) 1 =
     Some (token_request example_config)"
proof -
  let ?w1 = "arrive (handler example_config Users) (world_init cache_init 0)"
  have w1: "shared ?w1 = cache_init \<and> trace ?w1 = [Sent (token_request example_config)] \<and>
            length (tasks ?w1) = 1 \<and> waiting_on ?w1 0 = Some (token_request example_config)"
    by (rule example_partner_arrive) simp
  then have stale: "\<not> token_usable (loop_clock ?w1) (shared ?w1)" by simp
  from w1 stale arrive_stale_refreshes[OF stale example_config_fetchable, of Companies]
       waiting_on_arrive[of 0 ?w1 "handler example_config Companies"]
  show ?thesis by simp
qed

text \<open>C29: concurrent refreshes race and the last response to arrive wins: when two calls
  of \<open>getAccessToken\<close> wait on the token endpoint and both receive valid tokens, the
  cache ends with the token (and the lifetime) of the response processed last, while each
  caller returns the token of its own response.\<close>

theorem last_write_wins:
  assumes "i < length (tasks w)" and "j < length (tasks w)" and "i \<noteq> j"
    and "tasks w ! i = refresh_wait cfg" and "tasks w ! j = refresh_wait cfg"
    and "token_fields d1 = Some (tok1, e1)" and "token_fields d2 = Some (tok2, e2)"
    and "response_ok st1" and "response_ok st2"
  shows "shared (resume j (Response st2 (Json d2)) (resume i (Response st1 (Json d1)) w)) =
           \<lparr>access_token = Some (JStr tok2), token_expiry = Some (Num (loop_clock w + (e2 - 300) * 1000))\<rparr> \<and>
         tasks (resume j (Response st2 (Json d2)) (resume i (Response st1 (Json d1)) w)) ! i =
           Ret (Inr (Some (JStr tok1))) \<and>
         tasks (resume j (Response st2 (Json d2)) (resume i (Response st1 (Json d1)) w)) ! j =
           Ret (Inr (Some (JStr tok2)))"
  using assms
  by (simp add: refresh_wait_def run_sync_refresh_reply)

theorem last_write_wins_witness:
  "0 < length (tasks example_race_world) \<and> 1 < length (tasks example_race_world) \<and> (0::nat) \<noteq> 1 \<and>
   tasks example_race_world ! 0 = refresh_wait example_config \<and>
   tasks example_race_world ! 1 = refresh_wait example_config \<and>
   token_fields (example_token_body 3600) = Some (''eyJhbGciOiJSUzI1NiJ9'', 3600) \<and>
   token_fields (JObj [(''access_token'', JStr ''second''), (''expires_in'', JNum 7200)]) =
     Some (''second'', 7200) \<and>
   response_ok 200 \<and>
   shared (resume 1 (Response 200 (Json (JObj [(''access_token'', JStr ''second''), (''expires_in'', JNum 7200)])))
             (resume 0 (Response 200 (Json (example_token_body 3600))) example_race_world)) =
     \<lparr>access_token = Some (JStr ''second''), token_expiry = Some (Num 6901000)\<rparr> \<and>
   tasks (resume 1 (Response 200 (Json (JObj [(''access_token'', JStr ''second''), (''expires_in'', JNum 7200)])))
            (resume 0 (Response 200 (Json (example_token_body 3600))) example_race_world)) ! 0 =
     Ret (Inr (Some (JStr ''eyJhbGciOiJSUzI1NiJ9''))) \<and>
   tasks (resume 1 (Response 200 (Json (JObj [(''access_token'', JStr ''second''), (''expires_in'', JNum 7200)])))
            (resume 0 (Response 200 (Json (example_token_body 3600))) example_race_world)) ! 1 =
     Ret (Inr (Some (JStr ''second'')))"
proof -
  have f2: "token_fields (JObj [(''access_token'', JStr ''second''), (''expires_in'', JNum 7200)]) =
              Some (''second'', 7200)"
    by (simp add: token_fields_def)
  show ?thesis
    using last_write_wins[of 0 example_race_world 1 example_config "example_token_body 3600"
            "''eyJhbGciOiJSUzI1NiJ9''" 3600
            "JObj [(''access_token'', JStr ''second''), (''expires_in'', JNum 7200)]" "''second''" 7200
            200 200]
    by (simp add: example_race_world_eq token_fields_example f2 response_ok_def)
qed

text \<open>The end of a refresh runs without interruption: when a handler suspended in
  \<open>getAccessToken\<close> receives a valid token, it writes the token and its expiry, logs the
  refresh, and continues with its own token from the state it has just written, in one step
  of the loop that no other handler can interleave.\<close>

lemma refresh_resumes_atomically:
  assumes "i < length (tasks w)" and "tasks w ! i = bind (refresh_wait cfg) f"
    and "token_fields d = Some (tok, e)" and "response_ok st"
  shows "resume i (Response st (Json d)) w =
           (case run_sync (loop_clock w) (f (Inr (Some (JStr tok))))
                   \<lparr>access_token = Some (JStr tok),
                    token_expiry = Some (Num (loop_clock w + (e - 300) * 1000))\<rparr> of
              (p', s', evs) \<Rightarrow>
                w\<lparr>shared := s', tasks := (tasks w)[i := p'],
                  trace := trace w @ map Logged (refresh_log (take 50 tok)) @ evs\<rparr>)"
  using assms
  by (simp add: refresh_wait_def run_sync_bind run_sync_refresh_reply split: prod.split)

theorem refresh_resumes_atomically_witness:
  "0 < length (tasks example_race_world) \<and>
   tasks example_race_world ! 0 = bind (refresh_wait example_config) Ret \<and>
   token_fields (example_token_body 3600) = Some (''eyJhbGciOiJSUzI1NiJ9'', 3600) \<and> response_ok 200 \<and>
   resume 0 (Response 200 (Json (example_token_body 3600))) example_race_world =
     \<lparr>shared = \<lparr>access_token = Some (JStr ''eyJhbGciOiJSUzI1NiJ9''), token_expiry = Some (Num 3301000)\<rparr>,
      loop_clock = 1000,
      tasks = [Ret (Inr (Some (JStr ''eyJhbGciOiJSUzI1NiJ9''))), refresh_wait example_config],
      trace = [Sent (token_request example_config), Sent (token_request example_config)] @
              map Logged (refresh_log ''eyJhbGciOiJSUzI1NiJ9'')\<rparr>"
  using refresh_resumes_atomically[of 0 example_race_world example_config Ret "example_token_body 3600"
          "''eyJhbGciOiJSUzI1NiJ9''" 3600 200]
  by (simp add: example_race_world_eq bind_Ret token_fields_example response_ok_def)

text \<open>No timeout applies to an upstream call in the loop: a handler waiting on a request keeps
  waiting through every step of the loop (arrivals, other responses, any passage of time)
  except the arrival of the response to its own request.\<close>

lemma pending_ends_only_by_response:
  assumes "loop_step (range (handler cfg)) C w w'" and "waiting_on w i = Some q"
  shows "waiting_on w' i = Some q \<or> (\<exists>v. C q v \<and> w' = resume i v w)"
  using assms(1)
proof cases
  case (step_arrive p)
  from assms(2) have "i < length (tasks w)" by (simp add: waiting_on_def split: if_splits)
  with assms(2) show ?thesis by (simp add: step_arrive waiting_on_arrive)
next
  case (step_resume j q' v)
  then show ?thesis
    using assms(2) by (cases "j = i") (auto simp: waiting_on_resume_other)
next
  case (step_tick d)
  with assms(2) show ?thesis by simp
qed

theorem pending_ends_only_by_response_witness:
  "loop_step (range (handler example_config)) (\<lambda>_ _. True)
     (arrive (handler example_config Users) (world_init cache_init 0))
     ((arrive (handler example_config Users) (world_init cache_init 0))\<lparr>loop_clock := 3600000\<rparr>) \<and>
   waiting_on (arrive (handler example_config Users) (world_init cache_init 0)) 0 =
     Some (token_request example_config) \<and>
   (waiting_on ((arrive (handler example_config Users) (world_init cache_init 0))\<lparr>loop_clock := 3600000\<rparr>) 0 =
      Some (token_request example_config) \<or>
    (\<exists>v. True \<and>
       (arrive (handler example_config Users) (world_init cache_init 0))\<lparr>loop_clock := 3600000\<rparr> =
         resume 0 v (arrive (handler example_config Users) (world_init cache_init 0))))"
proof -
  let ?w1 = "arrive (handler example_config Users) (world_init cache_init 0)"
  have s: "loop_step (range (handler example_config)) (\<lambda>_ _. True) ?w1 (?w1\<lparr>loop_clock := 3600000\<rparr>)"
    using step_tick[of 3600000 "range (handler example_config)" "\<lambda>_ _. True" ?w1]
    by (simp add: world_init_def)
  have w: "waiting_on ?w1 0 = Some (token_request example_config)"
    using example_partner_arrive[of Users] by simp
  from s w pending_ends_only_by_response[OF s w] show ?thesis by (intro conjI)
qed

text \<open>C32: a refresh that fails leaves the cache as it is and fails its caller, even when
  a concurrent refresh has meanwhile stored a usable token: \<open>getAccessToken\<close> does not
  look at the cache again after its \<open>await\<close>.\<close>

theorem failed_refresh_ignores_fresh_cache:
  assumes "i < length (tasks w)" and "tasks w ! i = refresh_wait cfg" and "token_reply v = Inl e"
  shows "resume i v w =
           w\<lparr>tasks := (tasks w)[i := Ret (Inl e)],
             trace := trace w @ [Logged (Error ''Error getting access token:'' e)]\<rparr>"
  using assms by (simp add: refresh_wait_def run_sync_refresh_failure)

theorem failed_refresh_ignores_fresh_cache_witness:
  "1 < length (tasks (resume 0 (Response 200 (Json (example_token_body 3600))) example_race_world)) \<and>
   tasks (resume 0 (Response 200 (Json (example_token_body 3600))) example_race_world) ! 1 =
     refresh_wait example_config \<and>
   token_reply (Response 503 (Json JNull)) = Inl (Token_request_failed 503) \<and>
   token_usable 1000 (shared (resume 0 (Response 200 (Json (example_token_body 3600))) example_race_world)) \<and>
   tasks (resume 1 (Response 503 (Json JNull))
            (resume 0 (Response 200 (Json (example_token_body 3600))) example_race_world)) =
     [Ret (Inr (Some (JStr ''eyJhbGciOiJSUzI1NiJ9''))), Ret (Inl (Token_request_failed 503))] \<and>
   shared (resume 1 (Response 503 (Json JNull))
             (resume 0 (Response 200 (Json (example_token_body 3600))) example_race_world)) =
     \<lparr>access_token = Some (JStr ''eyJhbGciOiJSUzI1NiJ9''), token_expiry = Some (Num 3301000)\<rparr>"
proof -
  let ?w1 = "resume 0 (Response 200 (Json (example_token_body 3600))) example_race_world"
  have w1: "?w1 = \<lparr>shared = \<lparr>access_token = Some (JStr ''eyJhbGciOiJSUzI1NiJ9''),
                              token_expiry = Some (Num 3301000)\<rparr>,
                   loop_clock = 1000,
                   tasks = [Ret (Inr (Some (JStr ''eyJhbGciOiJSUzI1NiJ9''))), refresh_wait example_config],
                   trace = [Sent (token_request example_config), Sent (token_request example_config)] @
                           map Logged (refresh_log ''eyJhbGciOiJSUzI1NiJ9'')\<rparr>"
    by (simp add: example_race_world_eq refresh_wait_def run_sync_refresh_reply[OF token_fields_example]
                  response_ok_def)
  have r: "token_reply (Response 503 (Json JNull)) = Inl (Token_request_failed 503)"
    by (simp add: token_reply_def response_ok_def)
  show ?thesis
    using failed_refresh_ignores_fresh_cache[of 1 ?w1 example_config "Response 503 (Json JNull)"
            "Token_request_failed 503"] r
    by (simp add: w1 token_usable_def num_of_nullable_def)
qed

end
