(* ===== verification/Request_Runs.thy ===== *)
theory Request_Runs
  imports Concurrency
begin

text \<open>
  How one request of \<open>src/server.js\<close> runs: the sequential run \<open>exec\<close> of theory
  \<open>Effects\<close> is a run of the event loop of theory \<open>Concurrency\<close>; every handler
  suspends at most twice; and \<open>getAccessToken\<close> returns a string or throws.
\<close>

subsection \<open>Suspension depth\<close>

text \<open>\<open>settles_within m p\<close>: every run of \<open>p\<close>, whatever the state, clock and
  responses, suspends at most \<open>m\<close> times before it returns.\<close>

inductive settles_within :: "nat \<Rightarrow> ('s, 'a) prog \<Rightarrow> bool" where
  settles_Ret: "settles_within m (Ret a)"
| settles_Get: "(\<And>s. settles_within m (k s)) \<Longrightarrow> settles_within m (Get k)"
| settles_Put: "settles_within m p \<Longrightarrow> settles_within m (Put s p)"
| settles_Now: "(\<And>t. settles_within m (k t)) \<Longrightarrow> settles_within m (Now k)"
| settles_Log: "settles_within m p \<Longrightarrow> settles_within m (Log e p)"
| settles_Await: "(\<And>v. settles_within m (k v)) \<Longrightarrow> settles_within (Suc m) (Await q k)"

inductive_simps settles_within_simps [simp]:
  "settles_within m (Ret a)" "settles_within m (Get k)" "settles_within m (Put s p)"
  "settles_within m (Now k)" "settles_within m (Log e p)" "settles_within m (Await q k)"

subsection \<open>Lemmas\<close>

text \<open>The run of \<open>exec\<close> as steps of the loop, for the \<open>i\<close>-th handler of a world:
  after its synchronous start the loop reaches the world in which it has finished with
  the result, state, clock and trace of \<open>exec\<close>, by ticking to each response time and
  resuming it.\<close>

lemma exec_loop_steps:
  assumes "net_monotone n" and "\<And>q t. C q (snd (n q t))" and "i < length (tasks w)"
    and "loop_clock w = t" and "run_sync t p s = (p1, s1, evs1)"
  shows "(loop_step P C)\<^sup>*\<^sup>* (w\<lparr>shared := s1, tasks := (tasks w)[i := p1], trace := trace w @ evs1\<rparr>)
           (w\<lparr>shared := state (exec n p s t), loop_clock := clock (exec n p s t),
              tasks := (tasks w)[i := Ret (ret (exec n p s t))], trace := trace w @ events (exec n p s t)\<rparr>)"
  using assms(3-)
proof (induction p arbitrary: w s t p1 s1 evs1)
  case (Ret a)
  then have "p1 = Ret a" "s1 = s" "evs1 = []" and t: "t = loop_clock w" by auto
  then show ?case by (simp add: t)
next
  case (Get k)
  then show ?case by simp
next
  case (Put s' p)
  then show ?case by simp
next
  case (Now k)
  then show ?case by simp
next
  case (Log e p)
  obtain p' s' evs where r: "run_sync t p s = (p', s', evs)" by (cases "run_sync t p s") auto
  with Log.prems have e: "p1 = p'" "s1 = s'" "evs1 = Logged e # evs" by auto
  have "(loop_step P C)\<^sup>*\<^sup>*
          ((w\<lparr>trace := trace w @ [Logged e]\<rparr>)\<lparr>shared := s', tasks := (tasks w)[i := p'],
              trace := (trace w @ [Logged e]) @ evs\<rparr>)
          ((w\<lparr>trace := trace w @ [Logged e]\<rparr>)\<lparr>shared := state (exec n p s t),
              loop_clock := clock (exec n p s t), tasks := (tasks w)[i := Ret (ret (exec n p s t))],
              trace := (trace w @ [Logged e]) @ events (exec n p s t)\<rparr>)"
    using Log.IH[where w = "w\<lparr>trace := trace w @ [Logged e]\<rparr>" and s = s and t = t] Log.prems r
    by simp
  then show ?case by (simp add: e Let_def)
next
  case (Await q k)
  obtain t' v where nq: "n q t = (t', v)" by (cases "n q t") auto
  have tt: "t \<le> t'" using assms(1) nq unfolding net_monotone_def by (metis fst_conv)
  have cv: "C q v" using assms(2)[of q t] nq by simp
  from Await.prems have e: "p1 = Await q k" "s1 = s" "evs1 = [Sent q]" by auto
  note Await.prems(1,2)
  let ?w0 = "w\<lparr>shared := s, tasks := (tasks w)[i := Await q k], trace := trace w @ [Sent q]\<rparr>"
  let ?w1 = "?w0\<lparr>loop_clock := t'\<rparr>"
  obtain p' s' evs where r: "run_sync t' (k v) s = (p', s', evs)" by (cases "run_sync t' (k v) s") auto
  have "loop_step P C ?w0 (?w0\<lparr>loop_clock := loop_clock ?w0 + (t' - t)\<rparr>)"
    using tt by (intro step_tick) simp
  then have s1: "loop_step P C ?w0 ?w1" using Await.prems(2) by simp
  have "waiting_on ?w1 i = Some q" using Await.prems(1) by (simp add: waiting_on_def)
  then have "loop_step P C ?w1 (resume i v ?w1)" using cv by (rule step_resume)
  moreover have "resume i v ?w1 = ?w1\<lparr>shared := s', tasks := (tasks ?w1)[i := p'], trace := trace ?w1 @ evs\<rparr>"
    using Await.prems(1) r by (simp add: resume_def)
  ultimately have s2: "loop_step P C ?w1 (?w1\<lparr>shared := s', tasks := (tasks ?w1)[i := p'], trace := trace ?w1 @ evs\<rparr>)"
    by simp
  have s3: "(loop_step P C)\<^sup>*\<^sup>* (?w1\<lparr>shared := s', tasks := (tasks ?w1)[i := p'], trace := trace ?w1 @ evs\<rparr>)
              (?w1\<lparr>shared := state (exec n (k v) s t'), loop_clock := clock (exec n (k v) s t'),
                 tasks := (tasks ?w1)[i := Ret (ret (exec n (k v) s t'))],
                 trace := trace ?w1 @ events (exec n (k v) s t')\<rparr>)"
    using Await.IH[of "k v" "?w1" t' s, OF rangeI] Await.prems(1) r by simp
  from s1 s2 s3 show ?case
    using Await.prems(3) by (simp add: e nq Let_def)
qed

lemma net_after_monotone [simp]: "net_monotone (net_after d v) \<longleftrightarrow> 0 \<le> d"
  by (simp add: net_monotone_def)

lemma settles_within_mono:
  "settles_within m p \<Longrightarrow> m \<le> m' \<Longrightarrow> settles_within m' p"
proof (induction arbitrary: m' rule: settles_within.induct)
  case (settles_Await m k q)
  then show ?case by (cases m') auto
qed auto

lemma settles_bind:
  assumes "settles_within m p" and "\<And>a. settles_within m' (f a)"
  shows "settles_within (m + m') (bind p f)"
  using assms
proof (induction rule: settles_within.induct)
  case (settles_Ret m a)
  then show ?case using settles_within_mono[of m' "f a" "m + m'"] by simp
qed auto

lemma settles_bind_exn:
  "settles_within m p \<Longrightarrow> (\<And>a. settles_within m' (f a)) \<Longrightarrow> settles_within (m + m') (bind_exn p f)"
  unfolding bind_exn_def by (erule settles_bind) (simp split: sum.split)

lemma settles_try_catch:
  "settles_within m p \<Longrightarrow> (\<And>e. settles_within m' (h e)) \<Longrightarrow> settles_within (m + m') (try_catch p h)"
  unfolding try_catch_def by (erule settles_bind) (simp split: sum.split)

lemma settles_handle:
  "settles_within m p \<Longrightarrow> (\<And>e. settles_within m' (h e)) \<Longrightarrow> settles_within (m + m') (handle p h)"
  unfolding handle_def by (erule settles_bind) (simp split: sum.split)

lemma settles_js_fetch: "settles_within 1 (js_fetch q)"
  by (simp add: js_fetch_def split: http_outcome.split)

lemma settles_store_token: "settles_within 0 (store_token data)"
  by (simp add: store_token_def split: sum.split)

lemma settles_get_access_token: "settles_within 1 (get_access_token cfg)"
proof -
  have "settles_within (1 + 0) (fetch_token cfg)"
    unfolding fetch_token_def by (rule settles_bind_exn[OF settles_js_fetch]) (simp split: prod.split)
  then have "settles_within ((1 + 0) + 0) (bind_exn (fetch_token cfg) store_token)"
    by (rule settles_bind_exn) (rule settles_store_token)
  then have "settles_within (((1 + 0) + 0) + 0) (try_catch (bind_exn (fetch_token cfg) store_token)
               (\<lambda>e. Log (Error ''Error getting access token:'' e) (Ret (Inl e))))"
    by (rule settles_try_catch) simp
  then show ?thesis by (simp add: get_access_token_def)
qed

lemma settles_handler: "settles_within 2 (handler cfg r)"
proof -
  have "settles_within (1 + (1 + 0) + 0) (partner_proxy cfg path lm em)" for path lm em
    unfolding partner_proxy_def
    by (intro settles_handle settles_bind_exn settles_get_access_token settles_js_fetch)
       (simp_all split: prod.split sum.split)
  then have partner: "settles_within 2 (partner_proxy cfg path lm em)" for path lm em
    by (simp add: numeral_2_eq_2)
  have "settles_within (1 + 0 + 0) (api_logo cfg d)" for d
    unfolding api_logo_def
    by (intro settles_handle settles_bind_exn settles_js_fetch)
       (simp_all split: prod.split sum.split option.split)
  then have logo: "settles_within 2 (api_logo cfg d)" for d
    by (rule settles_within_mono) simp
  show ?thesis
    by (cases r) (simp_all add: api_users_def api_companies_def api_config_def partner logo)
qed

lemma settles_sent_bound:
  "settles_within m p \<Longrightarrow> length (sent (events (exec n p s t))) \<le> m"
proof (induction arbitrary: s t rule: settles_within.induct)
  case (settles_Await m k q)
  then show ?case by (simp add: Let_def split: prod.split)
qed (simp_all add: Let_def)

lemma nonempty_token_string: "nonempty_token v \<Longrightarrow> \<exists>s. v = Some (JStr s) \<and> s \<noteq> []"
  by (cases v rule: nonempty_token.cases) auto

lemma store_token_result_string:
  "ret (exec n (store_token data) c t) = Inr tok \<Longrightarrow> \<exists>s. tok = Some (JStr s)"
  by (cases tok rule: option.exhaust; cases "the tok")
     (auto simp: exec_store_token Let_def js_substring_not_string split: sum.splits)

subsection \<open>Properties of a request run\<close>

text \<open>The sequential semantics is a run of the event loop: for a network whose
  answers never precede their requests, a request to any route that runs alone is a run of
  the loop that ends with the handler finished with the result, the cache, the clock and the
  trace \<open>exec\<close> computes. So every property proved of \<open>exec\<close> describes a behaviour of
  the server.\<close>

lemma handler_exec_is_loop_run:
  assumes "net_monotone n" and "\<And>q t. C q (snd (n q t))"
  shows "(loop_step (range (handler cfg)) C)\<^sup>*\<^sup>* (world_init c t)
           \<lparr>shared = state (exec n (handler cfg r) c t), loop_clock = clock (exec n (handler cfg r) c t),
            tasks = [Ret (ret (exec n (handler cfg r) c t))], trace = events (exec n (handler cfg r) c t)\<rparr>"
proof -
  obtain p1 s1 evs1 where r: "run_sync t (handler cfg r) c = (p1, s1, evs1)"
    by (cases "run_sync t (handler cfg r) c") auto
  let ?w = "\<lparr>shared = c, loop_clock = t, tasks = [handler cfg r], trace = []\<rparr> :: (cache, http_response) world"
  have "loop_step (range (handler cfg)) C (world_init c t) (arrive (handler cfg r) (world_init c t))"
    by (rule step_arrive) (rule rangeI)
  moreover have "arrive (handler cfg r) (world_init c t) =
                   ?w\<lparr>shared := s1, tasks := (tasks ?w)[0 := p1], trace := trace ?w @ evs1\<rparr>"
    by (simp add: arrive_def world_init_def r)
  moreover have "(loop_step (range (handler cfg)) C)\<^sup>*\<^sup>*
                   (?w\<lparr>shared := s1, tasks := (tasks ?w)[0 := p1], trace := trace ?w @ evs1\<rparr>)
                   (?w\<lparr>shared := state (exec n (handler cfg r) c t), loop_clock := clock (exec n (handler cfg r) c t),
                       tasks := (tasks ?w)[0 := Ret (ret (exec n (handler cfg r) c t))],
                       trace := trace ?w @ events (exec n (handler cfg r) c t)\<rparr>)"
    by (rule exec_loop_steps[where p = "handler cfg r" and s = c]) (use assms r in simp_all)
  ultimately show ?thesis by (simp add: converse_rtranclp_into_rtranclp)
qed

theorem handler_exec_is_loop_run_witness:
  "net_monotone (net_after 80 (Response 200 (Json (example_token_body 3600)))) \<and>
   (\<forall>q t. (\<lambda>_ _. True) q (snd (net_after 80 (Response 200 (Json (example_token_body 3600))) q t))) \<and>
   (loop_step (range (handler example_config)) (\<lambda>_ _. True))\<^sup>*\<^sup>* (world_init cache_init 0)
     \<lparr>shared = state (exec (net_after 80 (Response 200 (Json (example_token_body 3600))))
                       (handler example_config Users) cache_init 0),
      loop_clock = clock (exec (net_after 80 (Response 200 (Json (example_token_body 3600))))
                       (handler example_config Users) cache_init 0),
      tasks = [Ret (ret (exec (net_after 80 (Response 200 (Json (example_token_body 3600))))
                       (handler example_config Users) cache_init 0))],
      trace = events (exec (net_after 80 (Response 200 (Json (example_token_body 3600))))
                       (handler example_config Users) cache_init 0)\<rparr>"
  using handler_exec_is_loop_run[of "net_after 80 (Response 200 (Json (example_token_body 3600)))"
          "\<lambda>_ _. True" example_config cache_init 0 Users]
  by simp

text \<open>C34: every route handler terminates after at most two responses: it suspends at
  most twice (once on the token endpoint, once on its upstream), whatever the state, the
  clock and the answers, and so sends at most two requests per incoming request: there is
  no retry.\<close>

theorem handlers_settle_within_two:
  "settles_within 2 (handler cfg r) \<and> length (sent (events (exec n (handler cfg r) c t))) \<le> 2"
  by (simp add: settles_handler settles_sent_bound[OF settles_handler])

text \<open>C35: \<open>getAccessToken\<close> started on a well-formed cache either throws or
  returns a string, whatever the token endpoint answers: a non-string \<open>access_token\<close> makes
  the call that stores it throw at \<open>substring\<close> (a poisoned cache is served only by later
  calls, which then start from a cache that is not well formed).\<close>

theorem get_access_token_returns_string:
  assumes "cache_wf c" and "ret (exec n (get_access_token cfg) c t) = Inr tok"
  shows "\<exists>s. tok = Some (JStr s)"
proof (cases "token_usable t c")
  case True
  with assms have "tok = access_token c" by (simp add: exec_get_access_token_usable)
  moreover have "nonempty_token (access_token c)"
    using True assms(1) by (simp add: cache_wf_nonempty token_usable_def)
  ultimately show ?thesis using nonempty_token_string by blast
next
  case False
  then obtain data c' t' where "ret (exec n (store_token data) c' t') = Inr tok"
    using assms(2)
    by (auto simp: get_access_token_def exec_try_catch exec_bind_exn Let_def split: sum.splits)
  then show ?thesis by (rule store_token_result_string)
qed

theorem get_access_token_returns_string_witness:
  "cache_wf cache_init \<and>
   ret (exec (net_after 80 (Response 200 (Json (example_token_body 3600)))) (get_access_token example_config)
          cache_init 0) = Inr (Some (JStr ''eyJhbGciOiJSUzI1NiJ9'')) \<and>
   (\<exists>s. Some (JStr ''eyJhbGciOiJSUzI1NiJ9'') = Some (JStr s))"
proof -
  have r: "ret (exec (net_after 80 (Response 200 (Json (example_token_body 3600))))
                 (get_access_token example_config) cache_init 0) = Inr (Some (JStr ''eyJhbGciOiJSUzI1NiJ9''))"
    by (simp add: exec_get_access_token_net_after exec_store_token token_reply_def response_json_def
                  response_ok_def example_token_body_def Let_def js_substring_prefix)
  from r get_access_token_returns_string[OF _ r] show ?thesis by simp
qed

end
