(* ===== verification/Server_App.thy ===== *)
theory Server_App
  imports Request_Runs
begin

text \<open>
  The Express application around the handlers of \<open>src/server.js\<close>: the port and the
  start-up report (lines 7, 156--165), the static-file middleware \<open>express.static('.')\<close>
  registered before every route (line 12), and the router that dispatches a request path
  to the page routes (lines 59--66) and the JSON routes (lines 69--154). Its lemmas show
  which requests reach which route, what the static middleware can serve, and what the
  start-up report does not check.
\<close>

subsection \<open>Start-up\<close>

text \<open>\<open>process.env.PORT || 3000\<close> (line 7).\<close>

definition listen_port :: "config \<Rightarrow> jval" where
  "listen_port cfg =
     (if truthy (env_value (port cfg)) then the (env_value (port cfg)) else JNum 3000)"

text \<open>One line of the environment check of lines 158--163, \<open>'\<checkmark> Set'\<close> or
  \<open>'\<times> Missing'\<close> by the truthiness of the variable.\<close>

datatype env_mark = Set_mark | Missing_mark

definition env_mark_of :: "string option \<Rightarrow> env_mark" where
  "env_mark_of v = (if truthy (env_value v) then Set_mark else Missing_mark)"

definition startup_report :: "config \<Rightarrow> (string \<times> env_mark) list" where
  "startup_report cfg =
     [(''FORTIUM_API_URL'', env_mark_of (api_url cfg)),
      (''FORTIUM_CLIENT_ID'', env_mark_of (client_id cfg)),
      (''FORTIUM_CLIENT_SECRET'', env_mark_of (client_secret cfg)),
      (''FORTIUM_API_KEY'', env_mark_of (api_key cfg)),
      (''LOGODEV_TOKEN'', env_mark_of (logodev_token cfg))]"

text \<open>The console output of the \<open>app.listen\<close> callback (lines 156--165), with the
  emoji of the messages left out.\<close>

definition startup_log :: "config \<Rightarrow> log_entry list" where
  "startup_log cfg =
     [Info (''Fortium Partners Logo Wall running on http://localhost:'' @ js_to_string (listen_port cfg)),
      Info ''Environment check:'']
     @ map (\<lambda>(k, m). Info (''- '' @ k @ '': '' @ (if m = Set_mark then ''Set'' else ''Missing'')))
           (startup_report cfg)
     @ [Info ''Select \"Partner Connect API\" in the data source dropdown to test with live data'']"

subsection \<open>encodeURIComponent as ECMA-262 specifies it\<close>

text \<open>The reference for \<open>encodeURIComponent\<close>, written from ECMA-262 (19.2.6.5,
  \<open>Encode\<close>) independently of the code's model: the unreserved set is \<open>uriAlpha\<close>,
  \<open>DecimalDigit\<close> and \<open>uriMark\<close> listed character by character; every other code
  point becomes the UTF-8 octets of RFC 3629 (one or two for code points below 0x800), each
  written \<open>%XY\<close> with upper-case hexadecimal digits from a table.\<close>

definition ecma_unreserved :: string where
  "ecma_unreserved =
     ''abcdefghijklmnopqrstuvwxyzABCDEFGHIJKLMNOPQRSTUVWXYZ0123456789'' @ ''-_.!~*'' @ [CHR 0x27] @ ''()''"
definition hex_upper :: "nat \<Rightarrow> char" where
  "hex_upper n = ''0123456789ABCDEF'' ! n"
definition utf8_octets :: "nat \<Rightarrow> nat list" where
  "utf8_octets cp = (if cp \<le> 0x7F then [cp] else [0xC0 + cp div 0x40, 0x80 + cp mod 0x40])"
definition ecma_encode :: "string \<Rightarrow> string" where
  "ecma_encode s =
     concat (map (\<lambda>c. if c \<in> set ecma_unreserved then [c]
                       else concat (map (\<lambda>b. [CHR ''%'', hex_upper (b div 16), hex_upper (b mod 16)])
                                        (utf8_octets (of_char c)))) s)"

subsection \<open>Request paths\<close>

text \<open>The path of a request target, the part before the query (\<open>parseurl\<close>'s
  \<open>pathname\<close>, which both the static middleware and the router read).\<close>

definition pathname :: "string \<Rightarrow> string" where
  "pathname u = takeWhile (\<lambda>c. c \<noteq> CHR ''?'') u"

text \<open>\<open>decodeURIComponent\<close> on code units below 256: characters other than \<open>%\<close> are
  kept, \<open>%XX\<close> (either case of hexadecimal digit) is a byte, and bytes from \<open>128\<close> on
  must form a two-byte UTF-8 sequence; anything else is a \<open>URIError\<close> (\<open>None\<close>). A
  valid sequence for a code point from 256 on, which JavaScript decodes, lies outside the
  code units of the model and is also \<open>None\<close> here.\<close>

definition hex_nibble :: "char \<Rightarrow> nat option" where
  "hex_nibble c =
     (let k = (of_char c :: nat) in
      if 48 \<le> k \<and> k \<le> 57 then Some (k - 48)
      else if 65 \<le> k \<and> k \<le> 70 then Some (k - 55)
      else if 97 \<le> k \<and> k \<le> 102 then Some (k - 87) else None)"

fun js_decode_uri :: "string \<Rightarrow> string option" where
  "js_decode_uri [] = Some []"
| "js_decode_uri (c # cs) =
     (if c \<noteq> CHR ''%'' then map_option (Cons c) (js_decode_uri cs)
      else (case cs of
              h # l # rest \<Rightarrow>
                (case (hex_nibble h, hex_nibble l) of
                   (Some a, Some b) \<Rightarrow>
                     if 16 * a + b < 128 then map_option (Cons (char_of (16 * a + b))) (js_decode_uri rest)
                     else if 16 * a + b = 194 \<or> 16 * a + b = 195 then
                       (case rest of
                          p # h2 # l2 # rest' \<Rightarrow>
                            (case (p = CHR ''%'', hex_nibble h2, hex_nibble l2) of
                               (True, Some a2, Some b2) \<Rightarrow>
                                 if 128 \<le> 16 * a2 + b2 \<and> 16 * a2 + b2 < 192
                                 then map_option (Cons (char_of ((16 * a + b - 192) * 64 + (16 * a2 + b2 - 128))))
                                        (js_decode_uri rest')
                                 else None
                             | _ \<Rightarrow> None)
                        | _ \<Rightarrow> None)
                     else None
                 | _ \<Rightarrow> None)
            | _ \<Rightarrow> None))"

text \<open>\<open>String.prototype.split('/')\<close>.\<close>

fun split_slash :: "string \<Rightarrow> string list" where
  "split_slash [] = [[]]"
| "split_slash (c # cs) =
     (if c = CHR ''/'' then [] # split_slash cs
      else (let r = split_slash cs in (c # hd r) # tl r))"

text \<open>Node's \<open>path.normalize\<close> of a relative path, on its segments (the first
  argument is the result so far, reversed): empty and \<open>.\<close> segments vanish, \<open>..\<close>
  removes the segment before it, and stays when there is none.\<close>

fun normalize_segs :: "string list \<Rightarrow> string list \<Rightarrow> string list" where
  "normalize_segs acc [] = rev acc"
| "normalize_segs acc (s # ss) =
     (if s = [] \<or> s = ''.'' then normalize_segs acc ss
      else if s = ''..'' then
        (case acc of
           a # as \<Rightarrow> if a = ''..'' then normalize_segs (s # acc) ss else normalize_segs as ss
         | [] \<Rightarrow> normalize_segs [s] ss)
      else normalize_segs (s # acc) ss)"

subsection \<open>The static middleware\<close>

text \<open>What a request can be answered with, and which part of the application answers
  it. A file of the working directory is a list of path segments.\<close>

datatype served =
    Static_file "string list"
  | Redirect string
  | Page string
  | Api route
  | Bad_request
  | Not_found string

definition is_directory :: "string list set \<Rightarrow> string list \<Rightarrow> bool" where
  "is_directory files d \<longleftrightarrow> (\<exists>f \<in> files. d \<noteq> f \<and> take (length d) f = d)"

definition dot_file :: "string \<Rightarrow> bool" where
  "dot_file s \<longleftrightarrow> s \<noteq> [] \<and> hd s = CHR ''.''"

text \<open>\<open>collapseLeadingSlashes\<close> of serve-static: two or more leading slashes become one.\<close>

definition collapse_leading_slashes :: "string \<Rightarrow> string" where
  "collapse_leading_slashes s =
     (let i = length (takeWhile (\<lambda>c. c = CHR ''/'') s) in if 1 < i then CHR ''/'' # drop i s else s)"

text \<open>\<open>express.static('.')\<close> (line 12) for a GET of the URL \<open>u\<close>, with the defaults of
  \<open>serve-static\<close> and \<open>send\<close>. The path is decoded; a NUL byte is a 400, and a
  normalized path that climbs above the root is a 403. The application passes no
  \<open>dotfiles\<close> option, so \<open>send\<close> uses its legacy rule: a path is ignored (404) when
  its last part starts with a dot, while files inside a dot directory are sent. A trailing
  slash of the request path asks for the directory's \<open>index.html\<close>. A decoded path with
  a trailing slash names no regular file (\<open>ENOTDIR\<close>). A directory is redirected (301)
  to its path with a slash, the query kept. A file is sent. Every 4xx falls through to
  the next handler (\<open>None\<close>), since \<open>fallthrough\<close> is on by default.\<close>

definition static_serve :: "string list set \<Rightarrow> string \<Rightarrow> served option" where
  "static_serve files u =
     (let p = pathname u in
      case js_decode_uri p of
        None \<Rightarrow> None
      | Some dp \<Rightarrow>
          if CHR 0x00 \<in> set dp then None
          else
            (let segs = normalize_segs [] (split_slash dp);
                 dtrail = (dp \<noteq> [] \<and> last dp = CHR ''/'') in
             if ''..'' \<in> set segs then None
             else if segs \<noteq> [] \<and> dot_file (last segs) \<and> \<not> dtrail then None
             else if p \<noteq> [] \<and> last p = CHR ''/'' then
               (if segs @ [''index.html''] \<in> files then Some (Static_file (segs @ [''index.html''])) else None)
             else if segs \<in> files \<and> \<not> dtrail then Some (Static_file segs)
             else if is_directory files segs then
               Some (Redirect (collapse_leading_slashes (p @ ''/'') @ drop (length p) u))
             else None))"

subsection \<open>The router\<close>

text \<open>Express compiles a route path to a regular expression with the \<open>i\<close> flag and
  an optional trailing slash (\<open>strict\<close> and \<open>sensitive\<close> are off), and matches it
  against the undecoded path.\<close>

definition ascii_lower :: "char \<Rightarrow> char" where
  "ascii_lower c =
     (let k = (of_char c :: nat) in if 65 \<le> k \<and> k \<le> 90 then char_of (k + 32) else c)"

definition path_matches :: "string \<Rightarrow> string \<Rightarrow> bool" where
  "path_matches route p \<longleftrightarrow>
     (let q = map ascii_lower p in
      if route \<noteq> [] \<and> last route = CHR ''/'' then q = route \<or> q = butlast route
      else q = route \<or> q = route @ ''/'')"

text \<open>\<open>/api/logo/:domain\<close>: a non-empty segment without \<open>/\<close>, then an optional
  slash; the parameter is the segment as sent.\<close>

definition logo_param :: "string \<Rightarrow> string option" where
  "logo_param p =
     (if map ascii_lower (take 10 p) = ''/api/logo/'' then
        (let rest = drop 10 p;
             seg = (if rest \<noteq> [] \<and> last rest = CHR ''/'' then butlast rest else rest)
         in if seg \<noteq> [] \<and> CHR ''/'' \<notin> set seg then Some seg else None)
      else None)"

text \<open>The routes in the order of registration (lines 59--154). The parameter is decoded
  with \<open>decodeURIComponent\<close>, and a malformed one is answered 400 by Express; a path no
  route matches is answered 404 (\<open>Cannot GET\<close>).\<close>

definition route_dispatch :: "string \<Rightarrow> served" where
  "route_dispatch p =
     (if path_matches ''/'' p then Page ''index.html''
      else if path_matches ''/embed'' p then Page ''embed.html''
      else if path_matches ''/api/users'' p then Api Users
      else if path_matches ''/api/companies'' p then Api Companies
      else if path_matches ''/api/config'' p then Api Config
      else (case logo_param p of
              Some seg \<Rightarrow> (case js_decode_uri seg of Some d \<Rightarrow> Api (Logo d) | None \<Rightarrow> Bad_request)
            | None \<Rightarrow> Not_found p))"

text \<open>The static middleware of line 12 and the routes: a GET that \<open>cors()\<close> and
  \<open>express.json()\<close> let pass (theory \<open>Http_Stack\<close>) is answered by the static
  middleware if it can, and by the router otherwise.\<close>

definition app_dispatch :: "string list set \<Rightarrow> string \<Rightarrow> served" where
  "app_dispatch files u =
     (case static_serve files u of
        Some r \<Rightarrow> r
      | None \<Rightarrow> route_dispatch (pathname u))"

text \<open>The URL of a file of the working directory, and the URLs the front end requests
  for each JSON route.\<close>

definition file_url :: "string list \<Rightarrow> string" where
  "file_url f = concat (map (\<lambda>s. ''/'' @ s) f)"

fun route_url :: "route \<Rightarrow> string" where
  "route_url Users = ''/api/users''"
| "route_url Companies = ''/api/companies''"
| "route_url Config = ''/api/config''"
| "route_url (Logo d) = ''/api/logo/'' @ encode_uri_component d"

text \<open>A path segment written as is in a URL: non-empty, neither \<open>.\<close> nor \<open>..\<close>,
  and without \<open>/ % ?\<close> or NUL.\<close>

definition url_segment :: "string \<Rightarrow> bool" where
  "url_segment s \<longleftrightarrow>
     s \<noteq> [] \<and> s \<noteq> ''.'' \<and> s \<noteq> ''..'' \<and>
     (\<forall>c \<in> set s. c \<noteq> CHR ''/'' \<and> c \<noteq> CHR ''%'' \<and> c \<noteq> CHR ''?'' \<and> c \<noteq> CHR 0x00)"

text \<open>A deployment directory: the two pages, the server's sources, its environment
  file and a git checkout.\<close>

definition example_files :: "string list set" where
  "example_files =
     {[''index.html''], [''embed.html''], [''src'', ''server.js''], [''.env''], [''.git'', ''config'']}"

subsection \<open>Lemmas\<close>

lemma uri_unreserved_ecma: "uri_unreserved c \<longleftrightarrow> c \<in> set ecma_unreserved"
proof -
  have "Enum.enum_all (\<lambda>c. uri_unreserved c = (c \<in> set ecma_unreserved))" by code_simp
  then show ?thesis by (simp add: enum_all_UNIV)
qed
lemma hex_digit_upper: "d < 16 \<Longrightarrow> hex_digit d = hex_upper d"
proof -
  have "list_all (\<lambda>d. hex_digit d = hex_upper d) [0..<16]" by code_simp
  moreover assume "d < 16"
  ultimately show ?thesis by (simp add: list_all_iff)
qed
lemma encode_uri_char_ecma:
  "encode_uri_char c =
     (if c \<in> set ecma_unreserved then [c]
      else concat (map (\<lambda>b. [CHR ''%'', hex_upper (b div 16), hex_upper (b mod 16)]) (utf8_octets (of_char c))))"
proof -
  have k: "(of_char c :: nat) < 256" by (rule nat_of_char_less_256)
  then have "(of_char c :: nat) div 64 < 4" by (simp add: div_less_iff_less_mult)
  then have h1: "(192 + (of_char c :: nat) div 64) div 16 < 16" by simp
  have h2: "(128 + (of_char c :: nat) mod 64) div 16 < 16" by simp
  show ?thesis
    using hex_digit_upper[OF h1] hex_digit_upper[OF h2]
    by (auto simp: encode_uri_char_def uri_unreserved_ecma utf8_bytes_def utf8_octets_def percent_byte_def
                   hex_digit_upper)
qed

lemma js_decode_no_percent: "CHR ''%'' \<notin> set s \<Longrightarrow> js_decode_uri s = Some s"
  by (induction s) auto

lemma hex_nibble_hex_digit: "d < 16 \<Longrightarrow> hex_nibble (hex_digit d) = Some d"
  by (auto simp: hex_nibble_def hex_digit_def Let_def)

lemma js_decode_percent:
  assumes "b < 128"
  shows "js_decode_uri (percent_byte b @ rest) = map_option (Cons (char_of b)) (js_decode_uri rest)"
proof -
  from assms have "b div 16 < 16" "b mod 16 < 16" by simp_all
  with assms show ?thesis by (simp add: percent_byte_def hex_nibble_hex_digit)
qed

lemma js_decode_percent2:
  assumes "194 \<le> b1" "b1 \<le> 195" "128 \<le> b2" "b2 < 192"
  shows "js_decode_uri (percent_byte b1 @ percent_byte b2 @ rest) =
           map_option (Cons (char_of ((b1 - 192) * 64 + (b2 - 128)))) (js_decode_uri rest)"
proof -
  from assms have "b1 div 16 < 16" "b1 mod 16 < 16" "b2 div 16 < 16" "b2 mod 16 < 16" by simp_all
  moreover from assms have "b1 = 194 \<or> b1 = 195" by auto
  ultimately show ?thesis using assms by (auto simp: percent_byte_def hex_nibble_hex_digit)
qed

lemma js_decode_encode_char:
  "js_decode_uri (encode_uri_char c @ rest) = map_option (Cons c) (js_decode_uri rest)"
proof -
  define k where "k = (of_char c :: nat)"
  have k: "k < 256" by (simp add: k_def)
  have ck: "char_of k = c" by (simp add: k_def)
  consider (unres) "uri_unreserved c" | (one) "\<not> uri_unreserved c" "k < 128"
    | (two) "\<not> uri_unreserved c" "\<not> k < 128"
    by blast
  then show ?thesis
  proof cases
    case unres
    then have "c \<noteq> CHR ''%''" using uri_unreserved_ascii by blast
    with unres show ?thesis by (simp add: encode_uri_char_def)
  next
    case one
    then show ?thesis
      by (simp add: encode_uri_char_def utf8_bytes_def js_decode_percent k_def[symmetric] ck)
  next
    case two
    from k two have b1: "194 \<le> 192 + k div 64" "192 + k div 64 \<le> 195"
      using latin1_div64 [of k] by simp_all
    have b2: "128 \<le> 128 + k mod 64" "128 + k mod 64 < 192" by simp_all
    have cp: "(192 + k div 64 - 192) * 64 + (128 + k mod 64 - 128) = k" by simp
    from two have "encode_uri_char c = percent_byte (192 + k div 64) @ percent_byte (128 + k mod 64)"
      by (simp add: encode_uri_char_def utf8_bytes_def k_def)
    then show ?thesis using js_decode_percent2[OF b1 b2, of rest] by (simp add: cp ck)
  qed
qed

lemma js_decode_encode: "js_decode_uri (encode_uri_component d) = Some d"
  by (induction d) (simp_all add: encode_uri_component_def js_decode_encode_char)

lemma encode_no_delimiter:
  "x \<in> set (encode_uri_component d) \<Longrightarrow> x \<noteq> CHR ''/'' \<and> x \<noteq> CHR ''?''"
  using encode_uri_char_safe by (fastforce simp: encode_uri_component_def uri_safe_char_def
                                          uri_unreserved_def Let_def)

lemma encode_nonempty: "d \<noteq> [] \<Longrightarrow> encode_uri_component d \<noteq> []"
  by (cases d) (auto simp: encode_uri_component_def encode_uri_char_def percent_byte_def
                      utf8_bytes_def)

lemma split_slash_no_slash: "CHR ''/'' \<notin> set s \<Longrightarrow> split_slash s = [s]"
  by (induction s) auto

lemma split_slash_append:
  "CHR ''/'' \<notin> set s \<Longrightarrow> split_slash (s @ CHR ''/'' # t) = s # split_slash t"
  by (induction s) auto

lemma split_slash_file_url:
  "CHR ''/'' \<notin> set x \<Longrightarrow> \<forall>s \<in> set f. CHR ''/'' \<notin> set s \<Longrightarrow>
   split_slash (x @ file_url f) = x # f"
proof (induction f arbitrary: x)
  case Nil
  then show ?case by (simp add: file_url_def split_slash_no_slash)
next
  case (Cons y f)
  then show ?case by (simp add: file_url_def split_slash_append)
qed

lemma normalize_segs_plain:
  "\<forall>s \<in> set f. s \<noteq> [] \<and> s \<noteq> ''.'' \<and> s \<noteq> ''..'' \<Longrightarrow> normalize_segs acc f = rev acc @ f"
  by (induction f arbitrary: acc) auto

lemma url_segmentD:
  "url_segment s \<Longrightarrow>
   s \<noteq> [] \<and> s \<noteq> ''.'' \<and> s \<noteq> ''..'' \<and> CHR ''/'' \<notin> set s \<and>
   CHR ''%'' \<notin> set s \<and> CHR ''?'' \<notin> set s \<and> CHR 0x00 \<notin> set s"
  by (auto simp: url_segment_def)

lemma set_file_url: "set (file_url f) = (if f = [] then {} else insert (CHR ''/'') (\<Union>s \<in> set f. set s))"
  by (induction f) (auto simp: file_url_def)

lemma last_file_url: "f \<noteq> [] \<Longrightarrow> last f \<noteq> [] \<Longrightarrow> last (file_url f) = last (last f)"
  by (induction f rule: rev_induct) (auto simp: file_url_def)

lemma route_dispatch_not_static: "route_dispatch p \<noteq> Static_file f"
  by (simp add: route_dispatch_def split: option.split)

subsection \<open>Properties of the application\<close>

text \<open>C36: \<open>encode_uri_component\<close>, the model of \<open>encodeURIComponent(domain)\<close> of
  line 133, equals the ECMA-262 reference on every string: the same characters are kept,
  and every other one becomes the same upper-case percent-encoded UTF-8 octets.\<close>

theorem encode_uri_component_ecma:
  "encode_uri_component s = ecma_encode s"
  unfolding encode_uri_component_def ecma_encode_def
  by (induction s) (simp_all add: encode_uri_char_ecma)

text \<open>C37: the start-up check can report every variable it checks as set while every
  refresh of the token fails: it checks \<open>FORTIUM_API_KEY\<close>, which no handler reads, and
  not \<open>FORTIUM_TOKEN_ENDPOINT\<close>; with the endpoint unset, \<open>getAccessToken\<close> calls
  \<open>fetch(undefined)\<close>, which throws a \<open>TypeError\<close> before sending anything.\<close>

theorem startup_report_misses_token_endpoint:
  assumes "\<forall>(k, m) \<in> set (startup_report cfg). m = Set_mark"
    and "token_endpoint cfg = None" and "\<not> token_usable t c"
  shows "ret (exec n (get_access_token cfg) c t) = Inl TypeError \<and>
         sent (events (exec n (get_access_token cfg) c t)) = [] \<and>
         state (exec n (get_access_token cfg) c t) = c"
  using assms(2,3)
  by (simp add: get_access_token_def exec_try_catch exec_bind_exn exec_fetch_token url_token_request
                env_value_def js_string_of_def fetchable_def Let_def)

theorem startup_report_misses_token_endpoint_witness:
  "map snd (startup_report (example_config\<lparr>token_endpoint := None, api_key := Some ''key''\<rparr>)) =
     replicate 5 Set_mark \<and>
   token_endpoint (example_config\<lparr>token_endpoint := None, api_key := Some ''key''\<rparr>) = None \<and>
   \<not> token_usable 0 cache_init \<and>
   ret (exec (net_after 80 Network_failure)
          (get_access_token (example_config\<lparr>token_endpoint := None, api_key := Some ''key''\<rparr>))
          cache_init 0) = Inl TypeError"
proof -
  have m: "map snd (startup_report (example_config\<lparr>token_endpoint := None, api_key := Some ''key''\<rparr>)) =
             replicate 5 Set_mark"
    by (simp add: startup_report_def env_mark_of_def example_config_def env_value_def numeral_eq_Suc)
  have r: "\<forall>(k, m) \<in> set (startup_report (example_config\<lparr>token_endpoint := None, api_key := Some ''key''\<rparr>)).
             m = Set_mark"
    by (simp add: startup_report_def env_mark_of_def example_config_def env_value_def)
  show ?thesis
    using startup_report_misses_token_endpoint[OF r, where c = cache_init and t = 0
            and n = "net_after 80 Network_failure"] m
    by simp
qed

text \<open>C38: the static middleware answers before every route and serves the whole working
  directory. Every file whose segments can be written as they are in a URL, and whose name
  does not start with a dot, is sent at its own URL. That includes the server's sources and
  files inside dot directories such as \<open>.git\<close>, and a file \<open>api/users\<close> would hide the
  partner route. When the directory holds an \<open>index.html\<close>, the route for \<open>/\<close> of
  lines 59--61 is never reached.\<close>

theorem static_serves_working_dir:
  assumes "f \<in> files" and "f \<noteq> []" and "\<forall>s \<in> set f. url_segment s" and "\<not> dot_file (last f)"
  shows "app_dispatch files (file_url f) = Static_file f \<and>
         ([''index.html''] \<in> files \<longrightarrow> app_dispatch files ''/'' = Static_file [''index.html''])"
proof -
  from assms(3) have seg: "\<forall>s \<in> set f. s \<noteq> [] \<and> s \<noteq> ''.'' \<and> s \<noteq> ''..'' \<and>
      CHR ''/'' \<notin> set s \<and> CHR ''%'' \<notin> set s \<and> CHR ''?'' \<notin> set s \<and> CHR 0x00 \<notin> set s"
    using url_segmentD by blast
  have chars: "CHR ''%'' \<notin> set (file_url f)" "CHR ''?'' \<notin> set (file_url f)"
              "CHR 0x00 \<notin> set (file_url f)"
    using seg by (auto simp: set_file_url)
  have path: "pathname (file_url f) = file_url f"
    using chars(2) by (auto simp: pathname_def takeWhile_eq_all_conv)
  have split: "split_slash (file_url f) = [] # f"
    using split_slash_file_url[of "[]" f] seg by simp
  have up: "''..'' \<notin> set f" using seg by blast
  have norm: "normalize_segs [] f = f"
    using seg by (simp add: normalize_segs_plain)
  have ne: "file_url f \<noteq> []" using assms(2) by (cases f) (simp_all add: file_url_def)
  have lst: "last (file_url f) \<noteq> CHR ''/''"
    using assms(2) seg last_file_url[OF assms(2)] by (metis last_in_set)
  have "static_serve files (file_url f) = Some (Static_file f)"
    using assms(1,4) seg chars lst up ne
    by (simp add: static_serve_def path js_decode_no_percent split norm Let_def)
  moreover have "[''index.html''] \<in> files \<Longrightarrow> static_serve files ''/'' = Some (Static_file [''index.html''])"
    by (simp add: static_serve_def pathname_def)
  ultimately show ?thesis by (simp add: app_dispatch_def)
qed

theorem static_serves_working_dir_witness:
  "[''.git'', ''config''] \<in> example_files \<and> [''.git'', ''config''] \<noteq> [] \<and>
   list_all url_segment [''.git'', ''config''] \<and> \<not> dot_file (last [''.git'', ''config'']) \<and>
   app_dispatch example_files ''/.git/config'' = Static_file [''.git'', ''config''] \<and>
   app_dispatch example_files ''/'' = Static_file [''index.html'']"
proof -
  have h: "[''.git'', ''config''] \<in> example_files" "[''.git'', ''config''] \<noteq> []"
          "\<forall>s \<in> set [''.git'', ''config'']. url_segment s" "\<not> dot_file (last [''.git'', ''config''])"
    by (simp_all add: example_files_def url_segment_def dot_file_def)
  have "[''index.html''] \<in> example_files" by (simp add: example_files_def)
  with h static_serves_working_dir[OF h] show ?thesis by (simp add: file_url_def url_segment_def)
qed

text \<open>C39: whatever the request, a file the static middleware sends is a file of the
  working directory, reached without climbing above it, and its name does not start with
  a dot: \<open>.env\<close> and other dot files are never sent, even behind \<open>%2F\<close> or a
  trailing slash.\<close>

theorem static_confined:
  assumes "app_dispatch files u = Static_file f"
  shows "f \<in> files \<and> ''..'' \<notin> set f \<and> (f \<noteq> [] \<longrightarrow> \<not> dot_file (last f))"
  using assms route_dispatch_not_static
  by (auto simp: app_dispatch_def static_serve_def dot_file_def Let_def
           split: option.splits if_splits)

theorem static_confined_witness:
  "app_dispatch example_files ''/index.html?v=2'' = Static_file [''index.html''] \<and>
   [''index.html''] \<in> example_files \<and> ''..'' \<notin> set [''index.html''] \<and>
   \<not> dot_file (last [''index.html'']) \<and>
   app_dispatch example_files ''/.env'' = Not_found ''/.env'' \<and>
   app_dispatch example_files ''/.env%2F'' = Not_found ''/.env%2F''"
proof -
  have a: "app_dispatch example_files ''/index.html?v=2'' = Static_file [''index.html'']"
    by code_simp
  have "app_dispatch example_files ''/.env'' = Not_found ''/.env''" by code_simp
  moreover have "app_dispatch example_files ''/.env%2F'' = Not_found ''/.env%2F''" by code_simp
  ultimately show ?thesis using a static_confined[OF a] by (simp add: dot_file_def)
qed

text \<open>C40: the router inverts the front end's URLs: a request for the URL of a JSON
  route that no static file answers reaches that route, the logo domain being recovered by
  \<open>decodeURIComponent\<close> from its encoding, whatever characters it contains.\<close>

theorem route_url_dispatch:
  assumes "static_serve files (route_url r) = None" and "r \<noteq> Logo []"
  shows "app_dispatch files (route_url r) = Api r"
proof (cases r)
  case (Logo d)
  let ?e = "encode_uri_component d"
  have d: "d \<noteq> []" using assms(2) Logo by simp
  have e: "?e \<noteq> []" "CHR ''/'' \<notin> set ?e" "CHR ''?'' \<notin> set ?e"
    using encode_nonempty[OF d] encode_no_delimiter by blast+
  then have le: "last ?e \<noteq> CHR ''/''" using last_in_set by metis
  have path: "pathname (route_url r) = route_url r"
    using e(3) Logo by (auto simp: pathname_def takeWhile_eq_all_conv)
  have "logo_param (''/api/logo/'' @ ?e) = Some ?e"
    using e le by (simp add: logo_param_def ascii_lower_def)
  moreover have "\<not> path_matches rt (''/api/logo/'' @ ?e)"
    if "rt \<in> {''/'', ''/embed'', ''/api/users'', ''/api/companies'', ''/api/config''}" for rt
    using that e(1) by (auto simp: path_matches_def ascii_lower_def)
  ultimately have "route_dispatch (route_url r) = Api r"
    using Logo by (simp add: route_dispatch_def js_decode_encode)
  with assms(1) path show ?thesis by (simp add: app_dispatch_def)
qed (use assms(1) in \<open>simp_all add: app_dispatch_def pathname_def route_dispatch_def path_matches_def
                                   ascii_lower_def\<close>)

theorem route_url_dispatch_witness:
  "static_serve example_files (route_url (Logo ''fortium partners.com'')) = None \<and>
   Logo ''fortium partners.com'' \<noteq> Logo [] \<and>
   app_dispatch example_files (route_url (Logo ''fortium partners.com'')) = Api (Logo ''fortium partners.com'')"
proof -
  have s: "static_serve example_files (route_url (Logo ''fortium partners.com'')) = None"
    by code_simp
  from s route_url_dispatch[OF s] show ?thesis by simp
qed

text \<open>The static middleware decodes \<open>%2F\<close> before it normalizes, so a logo request
  for the domain \<open>../../index.html\<close> is answered with the landing page and never reaches
  the logo route.\<close>

lemma logo_path_shadowed_by_static:
  "app_dispatch example_files (route_url (Logo ''../../index.html'')) = Static_file [''index.html'']"
  by code_simp

end
