(* ===== verification/Json_Syntax.thy ===== *)
theory Json_Syntax
  imports Server_App
begin

text \<open>
  The syntax of JSON text as \<open>JSON.parse\<close> accepts it (ECMA-404), which is what
  \<open>express.json()\<close> (line 11 of \<open>src/server.js\<close>) applies to a request body before any
  route runs. The text is split into tokens by \<open>json_lex\<close>, a function whose recursion
  follows the input as it is consumed and whose termination is proved by the length of the
  input. The tokens are then checked by \<open>json_accepts\<close>, a pushdown automaton whose
  stack holds the open arrays and objects, structurally recursive on the tokens.
  \<open>json_text_ok\<close> is the composition. Both are executable, so the answer on a
  concrete body is computed by evaluation; theory \<open>Http_Stack\<close> uses them.
\<close>

subsection \<open>Tokens\<close>

text \<open>White space between tokens: space, tab, line feed and carriage return.\<close>

definition json_ws :: "char \<Rightarrow> bool" where
  "json_ws c \<longleftrightarrow> c = CHR '' '' \<or> c = CHR 0x09 \<or> c = CHR 0x0A \<or> c = CHR 0x0D"

datatype json_token =
    Tok_lbrace | Tok_rbrace | Tok_lbrack | Tok_rbrack | Tok_colon | Tok_comma
  | Tok_string | Tok_scalar

text \<open>The rest of the input after a string literal whose opening quote has been read:
  the escapes \<open>\" \\ \/ \b \f \n \r \t\<close> and \<open>\uXXXX\<close>; a control character below
  \<open>0x20\<close> is not allowed unescaped.\<close>

fun json_string_rest :: "string \<Rightarrow> string option" where
  "json_string_rest [] = None"
| "json_string_rest (c # cs) =
     (if c = CHR 0x22 then Some cs
      else if c = CHR 0x5C then
        (case cs of
           [] \<Rightarrow> None
         | e # es \<Rightarrow>
             if e \<in> set [CHR 0x22, CHR 0x5C, CHR ''/'', CHR ''b'', CHR ''f'', CHR ''n'', CHR ''r'', CHR ''t'']
             then json_string_rest es
             else if e = CHR ''u'' \<and> 4 \<le> length es \<and> list_all (\<lambda>h. hex_nibble h \<noteq> None) (take 4 es)
             then json_string_rest (drop 4 es)
             else None)
      else if of_char c < (32::nat) then None
      else json_string_rest cs)"

text \<open>Numbers: \<open>-?(0|[1-9][0-9]*)(\.[0-9]+)?([eE][+-]?[0-9]+)?\<close>, each part returning
  the rest of the input.\<close>

definition digits_rest :: "string \<Rightarrow> string option" where
  "digits_rest s = (case s of d # _ \<Rightarrow> if is_digit d then Some (dropWhile is_digit s) else None | [] \<Rightarrow> None)"

definition json_int_rest :: "string \<Rightarrow> string option" where
  "json_int_rest s =
     (case s of
        [] \<Rightarrow> None
      | d # ds \<Rightarrow> if d = CHR ''0'' then Some ds else if is_digit d then Some (dropWhile is_digit ds) else None)"

definition json_frac_rest :: "string \<Rightarrow> string option" where
  "json_frac_rest s = (case s of c # cs \<Rightarrow> if c = CHR ''.'' then digits_rest cs else Some s | [] \<Rightarrow> Some [])"

definition json_exp_rest :: "string \<Rightarrow> string option" where
  "json_exp_rest s =
     (case s of
        c # cs \<Rightarrow>
          if c = CHR ''e'' \<or> c = CHR ''E'' then
            digits_rest (case cs of x # xs \<Rightarrow> if x = CHR ''+'' \<or> x = CHR ''-'' then xs else cs | [] \<Rightarrow> [])
          else Some s
      | [] \<Rightarrow> Some [])"

definition json_number_rest :: "string \<Rightarrow> string option" where
  "json_number_rest s =
     Option.bind (json_int_rest (case s of c # cs \<Rightarrow> if c = CHR ''-'' then cs else s | [] \<Rightarrow> []))
       (\<lambda>r. Option.bind (json_frac_rest r) json_exp_rest)"

text \<open>The lexer: punctuation, strings, numbers and the literals \<open>true\<close>, \<open>false\<close> and
  \<open>null\<close>; anything else is a \<open>SyntaxError\<close> (\<open>None\<close>).\<close>

function json_lex :: "string \<Rightarrow> json_token list option" where
  "json_lex [] = Some []"
| "json_lex (c # cs) =
     (if json_ws c then json_lex cs
      else if c = CHR ''{'' then map_option (Cons Tok_lbrace) (json_lex cs)
      else if c = CHR ''}'' then map_option (Cons Tok_rbrace) (json_lex cs)
      else if c = CHR ''['' then map_option (Cons Tok_lbrack) (json_lex cs)
      else if c = CHR '']'' then map_option (Cons Tok_rbrack) (json_lex cs)
      else if c = CHR '':'' then map_option (Cons Tok_colon) (json_lex cs)
      else if c = CHR '','' then map_option (Cons Tok_comma) (json_lex cs)
      else if c = CHR 0x22 then
        (case json_string_rest cs of Some r \<Rightarrow> map_option (Cons Tok_string) (json_lex r) | None \<Rightarrow> None)
      else if c = CHR ''-'' \<or> is_digit c then
        (case json_number_rest (c # cs) of Some r \<Rightarrow> map_option (Cons Tok_scalar) (json_lex r) | None \<Rightarrow> None)
      else if c = CHR ''t'' \<and> take 3 cs = ''rue'' then map_option (Cons Tok_scalar) (json_lex (drop 3 cs))
      else if c = CHR ''f'' \<and> take 4 cs = ''alse'' then map_option (Cons Tok_scalar) (json_lex (drop 4 cs))
      else if c = CHR ''n'' \<and> take 3 cs = ''ull'' then map_option (Cons Tok_scalar) (json_lex (drop 3 cs))
      else None)"
  by pat_completeness auto
termination
proof -
  have str: "json_string_rest s = Some r \<Longrightarrow> length r < length s" for s r
  proof (induction s rule: json_string_rest.induct)
    case (2 c cs)
    show ?case
    proof (cases "c = CHR 0x22")
      case False
      show ?thesis
      proof (cases "c = CHR 0x5C")
        case True
        then obtain e es where cs: "cs = e # es" using 2(4) False by (cases cs) auto
        show ?thesis using 2 False True unfolding cs by (auto split: if_splits)
      qed (use 2 False in \<open>auto split: if_splits\<close>)
    qed (use 2 in simp)
  qed simp
  have digits: "digits_rest s = Some r \<Longrightarrow> length r \<le> length s" for s r
    by (auto simp: digits_rest_def split: list.splits if_splits intro: le_SucI length_dropWhile_le)
  have int_rest: "json_int_rest s = Some r \<Longrightarrow> length r < length s" for s r
    by (auto simp: json_int_rest_def split: list.splits if_splits intro: le_imp_less_Suc length_dropWhile_le)
  have frac_rest: "json_frac_rest s = Some r \<Longrightarrow> length r \<le> length s" for s r
    unfolding json_frac_rest_def by (auto split: list.splits if_splits dest: digits)
  have exp_rest: "json_exp_rest s = Some r \<Longrightarrow> length r \<le> length s" for s r
    unfolding json_exp_rest_def by (fastforce split: list.splits if_splits dest: digits)
  have num: "json_number_rest (c # cs) = Some r \<Longrightarrow> length r \<le> length cs" for c cs r
  proof -
    assume "json_number_rest (c # cs) = Some r"
    then obtain r1 r2 where i: "json_int_rest (if c = CHR ''-'' then cs else c # cs) = Some r1"
        and f: "json_frac_rest r1 = Some r2" and e: "json_exp_rest r2 = Some r"
      by (auto simp: json_number_rest_def split: Option.bind_splits)
    from int_rest[OF i] frac_rest[OF f] exp_rest[OF e] show ?thesis by (auto split: if_splits)
  qed
  show ?thesis
    apply (relation "measure length")
                 apply simp_all
     apply (rule less_SucI, erule str)
    by (rule le_imp_less_Suc, erule num)
qed

subsection \<open>The grammar of tokens\<close>

text \<open>What the automaton expects next: a value, a value or \<open>]\<close> (after \<open>[\<close>), a key or
  \<open>}\<close> (after \<open>{\<close>), a key (after \<open>,\<close> in an object), a colon, a comma or the
  closing bracket of the innermost container, or nothing (a complete text).\<close>

datatype json_container = In_array | In_object

datatype json_expect =
    Exp_value | Exp_value_or_close | Exp_key_or_close | Exp_key | Exp_colon | Exp_more | Exp_end

definition after_value :: "json_container list \<Rightarrow> json_expect" where
  "after_value st = (if st = [] then Exp_end else Exp_more)"

fun json_accepts :: "json_container list \<Rightarrow> json_expect \<Rightarrow> json_token list \<Rightarrow> bool" where
  "json_accepts st e [] \<longleftrightarrow> e = Exp_end"
| "json_accepts st e (t # ts) =
     (case (e, t) of
        (Exp_end, _) \<Rightarrow> False
      | (Exp_colon, Tok_colon) \<Rightarrow> json_accepts st Exp_value ts
      | (Exp_colon, _) \<Rightarrow> False
      | (Exp_key, Tok_string) \<Rightarrow> json_accepts st Exp_colon ts
      | (Exp_key, _) \<Rightarrow> False
      | (Exp_key_or_close, Tok_string) \<Rightarrow> json_accepts st Exp_colon ts
      | (Exp_key_or_close, Tok_rbrace) \<Rightarrow> json_accepts (tl st) (after_value (tl st)) ts
      | (Exp_key_or_close, _) \<Rightarrow> False
      | (Exp_more, Tok_comma) \<Rightarrow>
          json_accepts st (if hd st = In_array then Exp_value else Exp_key) ts
      | (Exp_more, Tok_rbrack) \<Rightarrow>
          hd st = In_array \<and> json_accepts (tl st) (after_value (tl st)) ts
      | (Exp_more, Tok_rbrace) \<Rightarrow>
          hd st = In_object \<and> json_accepts (tl st) (after_value (tl st)) ts
      | (Exp_more, _) \<Rightarrow> False
      | (_, Tok_string) \<Rightarrow> json_accepts st (after_value st) ts
      | (_, Tok_scalar) \<Rightarrow> json_accepts st (after_value st) ts
      | (_, Tok_lbrack) \<Rightarrow> json_accepts (In_array # st) Exp_value_or_close ts
      | (_, Tok_lbrace) \<Rightarrow> json_accepts (In_object # st) Exp_key_or_close ts
      | (Exp_value_or_close, Tok_rbrack) \<Rightarrow> json_accepts (tl st) (after_value (tl st)) ts
      | (_, _) \<Rightarrow> False)"

text \<open>\<open>JSON.parse\<close> succeeds on a text exactly when it lexes and its tokens form one
  value.\<close>

definition json_text_ok :: "string \<Rightarrow> bool" where
  "json_text_ok s = (case json_lex s of Some ts \<Rightarrow> json_accepts [] Exp_value ts | None \<Rightarrow> False)"

end
