(* ===== verification/Http_Stack.thy ===== *)
theory Http_Stack
  imports Json_Syntax
begin

text \<open>
  The whole Express application of \<open>src/server.js\<close> as one program per incoming request.
  \<open>express()\<close> (line 6) creates the application with its \<open>env\<close> setting and the
  \<open>X-Powered-By\<close> header. \<open>cors()\<close> (line 10) answers every \<open>OPTIONS\<close> request
  itself and adds \<open>Access-Control-Allow-Origin: *\<close> to every other response.
  \<open>express.json()\<close> (line 11) rejects a JSON body that \<open>JSON.parse\<close> in strict mode
  refuses, before any route. \<open>express.static('.')\<close> (line 12) serves GET and HEAD. The
  router (lines 59--154) runs the page routes with \<open>res.sendFile\<close> and the JSON routes with
  the handlers of theory \<open>Proxy_Handlers\<close>. Express's final handler answers every error
  and every request no layer answers. \<open>middleware\<close> is the part before the handler, a
  pure function of the request, and \<open>server\<close> composes it with \<open>handler\<close>.
\<close>

subsection \<open>Requests and replies\<close>

text \<open>A request as Node hands it to Express: the method in upper case, the request
  target, the header fields with names in lower case (the first of repeated fields), and
  the body's text, \<open>None\<close> when the request has neither \<open>Content-Length\<close> nor
  \<open>Transfer-Encoding\<close>.\<close>

record client_request =
  req_method :: string
  req_target :: string
  req_headers :: "(string \<times> string) list"
  req_body :: "string option"

definition req_header :: "client_request \<Rightarrow> string \<Rightarrow> string option" where
  "req_header req k = map_of (req_headers req) k"

text \<open>The errors that reach the final handler: a body \<open>JSON.parse\<close> refuses, a body over
  the limit, a charset the parser does not decode, a \<open>:domain\<close> parameter that
  \<open>decodeURIComponent\<close> refuses, and a page that \<open>sendFile\<close> does not find.\<close>

datatype stack_error =
    Json_syntax_error
  | Entity_too_large
  | Charset_unsupported string
  | Param_decode_failed
  | File_not_found "string list"

text \<open>What a reply carries: the text of \<open>res.json\<close>, a file, the redirect page of
  serve-static, the final handler's error page (with the error's stack, or only the status
  message), its \<open>Cannot METHOD path\<close> page, or nothing.\<close>

datatype reply_content =
    Json_text jval
  | File_sent "string list"
  | Redirect_doc string
  | Error_doc nat "stack_error option"
  | Cannot_doc string string
  | No_content

record server_reply =
  reply_status :: nat
  reply_headers :: "(string \<times> string) list"
  reply_content :: reply_content

subsection \<open>The application and cors() (lines 6 and 10)\<close>

text \<open>\<open>express()\<close> sets \<open>env\<close> to \<open>process.env.NODE_ENV || 'development'\<close>.\<close>

definition app_env :: "config \<Rightarrow> string" where
  "app_env cfg =
     (case node_env cfg of Some v \<Rightarrow> if v = [] then ''development'' else v | None \<Rightarrow> ''development'')"

text \<open>The headers every reply gets before any route: \<open>X-Powered-By\<close> from Express's
  init middleware and the origin header of \<open>cors()\<close> with its default origin \<open>*\<close>.\<close>

definition base_headers :: "(string \<times> string) list" where
  "base_headers = [(''X-Powered-By'', ''Express''), (''Access-Control-Allow-Origin'', ''*'')]"

text \<open>The preflight answer of \<open>cors()\<close> with its defaults (\<open>preflightContinue\<close> off,
  \<open>optionsSuccessStatus\<close> 204): the default methods, the requested headers reflected.\<close>

definition cors_preflight :: "client_request \<Rightarrow> server_reply" where
  "cors_preflight req =
     \<lparr>reply_status = 204,
      reply_headers =
        base_headers @
        [(''Access-Control-Allow-Methods'', ''GET,HEAD,PUT,PATCH,POST,DELETE''),
         (''Vary'', ''Access-Control-Request-Headers'')] @
        (case req_header req ''access-control-request-headers'' of
           Some h \<Rightarrow> if h = [] then [] else [(''Access-Control-Allow-Headers'', h)]
         | None \<Rightarrow> []) @
        [(''Content-Length'', ''0'')],
      reply_content = No_content\<rparr>"

subsection \<open>express.json() (line 11)\<close>

text \<open>The \<open>Content-Type\<close> header as type-is reads it with media-typer: a type and a
  subtype of RFC 6838 restricted names (optionally surrounded by spaces), then parameters
  \<open>; key=value\<close> of RFC 7230 tokens or quoted strings, each starting exactly where the
  previous one ends and the last one ending the header. A header that does not parse is no
  JSON media type, so the parser skips the body. \<open>media_type_of\<close> is media-typer's
  \<open>splitType\<close> followed by \<open>format\<close>, which splits a suffix at the last \<open>+\<close>
  and leaves it out when it is empty.\<close>

definition ascii_alnum :: "char \<Rightarrow> bool" where
  "ascii_alnum c \<longleftrightarrow>
     (let k = (of_char c :: nat) in (48 \<le> k \<and> k \<le> 57) \<or> (65 \<le> k \<and> k \<le> 90) \<or> (97 \<le> k \<and> k \<le> 122))"

definition tchar :: "char \<Rightarrow> bool" where
  "tchar c \<longleftrightarrow> ascii_alnum c \<or> c \<in> set (''!#$%&*+-.^_`|~'' @ [CHR 0x27])"

definition name_char :: "char \<Rightarrow> bool" where
  "name_char c \<longleftrightarrow> ascii_alnum c \<or> c \<in> set ''!#$&^_-''"

definition restricted_name :: "(char \<Rightarrow> bool) \<Rightarrow> string \<Rightarrow> bool" where
  "restricted_name ok s \<longleftrightarrow> s \<noteq> [] \<and> length s \<le> 127 \<and> ascii_alnum (hd s) \<and> list_all ok (tl s)"

definition strip_spaces :: "string \<Rightarrow> string" where
  "strip_spaces s = rev (dropWhile (\<lambda>c. c = CHR '' '') (rev (dropWhile (\<lambda>c. c = CHR '' '') s)))"

definition media_type_of :: "string \<Rightarrow> string option" where
  "media_type_of t =
     (let u = map ascii_lower (strip_spaces t);
          ty = takeWhile (\<lambda>c. c \<noteq> CHR ''/'') u;
          st = drop 1 (dropWhile (\<lambda>c. c \<noteq> CHR ''/'') u);
          sub = (if CHR ''+'' \<in> set st then rev (drop 1 (dropWhile (\<lambda>c. c \<noteq> CHR ''+'') (rev st))) else st);
          suffix = (if CHR ''+'' \<in> set st then rev (takeWhile (\<lambda>c. c \<noteq> CHR ''+'') (rev st)) else [])
      in if CHR ''/'' \<in> set u \<and> restricted_name name_char ty \<and>
            restricted_name (\<lambda>c. name_char c \<or> c = CHR ''.'' \<or> c = CHR ''+'') st \<and>
            restricted_name (\<lambda>c. name_char c \<or> c = CHR ''.'') sub \<and>
            (suffix = [] \<or> restricted_name name_char suffix)
         then Some (ty @ CHR ''/'' # sub @ (if suffix = [] then [] else CHR ''+'' # suffix))
         else None)"

definition qdtext :: "char \<Rightarrow> bool" where
  "qdtext c \<longleftrightarrow>
     (let k = (of_char c :: nat) in k = 32 \<or> k = 33 \<or> (35 \<le> k \<and> k \<le> 91) \<or> (93 \<le> k \<and> k \<le> 126) \<or> 128 \<le> k)"

fun quoted_rest :: "string \<Rightarrow> string \<Rightarrow> (string \<times> string) option" where
  "quoted_rest acc [] = None"
| "quoted_rest acc (c # cs) =
     (if c = CHR 0x22 then Some (rev acc, cs)
      else if c = CHR 0x5C then
        (case cs of
           d # ds \<Rightarrow>
             if 32 \<le> (of_char d :: nat) \<and> (of_char d :: nat) \<le> 126 then quoted_rest (d # acc) ds else None
         | [] \<Rightarrow> None)
      else if qdtext c then quoted_rest (c # acc) cs
      else None)"

definition param_value :: "string \<Rightarrow> (string \<times> string) option" where
  "param_value s =
     (case s of
        c # cs \<Rightarrow> if c = CHR 0x22 then quoted_rest [] cs
                  else if tchar c then Some (takeWhile tchar s, dropWhile tchar s) else None
      | [] \<Rightarrow> None)"

definition skip_sp :: "string \<Rightarrow> string" where
  "skip_sp s = dropWhile (\<lambda>x. x = CHR '' '') s"

function media_params :: "string \<Rightarrow> (string \<times> string) list option" where
  "media_params [] = Some []"
| "media_params (c # cs) =
     (if c \<noteq> CHR '';'' \<or> takeWhile tchar (skip_sp cs) = [] then None
      else (case skip_sp (dropWhile tchar (skip_sp cs)) of
              e # r \<Rightarrow>
                if e \<noteq> CHR ''='' then None
                else (case param_value (skip_sp r) of
                        Some (v, r') \<Rightarrow>
                          map_option (Cons (map ascii_lower (takeWhile tchar (skip_sp cs)), v))
                            (media_params (skip_sp r'))
                      | None \<Rightarrow> None)
            | [] \<Rightarrow> None))"
  by pat_completeness auto
termination
proof -
  have q: "quoted_rest acc s = Some (v, r) \<Longrightarrow> length r < length s" for acc s v r
    by (induction acc s rule: quoted_rest.induct) (auto split: if_splits list.splits)
  have pv: "param_value s = Some (v, r) \<Longrightarrow> length r < length s" for s v r
    by (auto simp: param_value_def split: list.splits if_splits dest: q
             intro: le_imp_less_Suc length_dropWhile_le)
  have sk: "length (skip_sp s) \<le> length s" for s
    by (simp add: skip_sp_def length_dropWhile_le)
  have step: "length (skip_sp r') < Suc (length cs)"
    if "skip_sp (dropWhile tchar (skip_sp cs)) = e # r" and "param_value (skip_sp r) = Some p"
      and "(v, r') = p" for cs e r p v r'
  proof -
    have "length (e # r) \<le> length cs"
      using that(1) sk[of "dropWhile tchar (skip_sp cs)"] sk[of cs] length_dropWhile_le[of tchar "skip_sp cs"]
      by simp
    moreover have "length r' < length (skip_sp r)" using pv that(2,3) by blast
    ultimately show ?thesis using sk[of r'] sk[of r] by simp
  qed
  show ?thesis
    apply (relation "measure length")
     apply simp_all
    by (rule step) assumption+
qed

definition parse_content_type :: "string \<Rightarrow> (string \<times> (string \<times> string) list) option" where
  "parse_content_type ct =
     (if ct = [] then None
      else case media_type_of (takeWhile (\<lambda>c. c \<noteq> CHR '';'') ct) of
             None \<Rightarrow> None
           | Some mt \<Rightarrow> map_option (Pair mt) (media_params (dropWhile (\<lambda>c. c \<noteq> CHR '';'') ct)))"

text \<open>The \<open>charset\<close> parameter as the parser reads it (content-type's parse, which
  accepts every header media-typer accepts, with the same parameters): the last one, in
  lower case, and \<open>utf-8\<close> when absent or empty.\<close>

definition charset_param :: "(string \<times> string) list \<Rightarrow> string" where
  "charset_param ps =
     (case map_of (rev ps) ''charset'' of
        Some v \<Rightarrow> if v = [] then ''utf-8'' else map ascii_lower v
      | None \<Rightarrow> ''utf-8'')"

text \<open>The length in bytes of the body's UTF-8 form, which the limit of \<open>100kb\<close> bounds.\<close>

definition utf8_length :: "string \<Rightarrow> nat" where
  "utf8_length s = sum_list (map (\<lambda>c. length (utf8_bytes (of_char c))) s)"

text \<open>The \<open>strict\<close> option: the first character after white space opens an object or an
  array.\<close>

definition strict_start :: "string \<Rightarrow> bool" where
  "strict_start b = (case dropWhile json_ws b of c # _ \<Rightarrow> c = CHR ''{'' \<or> c = CHR ''['' | [] \<Rightarrow> False)"

datatype body_check = Body_passes | Body_rejected nat stack_error

text \<open>The parser of \<open>express.json()\<close> with its defaults: a request without a body, or
  whose \<open>Content-Type\<close> does not parse as the media type \<open>application/json\<close>, passes; a charset that does not start with
  \<open>utf-\<close> is a 415, a body over 102400 bytes a 413, and a non-empty body that does not
  start with \<open>{\<close> or \<open>[\<close> or that \<open>JSON.parse\<close> refuses a 400. The empty body
  parses as \<open>{}\<close>.\<close>

definition json_body_check :: "client_request \<Rightarrow> body_check" where
  "json_body_check req =
     (case (req_body req, req_header req ''content-type'') of
        (Some b, Some ct) \<Rightarrow>
          (case parse_content_type ct of
             Some (mt, ps) \<Rightarrow>
               if mt \<noteq> ''application/json'' then Body_passes
               else if take 4 (charset_param ps) \<noteq> ''utf-'' then
                 Body_rejected 415 (Charset_unsupported (charset_param ps))
               else if 102400 < utf8_length b then Body_rejected 413 Entity_too_large
               else if b = [] then Body_passes
               else if strict_start b \<and> json_text_ok b then Body_passes
               else Body_rejected 400 Json_syntax_error
           | None \<Rightarrow> Body_passes)
      | _ \<Rightarrow> Body_passes)"

subsection \<open>Replies of the router and the final handler\<close>

text \<open>The final handler's page: its security headers, and as text the error's stack
  unless \<open>env\<close> is \<open>production\<close>, where only the status message is shown.\<close>

definition error_headers :: "(string \<times> string) list" where
  "error_headers =
     base_headers @
     [(''Content-Security-Policy'', ''default-src '' @ [CHR 0x27] @ ''none'' @ [CHR 0x27]),
      (''X-Content-Type-Options'', ''nosniff''),
      (''Content-Type'', ''text/html; charset=utf-8'')]"

definition error_page :: "config \<Rightarrow> nat \<Rightarrow> stack_error \<Rightarrow> server_reply" where
  "error_page cfg st e =
     \<lparr>reply_status = st, reply_headers = error_headers,
      reply_content = Error_doc st (if app_env cfg = ''production'' then None else Some e)\<rparr>"

text \<open>A request no layer answers: 404 \<open>Cannot METHOD path\<close>.\<close>

definition not_found_page :: "client_request \<Rightarrow> server_reply" where
  "not_found_page req =
     \<lparr>reply_status = 404, reply_headers = error_headers,
      reply_content = Cannot_doc (req_method req) (pathname (req_target req))\<rparr>"

text \<open>\<open>res.json(v)\<close> and \<open>res.status(s).json(v)\<close> of the handlers.\<close>

definition json_reply :: "http_response \<Rightarrow> server_reply" where
  "json_reply r =
     \<lparr>reply_status = status r,
      reply_headers = base_headers @ [(''Content-Type'', ''application/json; charset=utf-8'')],
      reply_content = Json_text (resp_body r)\<rparr>"

text \<open>\<open>res.sendFile(path.join(__dirname, f))\<close> of the page routes (lines 59--66), for the
  directory \<open>dir\<close> of \<open>server.js\<close> relative to the working directory that
  \<open>express.static('.')\<close> serves. A missing file is a 404 error (\<open>ENOENT\<close>); a directory
  passes on (\<open>EISDIR\<close>), and no later route matches the path.\<close>

definition send_page :: "config \<Rightarrow> string list set \<Rightarrow> string list \<Rightarrow> client_request \<Rightarrow> string \<Rightarrow> server_reply" where
  "send_page cfg files dir req f =
     (if dir @ [f] \<in> files then
        \<lparr>reply_status = 200, reply_headers = base_headers, reply_content = File_sent (dir @ [f])\<rparr>
      else if is_directory files (dir @ [f]) then not_found_page req
      else error_page cfg 404 (File_not_found (dir @ [f])))"

text \<open>Node sends no body in reply to \<open>HEAD\<close>.\<close>

definition head_strip :: "client_request \<Rightarrow> server_reply \<Rightarrow> server_reply" where
  "head_strip req r = (if req_method req = ''HEAD'' then r\<lparr>reply_content := No_content\<rparr> else r)"

subsection \<open>The stack\<close>

text \<open>A request is answered by a layer before the handlers, or reaches a JSON route.\<close>

datatype stage = Answered server_reply | To_route route

definition stage_of_served :: "config \<Rightarrow> string list set \<Rightarrow> string list \<Rightarrow> client_request \<Rightarrow> served \<Rightarrow> stage" where
  "stage_of_served cfg files dir req s =
     (case s of
        Static_file f \<Rightarrow>
          Answered \<lparr>reply_status = 200, reply_headers = base_headers, reply_content = File_sent f\<rparr>
      | Redirect loc \<Rightarrow>
          Answered \<lparr>reply_status = 301, reply_headers = error_headers @ [(''Location'', loc)],
                    reply_content = Redirect_doc loc\<rparr>
      | Page f \<Rightarrow> Answered (send_page cfg files dir req f)
      | Api r \<Rightarrow> To_route r
      | Bad_request \<Rightarrow> Answered (error_page cfg 400 Param_decode_failed)
      | Not_found p \<Rightarrow> Answered (not_found_page req))"

text \<open>The layers in the order of lines 10--12 and the router: \<open>cors()\<close> answers
  \<open>OPTIONS\<close>; \<open>express.json()\<close> may reject the body; static files and routes exist
  only for GET and HEAD.\<close>

definition middleware :: "config \<Rightarrow> string list set \<Rightarrow> string list \<Rightarrow> client_request \<Rightarrow> stage" where
  "middleware cfg files dir req =
     (if req_method req = ''OPTIONS'' then Answered (cors_preflight req)
      else case json_body_check req of
        Body_rejected st e \<Rightarrow> Answered (error_page cfg st e)
      | Body_passes \<Rightarrow>
          if req_method req = ''GET'' \<or> req_method req = ''HEAD''
          then stage_of_served cfg files dir req (app_dispatch files (req_target req))
          else Answered (not_found_page req))"

text \<open>One request through the whole application: the middleware, then the route's
  handler and \<open>res.json\<close>.\<close>

definition server :: "config \<Rightarrow> string list set \<Rightarrow> string list \<Rightarrow> client_request \<Rightarrow> (cache, server_reply) prog" where
  "server cfg files dir req =
     (case middleware cfg files dir req of
        Answered r \<Rightarrow> Ret (head_strip req r)
      | To_route rt \<Rightarrow> bind (handler cfg rt) (\<lambda>resp. Ret (head_strip req (json_reply resp))))"

text \<open>A request without the header fields that make \<open>send\<close> and \<open>res.send\<close> answer
  conditionally or partially (304, 412, 206, 416): the replies of the model are those of
  such requests, since the validators those answers compare (ETags, modification times) are
  not modelled.\<close>

definition unconditional :: "client_request \<Rightarrow> bool" where
  "unconditional req \<longleftrightarrow>
     list_all (\<lambda>h. req_header req h = None)
       [''if-none-match'', ''if-modified-since'', ''if-match'', ''if-unmodified-since'', ''range'']"

text \<open>A GET without a body, and a deployment started from the repository's root, with
  \<open>server.js\<close> under \<open>src/\<close> and the pages beside the working directory's root.\<close>

definition get_request :: "string \<Rightarrow> client_request" where
  "get_request u = \<lparr>req_method = ''GET'', req_target = u, req_headers = [], req_body = None\<rparr>"

definition root_files :: "string list set" where
  "root_files = {[''index.html''], [''embed.html''], [''src'', ''server.js'']}"

subsection \<open>Lemmas\<close>

lemma exec_server:
  "exec n (server cfg files dir req) c t =
     (case middleware cfg files dir req of
        Answered r \<Rightarrow> \<lparr>ret = head_strip req r, state = c, clock = t, events = []\<rparr>
      | To_route rt \<Rightarrow>
          (let x = exec n (handler cfg rt) c t in
           \<lparr>ret = head_strip req (json_reply (ret x)), state = state x, clock = clock x, events = events x\<rparr>))"
  by (cases "middleware cfg files dir req") (simp_all add: server_def exec_bind Let_def)

lemma head_strip_status [simp]: "reply_status (head_strip req r) = reply_status r"
  by (simp add: head_strip_def)

lemma head_strip_headers [simp]: "reply_headers (head_strip req r) = reply_headers r"
  by (simp add: head_strip_def)

text \<open>A code unit below 256 takes one or two bytes in UTF-8, so the byte length of a
  body lies between its length and twice its length.\<close>

lemma utf8_length_bounds: "length s \<le> utf8_length s \<and> utf8_length s \<le> 2 * length s"
  by (induction s) (simp_all add: utf8_length_def utf8_bytes_def)

lemma json_body_check_status:
  "json_body_check req = Body_rejected st e \<Longrightarrow> st \<in> {400, 413, 415}"
  by (auto simp: json_body_check_def split: option.splits if_splits prod.splits)

text \<open>The requests that reach a JSON route: GET or HEAD, a body the parser lets pass,
  and a target that the static files and the router send to that route.\<close>

lemma middleware_To_route:
  "middleware cfg files dir req = To_route rt \<longleftrightarrow>
     (req_method req = ''GET'' \<or> req_method req = ''HEAD'') \<and> json_body_check req = Body_passes \<and>
     app_dispatch files (req_target req) = Api rt"
  by (auto simp: middleware_def stage_of_served_def split: body_check.splits served.splits)

lemma send_page_reply:
  "reply_status (send_page cfg files dir req f) \<in> {200, 404} \<and>
   (''Access-Control-Allow-Origin'', ''*'') \<in> set (reply_headers (send_page cfg files dir req f))"
  by (simp add: send_page_def not_found_page_def error_page_def error_headers_def base_headers_def)

lemma middleware_Answered:
  assumes "middleware cfg files dir req = Answered r"
  shows "reply_status r \<in> {200, 204, 301, 400, 404, 413, 415} \<and>
         (''Access-Control-Allow-Origin'', ''*'') \<in> set (reply_headers r)"
proof -
  have base: "(''Access-Control-Allow-Origin'', ''*'') \<in> set base_headers"
    and err: "(''Access-Control-Allow-Origin'', ''*'') \<in> set error_headers"
    by (simp_all add: base_headers_def error_headers_def)
  show ?thesis
    using assms send_page_reply[of cfg files dir req] json_body_check_status[of req]
    by (auto simp: middleware_def stage_of_served_def cors_preflight_def error_page_def
                   not_found_page_def base err
             split: if_splits body_check.splits served.splits)
qed

lemma path_matches_embed_not_root:
  "path_matches ''/embed'' p \<Longrightarrow> \<not> path_matches ''/'' p"
  by (auto simp: path_matches_def)

lemma safe_at_server:
  assumes "\<And>s. cache_wf s \<Longrightarrow>
             safe_at cache_wf A C (\<lambda>r. \<forall>tok. r = Inr tok \<longrightarrow> G tok) s (get_access_token cfg)"
    and "\<And>path tok. G tok \<Longrightarrow> path \<in> {''/api/users'', ''/api/companies''} \<Longrightarrow>
           A (partner_request cfg path tok)"
    and "\<And>d. A (logo_request cfg d)" and "cache_wf s"
  shows "safe_at cache_wf A C (\<lambda>_. True) s (server cfg files dir req)"
proof (cases "middleware cfg files dir req")
  case (To_route rt)
  have "safe_at cache_wf A C (\<lambda>_. True) s (handler cfg rt)"
    using assms by (rule safe_at_handler)
  then show ?thesis
    unfolding server_def To_route stage.case
    by (rule safe_at_bind) (rule safe_Ret, simp)
qed (simp add: server_def)


text \<open>A header that media-typer refuses, such as one with a trailing \<open>;\<close>, is no JSON
  media type.\<close>

lemma trailing_semicolon_not_json: "parse_content_type ''application/json;'' = None"
  by code_simp

text \<open>C21: every request to the application without conditional or range header
  fields, whatever its method, target, other headers and body and whatever the upstreams
  do, is answered with one of the statuses 200, 204, 301, 400, 404, 413, 415 and 500, and
  the answer carries \<open>Access-Control-Allow-Origin: *\<close>: no error escapes a handler or a
  middleware.\<close>

theorem server_always_responds:
  assumes "unconditional req"
  shows "reply_status (ret (exec n (server cfg files dir req) c t)) \<in> {200, 204, 301, 400, 404, 413, 415, 500} \<and>
         (''Access-Control-Allow-Origin'', ''*'') \<in> set (reply_headers (ret (exec n (server cfg files dir req) c t)))"
proof (cases "middleware cfg files dir req")
  case (Answered r)
  then show ?thesis using middleware_Answered[OF Answered] by (auto simp: exec_server)
next
  case (To_route rt)
  then show ?thesis
    using handlers_always_respond[of n cfg rt c t]
    by (auto simp: exec_server json_reply_def base_headers_def Let_def)
qed

theorem server_always_responds_witness:
  "unconditional (get_request ''/api/config'') \<and>
   reply_status (ret (exec (net_after 10 Network_failure)
     (server example_config root_files [''src''] (get_request ''/api/config'')) cache_init 0))
     \<in> {200, 204, 301, 400, 404, 413, 415, 500} \<and>
   (''Access-Control-Allow-Origin'', ''*'') \<in> set (reply_headers (ret (exec (net_after 10 Network_failure)
     (server example_config root_files [''src''] (get_request ''/api/config'')) cache_init 0)))"
proof -
  have u: "unconditional (get_request ''/api/config'')"
    by (simp add: unconditional_def req_header_def get_request_def)
  from u server_always_responds[OF u, of "net_after 10 Network_failure" example_config root_files
        "[''src'']" cache_init 0]
  show ?thesis by (rule conjI)
qed

text \<open>C22: a request changes the token cache only when it is a GET or HEAD whose body the
  JSON parser lets pass and whose target the application sends to \<open>/api/users\<close> or
  \<open>/api/companies\<close>, and then exactly as \<open>getAccessToken\<close> does; every other
  request, including every preflight, every rejected body, every static file and every
  other route, leaves the cache as it was.\<close>

theorem server_cache_frame:
  "state (exec n (server cfg files dir req) c t) =
     (if (req_method req = ''GET'' \<or> req_method req = ''HEAD'') \<and> json_body_check req = Body_passes \<and>
         app_dispatch files (req_target req) \<in> {Api Users, Api Companies}
      then state (exec n (get_access_token cfg) c t) else c)"
proof (cases "middleware cfg files dir req")
  case (Answered r)
  then have "\<not> ((req_method req = ''GET'' \<or> req_method req = ''HEAD'') \<and>
               json_body_check req = Body_passes \<and> app_dispatch files (req_target req) = Api rt)" for rt
    using middleware_To_route[of cfg files dir req rt] by simp
  then show ?thesis using Answered by (auto simp: exec_server)
next
  case (To_route rt)
  then show ?thesis
    using middleware_To_route[of cfg files dir req rt] handlers_cache_frame[of n cfg rt c t]
    by (auto simp: exec_server Let_def)
qed

text \<open>C23: \<open>cors()\<close> answers every \<open>OPTIONS\<close> request itself, for any target, with its
  preflight reply: no handler runs, nothing is sent upstream, and the cache and the clock
  are unchanged.\<close>

theorem options_preflight_answered:
  assumes "req_method req = ''OPTIONS''"
  shows "exec n (server cfg files dir req) c t = \<lparr>ret = cors_preflight req, state = c, clock = t, events = []\<rparr>"
  using assms by (simp add: exec_server middleware_def head_strip_def)

theorem options_preflight_answered_witness:
  "exec (net_after 10 Network_failure)
     (server example_config root_files [''src'']
        \<lparr>req_method = ''OPTIONS'', req_target = ''/api/users'',
         req_headers = [(''access-control-request-headers'', ''content-type'')], req_body = None\<rparr>)
     cache_init 0 =
     \<lparr>ret = cors_preflight \<lparr>req_method = ''OPTIONS'', req_target = ''/api/users'',
         req_headers = [(''access-control-request-headers'', ''content-type'')], req_body = None\<rparr>,
      state = cache_init, clock = 0, events = []\<rparr> \<and>
   reply_status (cors_preflight \<lparr>req_method = ''OPTIONS'', req_target = ''/api/users'',
         req_headers = [(''access-control-request-headers'', ''content-type'')], req_body = None\<rparr>) = 204 \<and>
   (''Access-Control-Allow-Headers'', ''content-type'') \<in>
     set (reply_headers (cors_preflight \<lparr>req_method = ''OPTIONS'', req_target = ''/api/users'',
         req_headers = [(''access-control-request-headers'', ''content-type'')], req_body = None\<rparr>))"
  using options_preflight_answered[of "\<lparr>req_method = ''OPTIONS'', req_target = ''/api/users'',
         req_headers = [(''access-control-request-headers'', ''content-type'')], req_body = None\<rparr>"
      "net_after 10 Network_failure" example_config root_files "[''src'']" cache_init 0]
  by (simp add: cors_preflight_def req_header_def)

text \<open>C19: the page routes send files from the directory of \<open>server.js\<close>
  (\<open>__dirname\<close>), not from the working directory that \<open>express.static('.')\<close> serves:
  a GET of \<open>/embed\<close> that no static file answers, when \<open>embed.html\<close> is not in that
  directory, is answered 404 by the final handler with the \<open>ENOENT\<close> error, whatever the
  working directory holds, and nothing else happens.\<close>

theorem embed_page_from_server_dir:
  assumes "req_method req = ''GET'' \<or> req_method req = ''HEAD''"
    and "json_body_check req = Body_passes"
    and "static_serve files (req_target req) = None"
    and "path_matches ''/embed'' (pathname (req_target req))"
    and "dir @ [''embed.html''] \<notin> files" and "\<not> is_directory files (dir @ [''embed.html''])"
  shows "exec n (server cfg files dir req) c t =
           \<lparr>ret = head_strip req (error_page cfg 404 (File_not_found (dir @ [''embed.html'']))),
            state = c, clock = t, events = []\<rparr>"
proof -
  have "app_dispatch files (req_target req) = Page ''embed.html''"
    using assms(3,4) path_matches_embed_not_root by (simp add: app_dispatch_def route_dispatch_def)
  then show ?thesis
    using assms(1,2,5,6) by (auto simp: exec_server middleware_def stage_of_served_def send_page_def)
qed

theorem embed_page_from_server_dir_witness:
  "exec (net_after 10 Network_failure) (server example_config root_files [''src''] (get_request ''/embed''))
     cache_init 0 =
     \<lparr>ret = error_page example_config 404 (File_not_found [''src'', ''embed.html'']),
      state = cache_init, clock = 0, events = []\<rparr> \<and>
   reply_content (error_page example_config 404 (File_not_found [''src'', ''embed.html''])) =
     Error_doc 404 (Some (File_not_found [''src'', ''embed.html''])) \<and>
   app_dispatch root_files ''/embed.html'' = Static_file [''embed.html'']"
proof -
  have s: "static_serve root_files ''/embed'' = None" by code_simp
  have pm: "path_matches ''/embed'' (pathname ''/embed'')" by code_simp
  have nf: "[''src''] @ [''embed.html''] \<notin> root_files" by (simp add: root_files_def)
  have d: "\<not> is_directory root_files ([''src''] @ [''embed.html''])"
    by (simp add: is_directory_def root_files_def)
  have e: "app_dispatch root_files ''/embed.html'' = Static_file [''embed.html'']" by code_simp
  have b: "json_body_check (get_request ''/embed'') = Body_passes"
    by (simp add: json_body_check_def get_request_def)
  have "exec (net_after 10 Network_failure) (server example_config root_files [''src''] (get_request ''/embed''))
          cache_init 0 =
          \<lparr>ret = head_strip (get_request ''/embed'') (error_page example_config 404 (File_not_found ([''src''] @ [''embed.html'']))),
           state = cache_init, clock = 0, events = []\<rparr>"
    by (rule embed_page_from_server_dir) (simp_all add: get_request_def s pm, simp_all add: nf[simplified] d[simplified] b[unfolded get_request_def])
  then show ?thesis
    using e by (simp add: head_strip_def get_request_def error_page_def app_env_def example_config_def)
qed

text \<open>C30: \<open>express.json()\<close> rejects, before any static file or route, every request
  other than a preflight whose \<open>Content-Type\<close> parses as \<open>application/json\<close> with a
  UTF charset and whose body, within the limit, is not empty and either does not
  start with \<open>{\<close> or \<open>[\<close> or is not JSON: the reply is the final handler's 400 page,
  which outside \<open>production\<close> shows the parser's error, nothing is sent upstream and the
  cache is unchanged. A GET to \<open>/api/users\<close> with such a body never fetches a token.\<close>

theorem malformed_json_body_rejected:
  assumes "req_method req \<noteq> ''OPTIONS''" and "req_body req = Some b"
    and "req_header req ''content-type'' = Some ct"
    and "parse_content_type ct = Some (''application/json'', ps)"
    and "take 4 (charset_param ps) = ''utf-''" and "utf8_length b \<le> 102400" and "b \<noteq> []"
    and "\<not> (strict_start b \<and> json_text_ok b)"
  shows "exec n (server cfg files dir req) c t =
           \<lparr>ret = head_strip req (error_page cfg 400 Json_syntax_error), state = c, clock = t, events = []\<rparr>"
proof -
  have "json_body_check req = Body_rejected 400 Json_syntax_error"
    using assms(2-8) by (auto simp: json_body_check_def)
  then show ?thesis using assms(1) by (simp add: exec_server middleware_def)
qed

theorem malformed_json_body_rejected_witness:
  "exec (net_after 10 Network_failure)
     (server example_config root_files [''src'']
        \<lparr>req_method = ''GET'', req_target = ''/api/users'',
         req_headers = [(''content-type'', ''application/json'')], req_body = Some ''{bad''\<rparr>)
     cache_init 0 =
     \<lparr>ret = error_page example_config 400 Json_syntax_error, state = cache_init, clock = 0, events = []\<rparr> \<and>
   exec (net_after 10 Network_failure)
     (server example_config root_files [''src'']
        \<lparr>req_method = ''GET'', req_target = ''/api/users'',
         req_headers = [(''content-type'', ''application/json'')], req_body = Some ''1''\<rparr>)
     cache_init 0 =
     \<lparr>ret = error_page example_config 400 Json_syntax_error, state = cache_init, clock = 0, events = []\<rparr>"
proof -
  have m: "parse_content_type ''application/json'' = Some (''application/json'', [])" by code_simp
  have cs: "take 4 (charset_param []) = ''utf-''" by (simp add: charset_param_def)
  have l1: "utf8_length ''{bad'' \<le> 102400" and l2: "utf8_length ''1'' \<le> 102400"
    using utf8_length_bounds[of "''{bad''"] utf8_length_bounds[of "''1''"] by simp_all
  have j1: "\<not> (strict_start ''{bad'' \<and> json_text_ok ''{bad'')" by code_simp
  have j2: "\<not> (strict_start ''1'' \<and> json_text_ok ''1'')" by code_simp
  show ?thesis
    using malformed_json_body_rejected[of "\<lparr>req_method = ''GET'', req_target = ''/api/users'',
            req_headers = [(''content-type'', ''application/json'')], req_body = Some ''{bad''\<rparr>"
            "''{bad''" "''application/json''" "[]" "net_after 10 Network_failure" example_config root_files
            "[''src'']" cache_init 0]
          malformed_json_body_rejected[of "\<lparr>req_method = ''GET'', req_target = ''/api/users'',
            req_headers = [(''content-type'', ''application/json'')], req_body = Some ''1''\<rparr>"
            "''1''" "''application/json''" "[]" "net_after 10 Network_failure" example_config root_files
            "[''src'']" cache_init 0]
          m cs l1 l2 j1 j2
    by (simp add: req_header_def head_strip_def)
qed

text \<open>C26: in every state the event loop reaches from the initial cache, by any
  interleaving of any HTTP requests to the application, any clock, and any answers of the
  upstreams in which the token endpoint keeps its contract on \<open>access_token\<close>, the cache
  holds \<open>null\<close>, \<open>undefined\<close> or a string as its token.\<close>

theorem server_reachable_cache_wf:
  assumes "(loop_step (range (server cfg files dir)) (\<lambda>q v. q = token_request cfg \<longrightarrow> token_contract v))\<^sup>*\<^sup>*
             (world_init cache_init t) w"
  shows "cache_wf (shared w)"
proof -
  let ?C = "\<lambda>q v. q = token_request cfg \<longrightarrow> token_contract v"
  have tok: "safe_at cache_wf (\<lambda>_. True) ?C (\<lambda>r. \<forall>tok. r = Inr tok \<longrightarrow> True) s (get_access_token cfg)"
    for s by (rule safe_at_mono[OF safe_at_get_access_token_wf]) simp_all
  have "world_ok cache_wf (\<lambda>_. True) ?C (\<lambda>_. True) w"
    using assms by (rule reachable_world_ok) (auto intro: safe_at_server[OF tok])
  then show ?thesis by (simp add: world_ok_def)
qed

theorem server_reachable_cache_wf_witness:
  "(loop_step (range (server example_config root_files [''src'']))
      (\<lambda>q v. q = token_request example_config \<longrightarrow> token_contract v))\<^sup>*\<^sup>*
      (world_init cache_init 0) (arrive (server example_config root_files [''src''] (get_request ''/api/users''))
                                   (world_init cache_init 0)) \<and>
   cache_wf (shared (arrive (server example_config root_files [''src''] (get_request ''/api/users''))
                       (world_init cache_init 0)))"
proof -
  have r: "(loop_step (range (server example_config root_files [''src'']))
             (\<lambda>q v. q = token_request example_config \<longrightarrow> token_contract v))\<^sup>*\<^sup>*
             (world_init cache_init 0) (arrive (server example_config root_files [''src''] (get_request ''/api/users''))
                                          (world_init cache_init 0))"
    by (rule r_into_rtranclp, rule step_arrive, rule rangeI)
  from r server_reachable_cache_wf[OF r] show ?thesis by (rule conjI)
qed






end
