(* ===== verification/Spec2Isabelle.thy ===== *)
theory Spec2Isabelle
  imports Http_Stack
begin

text \<open>
  \<^bold>\<open>A verification development of the Fortium Partners logo-wall gateway.\<close>

  The program (\<open>src/server.js\<close>, one Express application) is a gateway between a
  browser page and two upstream HTTP APIs. Its only state is the access-token cache: the
  module variables \<open>accessToken\<close> and \<open>tokenExpiry\<close> (lines 15--16), read and
  written by \<open>getAccessToken\<close> (lines 19--56), which returns the cached token while
  \<open>Date.now() < tokenExpiry\<close> and otherwise performs the OAuth2 client-credentials
  exchange and overwrites both variables. The partner-API routes (\<open>/api/users\<close>,
  \<open>/api/companies\<close>) call it and relay the upstream body; \<open>/api/logo/:domain\<close>
  queries the logo API with a static key; \<open>/api/config\<close> exposes a public token.
  Requests run concurrently on one event loop and interleave at every \<open>await\<close>.

  \<^bold>\<open>Theories.\<close>
  \<^item> \<open>Prelude\<close>: the fact collections \<open>js_simps\<close> and \<open>run_simps\<close> and the
    type of clock readings (\<open>ms\<close>, whole milliseconds of \<open>Date.now()\<close>).
  \<^item> \<open>JS_Values\<close>: the JavaScript semantics the code relies on: JSON values,
    \<open>undefined\<close>, numbers with \<open>NaN\<close>, truthiness, \<open>ToNumber\<close>/\<open>ToString\<close>,
    property access with its \<open>TypeError\<close>, \<open>substring\<close>.
  \<^item> \<open>Effects\<close>: an \<open>async\<close> function as a program over the effects
    \<open>Get\<close>/\<open>Put\<close> (module state), \<open>Now\<close> (\<open>Date.now()\<close>), \<open>Log\<close>
    (\<open>console\<close>) and \<open>Await\<close> (one \<open>fetch\<close> with its \<open>response.json()\<close>); \<open>bind\<close>,
    \<open>bind_exn\<close> (an \<open>await\<close> inside \<open>try\<close>), \<open>try_catch\<close>, \<open>js_fetch\<close>; and
    \<open>exec\<close>, the run of one request against a network oracle that maps a request and its
    send time to the arrival time and the outcome.
  \<^item> \<open>Token_Fetcher\<close>: the configuration (\<open>process.env\<close>), the token request
    (lines 27--38) and \<open>fetch_token\<close> (lines 26--44) with its pure reply
    \<open>token_reply\<close>.
  \<^item> \<open>Token_Cache\<close>: the record \<open>cache\<close> (lines 15--16), the guard
    \<open>token_usable\<close> (line 21), \<open>store_token\<close> (lines 45--51) and
    \<open>get_access_token\<close> (lines 19--56); the driver \<open>calls\<close> for requests that do not
    overlap; the invariant \<open>cache_wf\<close>; the contracts \<open>token_contract\<close> and
    \<open>upstream_contract\<close> of the token endpoint; and the abstract single-slot cell
    \<open>spec_get\<close> with the abstraction \<open>abs_cache\<close>.
  \<^item> \<open>Proxy_Handlers\<close>: the responses (\<open>http_response\<close>, \<open>error_response\<close>) and
    the \<open>try\<close>/\<open>catch\<close> of every route (\<open>handle\<close>); \<open>partner_proxy\<close>, the
    shared body of \<open>/api/users\<close> (lines 69--91, \<open>api_users\<close>) and
    \<open>/api/companies\<close> (lines 93--115, \<open>api_companies\<close>), which awaits
    \<open>get_access_token\<close> and then one GET with \<open>partner_request\<close>; \<open>api_config\<close>
    (lines 121--125); \<open>api_logo\<close> (lines 128--154) with \<open>encode_uri_component\<close>,
    \<open>logo_request\<close> and the reply \<open>logo_reply\<close>; and \<open>handler\<close>, the dispatch of the
    four JSON routes (\<open>route\<close>). \<open>decode_uri_component\<close> is the logo API's
    decoding of the query, used only to state the round trip.
  \<^item> \<open>Concurrency\<close>: Node's event loop. A \<open>world\<close> holds the cache
    (\<open>shared\<close>), the clock, the handlers in flight (\<open>tasks\<close>, each finished or
    suspended at an \<open>Await\<close>) and the trace. \<open>run_sync\<close> runs a handler up to its
    next \<open>await\<close> without interruption. \<open>arrive\<close> starts a handler on a new
    request. \<open>resume\<close> delivers the response a handler waits on. \<open>loop_step\<close> is
    the step relation: arrivals from a set of handlers, responses allowed by a network
    contract, and ticks of the clock. \<open>refresh_wait\<close> is \<open>getAccessToken\<close>
    suspended at its \<open>await fetch\<close>. The predicate \<open>safe_at\<close> follows the
    structure of a handler and carries an invariant of the cache, a property of the requests
    sent and a property of the results through any interleaving; \<open>world_ok\<close> lifts it
    to a world, and \<open>reachable_world_ok\<close> proves it for every reachable world by
    rule induction.
  \<^item> \<open>Request_Runs\<close>: \<open>exec_loop_steps\<close> replays a sequential run \<open>exec\<close> as
    steps of the loop: a tick to each response time, then a resume. \<open>settles_within m p\<close>
    is an inductive bound on how often \<open>p\<close> suspends. It is proved compositionally
    through \<open>bind\<close>, \<open>bind_exn\<close>, \<open>try_catch\<close> and \<open>handle\<close>, and it bounds the
    requests \<open>exec\<close> sends.
  \<^item> \<open>Server_App\<close>: the Express application around the handlers. It holds
    \<open>listen_port\<close> (line 7) and the start-up output \<open>startup_report\<close> and
    \<open>startup_log\<close> (lines 156--165). \<open>static_serve\<close> models \<open>express.static('.')\<close>
    (line 12) with the defaults of serve-static and send, built from a JavaScript
    \<open>decodeURIComponent\<close> (\<open>js_decode_uri\<close>), \<open>split('/')\<close> and Node's
    \<open>path.normalize\<close> (\<open>normalize_segs\<close>). \<open>route_dispatch\<close> is the router: the
    registrations of lines 59--154 in order, matched case-insensitively with an optional
    trailing slash. \<open>app_dispatch\<close> puts the static files before the routes. It also
    holds \<open>ecma_encode\<close>, the ECMA-262 reference for \<open>encodeURIComponent\<close>.
  \<^item> \<open>Json_Syntax\<close>: the syntax \<open>JSON.parse\<close> accepts, as \<open>express.json()\<close>
    (line 11) applies it: the lexer \<open>json_lex\<close> (a \<open>function\<close> whose termination is
    proved by the length of the input) and the pushdown automaton \<open>json_accepts\<close>.
  \<^item> \<open>Http_Stack\<close>: one incoming request through the whole application.
    \<open>client_request\<close> and \<open>server_reply\<close> are the request and the reply;
    \<open>app_env\<close> is the \<open>env\<close> of \<open>express()\<close> (line 6); \<open>cors_preflight\<close> and
    \<open>base_headers\<close> are \<open>cors()\<close> (line 10); \<open>json_body_check\<close> is
    \<open>express.json()\<close> (line 11) with type-is and media-typer's \<open>Content-Type\<close> grammar
    (\<open>parse_content_type\<close>); \<open>send_page\<close> is the \<open>sendFile\<close> of the page routes
    (lines 59--66); \<open>error_page\<close> and \<open>not_found_page\<close> are Express's final handler.
    \<open>middleware\<close> is everything before the route handler, a pure function of the
    request, and \<open>server\<close> composes it with \<open>handler\<close> into a program of theory
    \<open>Effects\<close>, so the event loop of theory \<open>Concurrency\<close> runs real HTTP requests.

  \<^bold>\<open>What is proved.\<close> For \<open>getAccessToken\<close>: the result of each branch (refresh,
  cache hit over a sequence of calls, every failure before the assignments); refinement of
  the abstract memo cell under the upstream contract; preservation of the invariant; that
  the margin of 300 s covers a response latency up to 300 s and, for every longer latency,
  lets the token be served past the request time plus its lifetime; and, without the
  upstream contract, a poisoned cache serving a non-string token, an empty token that is
  never cached, and a missing \<open>expires_in\<close> that is accepted. For the fetcher: a
  non-2xx status fails with that status after one request. For the routes: the exact
  response of each branch (upstream error and relayed body on a usable cached token, token
  failure without an upstream request, empty, missing-field and malformed logo results);
  that \<open>encodeURIComponent\<close> is inverted by the decoder, emits none of the query's
  delimiters, and equals the ECMA-262 reference. Under interleaving:
  \<^item> in every reachable world of the whole application, for any HTTP requests, the cache
    stays well formed;
  \<^item> under the full token contract, every request sent is the token request, a logo
    search, or a partner request with a non-empty bearer token;
  \<^item> there is no in-flight guard, so each partner request that meets a stale cache sends
    its own token request;
  \<^item> of two concurrent refreshes the last response wins, while each caller keeps its own
    token;
  \<^item> a failed refresh fails its caller even when a concurrent refresh has just stored a
    usable token.
  For a request: every handler suspends at most twice and so sends at most two requests,
  and \<open>getAccessToken\<close> on a well-formed cache returns a string or throws. For the
  application:
  \<^item> every request without conditional or range header fields is answered with one of
    the statuses 200, 204, 301, 400, 404, 413, 415 and 500, with
    \<open>Access-Control-Allow-Origin: *\<close>;
  \<^item> only a GET or HEAD that reaches \<open>/api/users\<close> or \<open>/api/companies\<close> changes the
    cache, and exactly as \<open>getAccessToken\<close> does;
  \<^item> \<open>cors()\<close> answers every \<open>OPTIONS\<close> itself, with no effect;
  \<^item> \<open>express.json()\<close> answers 400 to a JSON body it refuses, before any route, so such
    a request never fetches a token;
  \<^item> a logo parameter that is not valid percent-encoding is answered 400 by the final
    handler, not by the logo handler;
  \<^item> a HEAD request runs exactly its GET, handler included, without the body;
  \<^item> \<open>/embed\<close> is sent from the directory of \<open>server.js\<close>, so it is a 404 when
    \<open>embed.html\<close> is only in the working directory that the static middleware serves;
  \<^item> the start-up check can pass while every token request throws;
  \<^item> every file of the working directory is served at its URL before any route, and
    \<open>index.html\<close> hides the \<open>/\<close> route;
  \<^item> a file the static middleware sends never lies above the root, and its name never
    starts with a dot; files inside dot directories such as \<open>.git\<close> are served;
  \<^item> each JSON route is reached from the front end's URL for it, unless a static file
    answers first. \<open>logo_path_shadowed_by_static\<close> shows one such case.
  The lemmas \<open>handler_exec_is_loop_run\<close> (a sequential run is a run of the loop) and
  \<open>pending_ends_only_by_response\<close> (the loop has no timeout) are facts of the
  semantics, not of the handlers.

  \<^bold>\<open>Modelling choices.\<close> Strings are lists of code units below 256; numbers are
  integers (the clock is in milliseconds, \<open>expires_in\<close> an integral number of seconds);
  \<open>StringToNumber\<close> reads optionally signed decimal integers and gives \<open>NaN\<close> for other
  literals. \<open>encodeURIComponent\<close> is modelled on code units below 256, whose UTF-8
  encodings have one or two bytes. The \<open>await import('node-fetch')\<close> and the two awaits
  of one exchange are one suspension point, since nothing between them touches shared
  state. In the event loop a synchronous segment reads one clock value, since no time
  passes while it runs. Ticks of any length are separate steps. The code has no loop, so no
  fuel is needed. Every definition is total: most are structurally recursive, and the two
  scanners \<open>json_lex\<close> and \<open>media_params\<close> terminate by the length of their input.
  The Express version is 4, whose send uses the legacy dot-file rule. A request's body is
  its decoded text, its byte length the length of its UTF-8 form. The request's method is
  in upper case and its header names in lower case, as Node delivers them.

  \<^bold>\<open>Not modelled.\<close> Some parts are left out:
  \<^item> the contents of the files that static serving and \<open>sendFile\<close> send: a reply names
    the file;
  \<^item> ETags and modification times, so the 304, 412, 206 and 416 answers of \<open>send\<close> and
    \<open>res.send\<close> to requests with \<open>If-None-Match\<close>, \<open>If-Modified-Since\<close>,
    \<open>If-Match\<close>, \<open>If-Unmodified-Since\<close> or \<open>Range\<close>: replies are those of requests
    without these fields, and the properties about statuses assume them absent;
  \<^item> reply headers other than those of \<open>cors()\<close>, Express's \<open>X-Powered-By\<close>, the
    content types and the final handler's security headers;
  \<^item> the \<open>Content-Encoding\<close> of request bodies and decoding of charsets other than
    UTF-8;
  \<^item> \<open>dotenv\<close>, and the emoji of the log lines.
  \<open>js_decode_uri\<close> treats a valid escape of a code point from 256 on as undecodable.
  Such code points lie outside the code units of the model. JavaScript decodes them.
\<close>

end
